theory Spec2Isabelle
  imports Main "HOL-Library.Word"
begin

unbundle bit_operations_syntax

section \<open>Byte lanes and the SIMD instructions used by the deblocking code\<close>

text \<open>
  The code is x86 assembly over MMX/SSE2 registers.  Every instruction it uses on sample
  data is a packed-byte instruction: it acts on each byte lane of its operands
  independently of the other lanes (the one exception, \<open>psrlw\<close>, acts on 16-bit lanes and
  is modelled on a pair of adjacent bytes further down).  A lane of a register is a
  \<open>byte\<close>; one lane of the picture is one Line of the specification, since the vertical
  filters hold one picture row per register.  The first argument of every instruction is
  its destination operand (or the first source of the three-operand form), the second its
  source operand.
\<close>

type_synonym byte = "8 word"

definition pavgb :: "byte \<Rightarrow> byte \<Rightarrow> byte" where
  "pavgb a b = word_of_int ((uint a + uint b + 1) div 2)"

definition psubusb :: "byte \<Rightarrow> byte \<Rightarrow> byte" where
  "psubusb a b = word_of_int (max 0 (uint a - uint b))"

definition paddusb :: "byte \<Rightarrow> byte \<Rightarrow> byte" where
  "paddusb a b = word_of_int (min 255 (uint a + uint b))"

definition pminub :: "byte \<Rightarrow> byte \<Rightarrow> byte" where
  "pminub a b = min a b"

definition pmaxub :: "byte \<Rightarrow> byte \<Rightarrow> byte" where
  "pmaxub a b = max a b"

definition psubb :: "byte \<Rightarrow> byte \<Rightarrow> byte" where
  "psubb a b = a - b"

definition paddb :: "byte \<Rightarrow> byte \<Rightarrow> byte" where
  "paddb a b = a + b"

definition pxor :: "byte \<Rightarrow> byte \<Rightarrow> byte" where
  "pxor a b = a XOR b"

definition pand :: "byte \<Rightarrow> byte \<Rightarrow> byte" where
  "pand a b = a AND b"

definition por :: "byte \<Rightarrow> byte \<Rightarrow> byte" where
  "por a b = a OR b"

definition pandn :: "byte \<Rightarrow> byte \<Rightarrow> byte" where
  "pandn a b = (NOT a) AND b"

definition pcmpeqb :: "byte \<Rightarrow> byte \<Rightarrow> byte" where
  "pcmpeqb a b = (if a = b then 0xFF else 0)"

definition pcmpgtb :: "byte \<Rightarrow> byte \<Rightarrow> byte" where
  "pcmpgtb a b = (if sint b < sint a then 0xFF else 0)"

text \<open>
  The constants \<open>pb_0\<close>, \<open>pb_1\<close>, \<open>pb_3\<close> and \<open>pb_A1\<close> are \<open>cextern\<close> symbols: sixteen
  copies of the byte their name spells.
\<close>

definition pb_0 :: byte where "pb_0 = 0"
definition pb_1 :: byte where "pb_1 = 1"
definition pb_3 :: byte where "pb_3 = 3"
definition pb_A1 :: byte where "pb_A1 = 0xA1"

text \<open>
  \<open>movd m4, %1; SPLATW m4, m4; packuswb m4, m4\<close> of \<open>LOAD_MASK\<close>: the low 16 bits of the
  32-bit register are copied to every 16-bit lane and then packed to bytes with unsigned
  saturation of the signed 16-bit value.  The argument is the C \<open>int\<close> held by the
  register.
\<close>

definition packuswb :: "16 word \<Rightarrow> byte" where
  "packuswb w = (if sint w < 0 then 0 else if 255 < sint w then 0xFF else ucast w)"

definition splat_pack :: "int \<Rightarrow> byte" where
  "splat_pack x = packuswb (word_of_int x)"

section \<open>The threshold and mask unit\<close>

text \<open>
  \<open>DIFF_GT %1, %2, %3, %4, %5\<close>: the result \<open>%4\<close> and the clobbered temporary \<open>%5\<close>.
\<close>

definition DIFF_GT :: "byte \<Rightarrow> byte \<Rightarrow> byte \<Rightarrow> byte \<times> byte" where
  "DIFF_GT x1 x2 x3 =
    (let x5 = psubusb x2 x1;
         x4 = psubusb x1 x2;
         x4 = por x4 x5;
         x4 = psubusb x4 x3
     in (x4, x5))"

text \<open>\<open>DIFF_GT2 %1, %2, %3, %4, %5\<close>: the result \<open>%4\<close>.\<close>

definition DIFF_GT2 :: "byte \<Rightarrow> byte \<Rightarrow> byte \<Rightarrow> byte" where
  "DIFF_GT2 x1 x2 x3 =
    (let x5 = psubusb x2 x1;
         x4 = psubusb x1 x2;
         x5 = psubusb x5 x3;
         x4 = psubusb x4 x3
     in pcmpeqb x4 x5)"

text \<open>
  One lane of the eight registers \<open>m0\<close> .. \<open>m7\<close>.  \<open>LOAD_MASK\<close> is written on fixed
  registers (in: \<open>m0=p1 m1=p0 m2=q0 m3=q1\<close>; out: \<open>m5=beta-1\<close>, \<open>m7=mask\<close>; clobbers
  \<open>m4\<close>, \<open>m6\<close>), so it is a function from the register file to the register file.  Its
  arguments \<open>%1\<close> and \<open>%2\<close> are the registers holding \<open>alpha-1\<close> and \<open>beta-1\<close>; the optional
  third result \<open>%3\<close> is \<open>splat_pack\<close> of \<open>%1\<close>.
\<close>

record mmregs =
  m0 :: byte
  m1 :: byte
  m2 :: byte
  m3 :: byte
  m4 :: byte
  m5 :: byte
  m6 :: byte
  m7 :: byte

definition LOAD_MASK :: "int \<Rightarrow> int \<Rightarrow> mmregs \<Rightarrow> mmregs" where
  "LOAD_MASK x1 x2 r =
    (let r = r\<lparr>m4 := splat_pack x1\<rparr>;
         r = r\<lparr>m5 := splat_pack x2\<rparr>;
         r = r\<lparr>m7 := fst (DIFF_GT (m1 r) (m2 r) (m4 r)), m6 := snd (DIFF_GT (m1 r) (m2 r) (m4 r))\<rparr>;
         r = r\<lparr>m4 := fst (DIFF_GT (m0 r) (m1 r) (m5 r)), m6 := snd (DIFF_GT (m0 r) (m1 r) (m5 r))\<rparr>;
         r = r\<lparr>m7 := por (m7 r) (m4 r)\<rparr>;
         r = r\<lparr>m4 := fst (DIFF_GT (m3 r) (m2 r) (m5 r)), m6 := snd (DIFF_GT (m3 r) (m2 r) (m5 r))\<rparr>;
         r = r\<lparr>m7 := por (m7 r) (m4 r)\<rparr>;
         r = r\<lparr>m6 := pxor (m6 r) (m6 r)\<rparr>;
         r = r\<lparr>m7 := pcmpeqb (m7 r) (m6 r)\<rparr>
     in r)"

text \<open>The register file on entry to \<open>LOAD_MASK\<close>: the four sample rows are loaded, the
  other registers have not been written yet.\<close>

definition sample_regs :: "byte \<Rightarrow> byte \<Rightarrow> byte \<Rightarrow> byte \<Rightarrow> mmregs" where
  "sample_regs p1 p0 q0 q1 =
    \<lparr>m0 = p1, m1 = p0, m2 = q0, m3 = q1, m4 = 0, m5 = 0, m6 = 0, m7 = 0\<rparr>"

text \<open>The eligibility flag of one lane as the code computes it: the lane of \<open>m7\<close> after
  \<open>LOAD_MASK\<close> is all ones.\<close>

definition lane_mask :: "int \<Rightarrow> int \<Rightarrow> byte \<Rightarrow> byte \<Rightarrow> byte \<Rightarrow> byte \<Rightarrow> bool" where
  "lane_mask alpha beta p1 p0 q0 q1 \<longleftrightarrow>
    m7 (LOAD_MASK (alpha - 1) (beta - 1) (sample_regs p1 p0 q0 q1)) = 0xFF"

section \<open>The equations of the specification\<close>

text \<open>
  The scalar rules of the specification, on integers, written from its sections 3 and 4:
  \<open>Clip1\<close> saturates to the sample range, \<open>clip3\<close> is the symmetric clamp, and
  \<open>filterEdge\<close> is the eligibility rule of the threshold unit.  The arithmetic right shift
  by \<open>k\<close> of the specification is \<open>div 2 ^ k\<close> on \<open>int\<close>, which rounds towards minus
  infinity.
\<close>

definition Clip1 :: "int \<Rightarrow> int" where
  "Clip1 x = (if x < 0 then 0 else if 255 < x then 255 else x)"

definition clip3 :: "int \<Rightarrow> int \<Rightarrow> int \<Rightarrow> int" where
  "clip3 lo hi x = (if x < lo then lo else if hi < x then hi else x)"

text \<open>The unclipped \<open>delta\<close> of sections 4.2 and 4.4.\<close>

definition delta_raw :: "int \<Rightarrow> int \<Rightarrow> int \<Rightarrow> int \<Rightarrow> int" where
  "delta_raw p1 p0 q0 q1 = (4 * (q0 - p0) + (p1 - q1) + 4) div 8"

definition filterEdge :: "int \<Rightarrow> int \<Rightarrow> int \<Rightarrow> int \<Rightarrow> int \<Rightarrow> int \<Rightarrow> bool" where
  "filterEdge alpha beta p1 p0 q0 q1 =
    (\<bar>p0 - q0\<bar> < alpha \<and> \<bar>p1 - p0\<bar> < beta \<and> \<bar>q1 - q0\<bar> < beta)"

section \<open>The normal (inter) filters\<close>

text \<open>
  \<open>DEBLOCK_P0_Q0\<close> (in: \<open>m0=p1 m1=p0 m2=q0 m3=q1 m7=(tc&mask)\<close>; out: \<open>m1=p0' m2=q0'\<close>):
  the pair of results \<open>(m1, m2)\<close>.
\<close>

definition DEBLOCK_P0_Q0 :: "byte \<Rightarrow> byte \<Rightarrow> byte \<Rightarrow> byte \<Rightarrow> byte \<Rightarrow> byte \<times> byte" where
  "DEBLOCK_P0_Q0 r0 r1 r2 r3 r7 =
    (let r4 = pcmpeqb 0 0;
         r5 = pxor r1 r2;
         r3 = pxor r3 r4;
         r5 = pand r5 pb_1;
         r3 = pavgb r3 r0;
         r4 = pxor r4 r1;
         r3 = pavgb r3 pb_3;
         r4 = pavgb r4 r2;
         r3 = pavgb r3 r5;
         r6 = pb_A1;
         r3 = paddusb r3 r4;
         r6 = psubusb r6 r3;
         r3 = psubusb r3 pb_A1;
         r6 = pminub r6 r7;
         r3 = pminub r3 r7;
         r1 = psubusb r1 r6;
         r2 = psubusb r2 r3;
         r1 = paddusb r1 r3;
         r2 = paddusb r2 r6
     in (r1, r2))"

text \<open>
  \<open>LUMA_Q1 %1, %2, %3, %4, %5, %6\<close> with \<open>m1=p0 m2=q0\<close> (first two arguments): the byte
  stored to \<open>%4\<close>.  \<open>%1\<close> is the register holding \<open>p1\<close> (\<open>q1\<close>), \<open>%2\<close> the register and
  \<open>%3\<close> the memory row holding \<open>p2\<close> (\<open>q2\<close>), \<open>%5\<close> the masked \<open>tc0\<close>.
\<close>

definition LUMA_Q1 :: "byte \<Rightarrow> byte \<Rightarrow> byte \<Rightarrow> byte \<Rightarrow> byte \<Rightarrow> byte \<Rightarrow> byte" where
  "LUMA_Q1 r1 r2 x1 x2 x3 x5 =
    (let x6 = pavgb r1 r2;
         x2 = pavgb x2 x6;
         x6 = pxor x6 x3;
         x6 = pand x6 pb_1;
         x2 = psubusb x2 x6;
         x6 = psubusb x1 x5;
         x5 = paddusb x5 x1;
         x2 = pmaxub x2 x6;
         x2 = pminub x2 x5
     in x2)"

text \<open>
  One lane of \<open>deblock_v_luma_8\<close> (x86-64 build).  The arguments are \<open>alpha\<close> and \<open>beta\<close>
  as passed by the caller, the lane of the expanded \<open>tc0\<close> register \<open>m8\<close>, and the lane
  of the six rows \<open>[r4]\<close>, \<open>[r4+r1]\<close>, \<open>[r4+2*r1]\<close>, \<open>[r0]\<close>, \<open>[r0+r1]\<close>, \<open>[r0+2*r1]\<close>, that
  is \<open>p2, p1, p0, q0, q1, q2\<close>.  The result is the lane of the four rows the function
  stores: \<open>[r4+r1]\<close>, \<open>[r4+2*r1]\<close>, \<open>[r0]\<close>, \<open>[r0+r1]\<close>, that is \<open>p1', p0', q0', q1'\<close>.
\<close>

definition deblock_v_luma_lane ::
  "int \<Rightarrow> int \<Rightarrow> byte \<Rightarrow> byte \<times> byte \<times> byte \<times> byte \<times> byte \<times> byte
    \<Rightarrow> byte \<times> byte \<times> byte \<times> byte" where
  "deblock_v_luma_lane alpha beta tc = (\<lambda>(p2, p1, p0, q0, q1, q2).
    (let r8 = tc;
         r = LOAD_MASK (alpha - 1) (beta - 1) (sample_regs p1 p0 q0 q1);
         r0 = m0 r; r1 = m1 r; r2 = m2 r; r5 = m5 r; r7 = m7 r;
         r9 = pcmpeqb 0 0;
         r9 = pcmpeqb r9 r8;
         r9 = pandn r9 r7;
         r8 = pand r8 r9;
         r3 = p2;
         r6 = DIFF_GT2 r1 r3 r5;
         r6 = pand r6 r9;
         r7 = psubb r8 r6;
         r6 = pand r6 r8;
         p1' = LUMA_Q1 r1 r2 r0 r3 p2 r6;
         r4 = q2;
         r6 = DIFF_GT2 r2 r4 r5;
         r6 = pand r6 r9;
         r8 = pand r8 r6;
         r7 = psubb r7 r6;
         r3 = q1;
         q1' = LUMA_Q1 r1 r2 r3 r4 q2 r8;
         (p0', q0') = DEBLOCK_P0_Q0 r0 r1 r2 r3 r7
     in (p1', p0', q0', q1')))"

text \<open>
  Section 4.1 and 4.2 of the specification: the softness flag \<open>ap = |p2 - p0| < beta\<close>
  (\<open>aq\<close> with the q samples), the clip bound \<open>tC = tc0 + (ap?1:0) + (aq?1:0)\<close>, and the
  update \<open>p1' = p1 + clip((p2 + ((p0+q0+1)>>1) - 2*p1) >> 1, -tc0, tc0)\<close> (\<open>q1'\<close> with
  the q samples).
\<close>

definition soft_flag :: "int \<Rightarrow> int \<Rightarrow> int \<Rightarrow> bool" where
  "soft_flag beta p2 p0 \<longleftrightarrow> \<bar>p2 - p0\<bar> < beta"

definition luma_tC :: "int \<Rightarrow> bool \<Rightarrow> bool \<Rightarrow> int" where
  "luma_tC tc0 ap aq = tc0 + (if ap then 1 else 0) + (if aq then 1 else 0)"

definition luma_p1 :: "int \<Rightarrow> int \<Rightarrow> int \<Rightarrow> int \<Rightarrow> int \<Rightarrow> int" where
  "luma_p1 tc0 p2 p1 p0 q0 = p1 + clip3 (- tc0) tc0 ((p2 + ((p0 + q0 + 1) div 2) - 2 * p1) div 2)"

text \<open>
  The luma normal filter of section 4.2 on one Line \<open>(p2, p1, p0, q0, q1, q2)\<close>, as the
  specification words it; the result is \<open>(p1', p0', q0', q1')\<close>.  The sentinel is \<open>-1\<close>.
\<close>

definition luma_normal_spec ::
  "int \<Rightarrow> int \<Rightarrow> int \<Rightarrow> int \<times> int \<times> int \<times> int \<times> int \<times> int \<Rightarrow> int \<times> int \<times> int \<times> int" where
  "luma_normal_spec alpha beta tc0 = (\<lambda>(p2, p1, p0, q0, q1, q2).
    if filterEdge alpha beta p1 p0 q0 q1 \<and> tc0 \<noteq> - 1 then
      (let ap = soft_flag beta p2 p0;
           aq = soft_flag beta q2 q0;
           tC = luma_tC tc0 ap aq;
           delta = clip3 (- tC) tC (delta_raw p1 p0 q0 q1)
       in (if ap then luma_p1 tc0 p2 p1 p0 q0 else p1,
           Clip1 (p0 + delta),
           Clip1 (q0 - delta),
           if aq then luma_p1 tc0 q2 q1 p0 q0 else q1))
    else (p1, p0, q0, q1))"

text \<open>The four stored bytes read as sample values.\<close>

definition uint4 :: "byte \<times> byte \<times> byte \<times> byte \<Rightarrow> int \<times> int \<times> int \<times> int" where
  "uint4 = (\<lambda>(a, b, c, d). (uint a, uint b, uint c, uint d))"

text \<open>
  One lane of \<open>deblock_v8_luma_8\<close> / \<open>deblock_v_luma_8\<close> of the 32-bit build (the other
  \<open>DEBLOCK_LUMA\<close> macro).  It differs from the 64-bit code in the test of \<open>tc0\<close>: a signed
  comparison \<open>tc > -1\<close> (\<open>pcmpgtb\<close>) instead of the comparison with \<open>-1\<close>.
\<close>

definition deblock_luma_lane_x86_32 ::
  "int \<Rightarrow> int \<Rightarrow> byte \<Rightarrow> byte \<times> byte \<times> byte \<times> byte \<times> byte \<times> byte
    \<Rightarrow> byte \<times> byte \<times> byte \<times> byte" where
  "deblock_luma_lane_x86_32 alpha beta tc = (\<lambda>(p2, p1, p0, q0, q1, q2).
    (let r = LOAD_MASK (alpha - 1) (beta - 1) (sample_regs p1 p0 q0 q1);
         r0 = m0 r; r1 = m1 r; r2 = m2 r; r5 = m5 r; r7 = m7 r;
         r3 = pcmpeqb 0 0;
         r4 = tc;
         tc_spill = r4;
         r4 = pcmpgtb r4 r3;
         r3 = p2;
         r4 = pand r4 r7;
         mask_spill = r4;
         r6 = DIFF_GT2 r1 r3 r5;
         r6 = pand r6 r4;
         r4 = pand r4 tc_spill;
         r7 = psubb r4 r6;
         r6 = pand r6 r4;
         p1' = LUMA_Q1 r1 r2 r0 r3 p2 r6;
         r4 = q2;
         r6 = DIFF_GT2 r2 r4 r5;
         r6 = pand r6 mask_spill;
         r5 = tc_spill;
         r7 = psubb r7 r6;
         r5 = pand r5 r6;
         r3 = q1;
         q1' = LUMA_Q1 r1 r2 r3 r4 q2 r5;
         (p0', q0') = DEBLOCK_P0_Q0 r0 r1 r2 r3 r7
     in (p1', p0', q0', q1')))"

section \<open>The chroma filters, one lane\<close>

text \<open>
  \<open>ff_chroma_inter_body_mmxext\<close> (in: \<open>m0=p1 m1=p0 m2=q0 m3=q1\<close>, \<open>m6\<close> loaded from
  \<open>tc0\<close>): the pair \<open>(m1, m2)\<close> the callers store as \<open>p0'\<close> and \<open>q0'\<close>.
\<close>

definition chroma_inter_lane :: "int \<Rightarrow> int \<Rightarrow> byte \<Rightarrow> byte \<times> byte \<times> byte \<times> byte \<Rightarrow> byte \<times> byte" where
  "chroma_inter_lane alpha beta tc = (\<lambda>(p1, p0, q0, q1).
    (let r = LOAD_MASK (alpha - 1) (beta - 1) (sample_regs p1 p0 q0 q1);
         r6 = tc;
         r7 = pand (m7 r) r6
     in DEBLOCK_P0_Q0 (m0 r) (m1 r) (m2 r) (m3 r) r7))"

text \<open>\<open>CHROMA_INTRA_P0 %1, %2, %3\<close>: the new value of \<open>%1\<close>.\<close>

definition CHROMA_INTRA_P0 :: "byte \<Rightarrow> byte \<Rightarrow> byte \<Rightarrow> byte" where
  "CHROMA_INTRA_P0 x1 x2 x3 =
    (let r4 = x1;
         r4 = pxor r4 x3;
         r4 = pand r4 pb_1;
         x1 = pavgb x1 x3;
         x1 = psubusb x1 r4;
         x1 = pavgb x1 x2
     in x1)"

text \<open>
  \<open>ff_chroma_intra_body_mmxext\<close>: the registers \<open>(m0, m1, m2, m3)\<close> on return; the vertical
  entry point stores \<open>m1\<close> and \<open>m2\<close>, the horizontal one transposes all four back.
\<close>

definition chroma_intra_lane :: "int \<Rightarrow> int \<Rightarrow> byte \<times> byte \<times> byte \<times> byte \<Rightarrow> byte \<times> byte \<times> byte \<times> byte" where
  "chroma_intra_lane alpha beta = (\<lambda>(p1, p0, q0, q1).
    (let r = LOAD_MASK (alpha - 1) (beta - 1) (sample_regs p1 p0 q0 q1);
         r0 = m0 r; r1 = m1 r; r2 = m2 r; r3 = m3 r; r7 = m7 r;
         r5 = r1;
         r6 = r2;
         r1 = CHROMA_INTRA_P0 r1 r0 r3;
         r2 = CHROMA_INTRA_P0 r2 r3 r0;
         r1 = psubb r1 r5;
         r2 = psubb r2 r6;
         r1 = pand r1 r7;
         r2 = pand r2 r7;
         r1 = paddb r1 r5;
         r2 = paddb r2 r6
     in (r0, r1, r2, r3)))"

section \<open>The vertical entry points on a picture plane\<close>

text \<open>
  A plane is addressed relative to the pointer \<open>pix\<close> the entry points receive: \<open>img y x\<close> is
  the byte at \<open>pix + y*stride + x\<close>.  The rows of one call do not overlap (the stride is at
  least the width of a register).  A register is the list of its byte lanes, lane 0 being
  the byte at the lowest address.  The array \<open>tc0\<close> is a function from its index.
\<close>

type_synonym plane = "int \<Rightarrow> int \<Rightarrow> byte"

definition load_row :: "nat \<Rightarrow> plane \<Rightarrow> int \<Rightarrow> int \<Rightarrow> byte list" where
  "load_row n img y x = map (\<lambda>i. img y (x + int i)) [0..<n]"

definition store_row :: "plane \<Rightarrow> int \<Rightarrow> int \<Rightarrow> byte list \<Rightarrow> plane" where
  "store_row img y x bs =
    (\<lambda>y' x'. if y' = y \<and> x \<le> x' \<and> x' < x + int (length bs) then bs ! nat (x' - x) else img y' x')"

text \<open>\<open>movd reg, [tc0]\<close> into a register of \<open>n\<close> bytes: four bytes, the rest zero.\<close>

definition movd_tc0 :: "nat \<Rightarrow> (nat \<Rightarrow> byte) \<Rightarrow> byte list" where
  "movd_tc0 n tc0 = [tc0 0, tc0 1, tc0 2, tc0 3] @ replicate (n - 4) 0"

text \<open>\<open>punpcklbw a, b\<close>: the bytes of the low halves of \<open>a\<close> and \<open>b\<close>, interleaved.\<close>

definition punpcklbw :: "byte list \<Rightarrow> byte list \<Rightarrow> byte list" where
  "punpcklbw a b =
    concat (map2 (\<lambda>x y. [x, y]) (take (length a div 2) a) (take (length a div 2) b))"

text \<open>
  \<open>deblock_v_luma_8\<close> (x86-64, SSE2: 16 lanes).  The rows \<open>p2 .. q2\<close> are rows \<open>-3 .. 2\<close> of
  the plane.
\<close>

definition deblock_v_luma_8 :: "int \<Rightarrow> int \<Rightarrow> (nat \<Rightarrow> byte) \<Rightarrow> plane \<Rightarrow> plane" where
  "deblock_v_luma_8 alpha beta tc0 img =
    (let r8 = movd_tc0 16 tc0;
         r8 = punpcklbw r8 r8;
         r8 = punpcklbw r8 r8;
         out = map (\<lambda>j. deblock_v_luma_lane alpha beta (r8 ! j)
                 (load_row 16 img (- 3) 0 ! j, load_row 16 img (- 2) 0 ! j,
                  load_row 16 img (- 1) 0 ! j, load_row 16 img 0 0 ! j,
                  load_row 16 img 1 0 ! j, load_row 16 img 2 0 ! j)) [0..<16];
         img = store_row img (- 2) 0 (map (\<lambda>(p1', p0', q0', q1'). p1') out);
         img = store_row img 1 0 (map (\<lambda>(p1', p0', q0', q1'). q1') out);
         img = store_row img (- 1) 0 (map (\<lambda>(p1', p0', q0', q1'). p0') out);
         img = store_row img 0 0 (map (\<lambda>(p1', p0', q0', q1'). q0') out)
     in img)"

text \<open>\<open>deblock_v8_luma_8\<close> (x86-32, MMX: 8 lanes, the first two entries of \<open>tc0\<close>).\<close>

definition deblock_v8_luma_8 :: "int \<Rightarrow> int \<Rightarrow> (nat \<Rightarrow> byte) \<Rightarrow> plane \<Rightarrow> plane" where
  "deblock_v8_luma_8 alpha beta tc0 img =
    (let r4 = movd_tc0 8 tc0;
         r4 = punpcklbw r4 r4;
         r4 = punpcklbw r4 r4;
         out = map (\<lambda>j. deblock_luma_lane_x86_32 alpha beta (r4 ! j)
                 (load_row 8 img (- 3) 0 ! j, load_row 8 img (- 2) 0 ! j,
                  load_row 8 img (- 1) 0 ! j, load_row 8 img 0 0 ! j,
                  load_row 8 img 1 0 ! j, load_row 8 img 2 0 ! j)) [0..<8];
         img = store_row img (- 2) 0 (map (\<lambda>(p1', p0', q0', q1'). p1') out);
         img = store_row img 1 0 (map (\<lambda>(p1', p0', q0', q1'). q1') out);
         img = store_row img (- 1) 0 (map (\<lambda>(p1', p0', q0', q1'). p0') out);
         img = store_row img 0 0 (map (\<lambda>(p1', p0', q0', q1'). q0') out)
     in img)"

text \<open>
  \<open>deblock_v_chroma_8_mmxext\<close> (8 lanes; \<open>punpcklbw m6, m6\<close> once, so each \<open>tc0\<close> byte
  governs two lines) and \<open>deblock_v_chroma_intra_8_mmxext\<close>.  The rows \<open>p1 .. q1\<close> are rows
  \<open>-2 .. 1\<close>.
\<close>

definition deblock_v_chroma_8 :: "int \<Rightarrow> int \<Rightarrow> (nat \<Rightarrow> byte) \<Rightarrow> plane \<Rightarrow> plane" where
  "deblock_v_chroma_8 alpha beta tc0 img =
    (let r6 = movd_tc0 8 tc0;
         r6 = punpcklbw r6 r6;
         out = map (\<lambda>j. chroma_inter_lane alpha beta (r6 ! j)
                 (load_row 8 img (- 2) 0 ! j, load_row 8 img (- 1) 0 ! j,
                  load_row 8 img 0 0 ! j, load_row 8 img 1 0 ! j)) [0..<8];
         img = store_row img (- 1) 0 (map fst out);
         img = store_row img 0 0 (map snd out)
     in img)"

definition deblock_v_chroma_intra_8 :: "int \<Rightarrow> int \<Rightarrow> plane \<Rightarrow> plane" where
  "deblock_v_chroma_intra_8 alpha beta img =
    (let out = map (\<lambda>j. chroma_intra_lane alpha beta
                 (load_row 8 img (- 2) 0 ! j, load_row 8 img (- 1) 0 ! j,
                  load_row 8 img 0 0 ! j, load_row 8 img 1 0 ! j)) [0..<8];
         img = store_row img (- 1) 0 (map (\<lambda>(r0, r1, r2, r3). r1) out);
         img = store_row img 0 0 (map (\<lambda>(r0, r1, r2, r3). r2) out)
     in img)"

section \<open>Concrete planes and parameters\<close>

text \<open>
  The worked luma line of section 8 of the specification (\<open>p2 .. q2 = 92, 94, 96, 100, 98,
  96\<close>) in every column, a \<open>tc0\<close> array whose first group carries the sentinel, a plane
  with a step between \<open>p1\<close> and \<open>p0\<close> (\<open>p2 = p1 = 108\<close>, \<open>p0 = q0 = q1 = q2 = 100\<close>), and a
  constant \<open>tc0\<close> array.
\<close>

definition scenario_plane :: plane where
  "scenario_plane y x =
    (if y = - 3 then 92 else if y = - 2 then 94 else if y = - 1 then 96
     else if y = 0 then 100 else if y = 1 then 98 else 96)"

definition scenario_tc0 :: "nat \<Rightarrow> byte" where
  "scenario_tc0 i = (if i = 0 then 0xFF else 2)"

definition step_plane :: plane where
  "step_plane y x = (if y < - 1 then 108 else 100)"

definition tc0_three :: "nat \<Rightarrow> byte" where
  "tc0_three i = 3"

text \<open>A plane that is flat on either side of the edge: \<open>p1 = p0 = 100\<close>, \<open>q0 = q1 = 104\<close>.\<close>

definition flat_sides_plane :: plane where
  "flat_sides_plane y x = (if y < 0 then 100 else 104)"

section \<open>The strong (intra) luma filter\<close>

text \<open>
  \<open>LUMA_INTRA_P012\<close> uses \<open>psrlw\<close>, which shifts 16-bit lanes: the low bits of the upper
  byte enter the lower byte.  The macro is therefore modelled on one 16-bit lane, a pair
  of adjacent byte lanes (the byte at the lower address, which is the low-order byte,
  first); the byte instructions act on both bytes of the pair.
\<close>

type_synonym wlane = "byte \<times> byte"

definition lanes2 :: "(byte \<Rightarrow> byte \<Rightarrow> byte) \<Rightarrow> wlane \<Rightarrow> wlane \<Rightarrow> wlane" where
  "lanes2 f a b = (f (fst a) (fst b), f (snd a) (snd b))"

definition psrlw :: "wlane \<Rightarrow> nat \<Rightarrow> wlane" where
  "psrlw a n =
    (let w = (uint (fst a) + 256 * uint (snd a)) div 2 ^ n
     in (word_of_int w, word_of_int (w div 256)))"

definition mpb_0 :: wlane where "mpb_0 = (pb_0, pb_0)"
definition mpb_1 :: wlane where "mpb_1 = (pb_1, pb_1)"

text \<open>
  \<open>LUMA_INTRA_P012 %1, %2, %3, %4\<close> in the scope of the register names \<open>p0, p1, p2, q0,
  q1, mask0, mask1p\<close> (the first seven arguments); \<open>%4\<close> is the row of \<open>p3\<close>.  The result
  is the triple stored to \<open>%1, %2, %3\<close>: the new \<open>p0, p1, p2\<close>.
\<close>

definition LUMA_INTRA_P012 ::
  "wlane \<Rightarrow> wlane \<Rightarrow> wlane \<Rightarrow> wlane \<Rightarrow> wlane \<Rightarrow> wlane \<Rightarrow> wlane \<Rightarrow> wlane
    \<Rightarrow> wlane \<times> wlane \<times> wlane" where
  "LUMA_INTRA_P012 p0 p1 p2 q0 q1 mask0 mask1p x4 =
    (let t0 = lanes2 pavgb p2 p1;
         t1 = lanes2 pavgb p0 q0;
         t0 = lanes2 pavgb t0 t1;
         t5 = t1;
         t2 = lanes2 paddb p2 p1;
         t3 = lanes2 paddb p0 q0;
         t2 = lanes2 paddb t2 t3;
         t3 = t2;
         t4 = t2;
         t2 = psrlw t2 1;
         t2 = lanes2 pavgb t2 mpb_0;
         t2 = lanes2 pxor t2 t0;
         t2 = lanes2 pand t2 mpb_1;
         t0 = lanes2 psubb t0 t2;
         t1 = lanes2 pavgb p2 q1;
         t2 = lanes2 psubb p2 q1;
         t3 = lanes2 paddb t3 t3;
         t3 = lanes2 psubb t3 t2;
         t2 = lanes2 pand t2 mpb_1;
         t1 = lanes2 psubb t1 t2;
         t1 = lanes2 pavgb t1 p1;
         t1 = lanes2 pavgb t1 t5;
         t3 = psrlw t3 2;
         t3 = lanes2 pavgb t3 mpb_0;
         t3 = lanes2 pxor t3 t1;
         t3 = lanes2 pand t3 mpb_1;
         t1 = lanes2 psubb t1 t3;
         t3 = lanes2 pxor p0 q1;
         t2 = lanes2 pavgb p0 q1;
         t3 = lanes2 pand t3 mpb_1;
         t2 = lanes2 psubb t2 t3;
         t2 = lanes2 pavgb t2 p1;
         t1 = lanes2 pxor t1 t2;
         t2 = lanes2 pxor t2 p0;
         t1 = lanes2 pand t1 mask1p;
         t2 = lanes2 pand t2 mask0;
         t1 = lanes2 pxor t1 t2;
         t1 = lanes2 pxor t1 p0;
         store1 = t1;
         t1 = x4;
         t2 = lanes2 paddb t1 p2;
         t1 = lanes2 pavgb t1 p2;
         t1 = lanes2 pavgb t1 t0;
         t2 = lanes2 paddb t2 t2;
         t2 = lanes2 paddb t2 t4;
         t2 = psrlw t2 2;
         t2 = lanes2 pavgb t2 mpb_0;
         t2 = lanes2 pxor t2 t1;
         t2 = lanes2 pand t2 mpb_1;
         t1 = lanes2 psubb t1 t2;
         t0 = lanes2 pxor t0 p1;
         t1 = lanes2 pxor t1 p2;
         t0 = lanes2 pand t0 mask1p;
         t1 = lanes2 pand t1 mask1p;
         t0 = lanes2 pxor t0 p1;
         t1 = lanes2 pxor t1 p2
     in (store1, t0, t1))"

text \<open>
  The masks of \<open>deblock_v_luma_intra_8\<close> on one byte lane, from \<open>LOAD_MASK r2d, r3d, t5\<close> to
  the stores of \<open>mask1q\<close> and \<open>mask1p\<close>: the triple \<open>(mask0, mask1p, mask1q)\<close>.  The first
  two arguments are the registers \<open>r2d\<close> and \<open>r3d\<close>, holding \<open>alpha-1\<close> and \<open>beta-1\<close>.
\<close>

definition luma_intra_masks ::
  "int \<Rightarrow> int \<Rightarrow> byte \<times> byte \<times> byte \<times> byte \<times> byte \<times> byte \<Rightarrow> byte \<times> byte \<times> byte" where
  "luma_intra_masks r2d r3d = (\<lambda>(p2, p1, p0, q0, q1, q2).
    (let r = LOAD_MASK r2d r3d (sample_regs p1 p0 q0 q1);
         t5 = splat_pack r2d;
         r5 = m5 r;
         mask0 = m7 r;
         t5 = pavgb t5 pb_0;
         t5 = pavgb t5 pb_1;
         t0 = DIFF_GT2 p0 q0 t5;
         t2 = DIFF_GT2 p0 p2 r5;
         t4 = DIFF_GT2 q0 q2 r5;
         t0 = pand t0 mask0;
         t4 = pand t4 t0;
         t2 = pand t2 t0
     in (mask0, t2, t4)))"

text \<open>
  The body of \<open>deblock_v_luma_intra_8\<close> after the two early exits, on one 16-bit lane of
  the rows \<open>p3 .. q3\<close>: the six rows stored, \<open>(p2', p1', p0', q0', q1', q2')\<close>.  The second
  \<open>LUMA_INTRA_P012\<close> runs after \<open>LUMA_INTRA_SWAP_PQ\<close>, which exchanges the names.
\<close>

definition luma_intra_body ::
  "int \<Rightarrow> int \<Rightarrow> wlane \<times> wlane \<times> wlane \<times> wlane \<times> wlane \<times> wlane \<times> wlane \<times> wlane
    \<Rightarrow> wlane \<times> wlane \<times> wlane \<times> wlane \<times> wlane \<times> wlane" where
  "luma_intra_body r2d r3d = (\<lambda>(p3, p2, p1, p0, q0, q1, q2, q3).
    (let ml = luma_intra_masks r2d r3d (fst p2, fst p1, fst p0, fst q0, fst q1, fst q2);
         mh = luma_intra_masks r2d r3d (snd p2, snd p1, snd p0, snd q0, snd q1, snd q2);
         mask0 = (fst ml, fst mh);
         mask1p = (fst (snd ml), fst (snd mh));
         mask1q = (snd (snd ml), snd (snd mh));
         (p0', p1', p2') = LUMA_INTRA_P012 p0 p1 p2 q0 q1 mask0 mask1p p3;
         (q0', q1', q2') = LUMA_INTRA_P012 q0 q1 q2 p0 p1 mask0 mask1q q3
     in (p2', p1', p0', q0', q1', q2')))"

text \<open>The bytes of a row of 16-bit lanes, in address order.\<close>

definition lane_bytes :: "wlane list \<Rightarrow> byte list" where
  "lane_bytes ws = concat (map (\<lambda>w. [fst w, snd w]) ws)"

text \<open>
  \<open>deblock_v_luma_intra_8\<close> (SSE2: 16 byte lanes, 8 word lanes).  The rows \<open>p3 .. q3\<close> are
  rows \<open>-4 .. 3\<close> of the plane.  \<open>dec r2d; jl .end\<close> leaves when \<open>alpha - 1 < 0\<close>, \<open>dec r3d;
  jl .end\<close> when \<open>beta - 1 < 0\<close>.
\<close>

definition deblock_v_luma_intra_8 :: "int \<Rightarrow> int \<Rightarrow> plane \<Rightarrow> plane" where
  "deblock_v_luma_intra_8 alpha beta img =
    (if alpha - 1 < 0 then img
     else if beta - 1 < 0 then img
     else
      (let wl = (\<lambda>y k. (load_row 16 img y 0 ! (2 * k), load_row 16 img y 0 ! (2 * k + 1)));
           out = map (\<lambda>k. luma_intra_body (alpha - 1) (beta - 1)
                   (wl (- 4) k, wl (- 3) k, wl (- 2) k, wl (- 1) k,
                    wl 0 k, wl 1 k, wl 2 k, wl 3 k)) [0..<8];
           img = store_row img (- 1) 0 (lane_bytes (map (\<lambda>(p2', p1', p0', q0', q1', q2'). p0') out));
           img = store_row img (- 2) 0 (lane_bytes (map (\<lambda>(p2', p1', p0', q0', q1', q2'). p1') out));
           img = store_row img (- 3) 0 (lane_bytes (map (\<lambda>(p2', p1', p0', q0', q1', q2'). p2') out));
           img = store_row img 0 0 (lane_bytes (map (\<lambda>(p2', p1', p0', q0', q1', q2'). q0') out));
           img = store_row img 1 0 (lane_bytes (map (\<lambda>(p2', p1', p0', q0', q1', q2'). q1') out));
           img = store_row img 2 0 (lane_bytes (map (\<lambda>(p2', p1', p0', q0', q1', q2'). q2') out))
       in img))"

text \<open>
  Section 4.3 of the specification on one side of a Line: the new \<open>(p2, p1, p0)\<close> from
  \<open>p3, p2, p1, p0, q0, q1\<close>.  \<open>luma_intra_side_spec\<close> is the rule as the specification
  words it, with \<open>q0\<close> in the weak \<open>p0'\<close>; \<open>luma_intra_side\<close> has \<open>q1\<close> there.
\<close>

definition luma_intra_side_spec ::
  "int \<Rightarrow> int \<Rightarrow> int \<Rightarrow> int \<Rightarrow> int \<Rightarrow> int \<Rightarrow> int \<Rightarrow> int \<Rightarrow> int \<times> int \<times> int" where
  "luma_intra_side_spec alpha beta p3 p2 p1 p0 q0 q1 =
    (if filterEdge alpha beta p1 p0 q0 q1 then
       (if \<bar>p0 - q0\<bar> < alpha div 4 + 2 \<and> \<bar>p2 - p0\<bar> < beta
        then ((2 * p3 + 3 * p2 + p1 + p0 + q0 + 4) div 8,
              (p2 + p1 + p0 + q0 + 2) div 4,
              (p2 + 2 * p1 + 2 * p0 + 2 * q0 + q1 + 4) div 8)
        else (p2, p1, (2 * p1 + p0 + q0 + 2) div 4))
     else (p2, p1, p0))"

definition luma_intra_side ::
  "int \<Rightarrow> int \<Rightarrow> int \<Rightarrow> int \<Rightarrow> int \<Rightarrow> int \<Rightarrow> int \<Rightarrow> int \<Rightarrow> int \<times> int \<times> int" where
  "luma_intra_side alpha beta p3 p2 p1 p0 q0 q1 =
    (if filterEdge alpha beta p1 p0 q0 q1 then
       (if \<bar>p0 - q0\<bar> < alpha div 4 + 2 \<and> \<bar>p2 - p0\<bar> < beta
        then ((2 * p3 + 3 * p2 + p1 + p0 + q0 + 4) div 8,
              (p2 + p1 + p0 + q0 + 2) div 4,
              (p2 + 2 * p1 + 2 * p0 + 2 * q0 + q1 + 4) div 8)
        else (p2, p1, (2 * p1 + p0 + q1 + 2) div 4))
     else (p2, p1, p0))"

text \<open>A plane whose columns all hold the line \<open>p3 .. q3 = 30, 30, 52, 54, 56, 60, 100, 100\<close>.\<close>

definition intra_plane :: plane where
  "intra_plane y x =
    (if y \<le> - 3 then 30 else if y = - 2 then 52 else if y = - 1 then 54
     else if y = 0 then 56 else if y = 1 then 60 else 100)"

section \<open>Exchange of the two sides\<close>

text \<open>
  The mirrored Line \<open>(q3, q2, q1, q0, p0, p1, p2, p3)\<close>: on a plane the rows \<open>-1 - k\<close> and
  \<open>k\<close> change places; on the result tuples of the lane functions the order is reversed.
\<close>

definition mirror :: "plane \<Rightarrow> plane" where
  "mirror img y x = img (- 1 - y) x"

definition mirror4 :: "'a \<times> 'a \<times> 'a \<times> 'a \<Rightarrow> 'a \<times> 'a \<times> 'a \<times> 'a" where
  "mirror4 = (\<lambda>(a, b, c, d). (d, c, b, a))"

definition mirror6 :: "'a \<times> 'a \<times> 'a \<times> 'a \<times> 'a \<times> 'a \<Rightarrow> 'a \<times> 'a \<times> 'a \<times> 'a \<times> 'a \<times> 'a" where
  "mirror6 = (\<lambda>(a, b, c, d, e, f). (f, e, d, c, b, a))"

section \<open>The horizontal luma entry points\<close>

text \<open>
  The horizontal entry points gather the columns around a vertical edge into rows of a
  scratch buffer on the stack, call the vertical entry point on the buffer and scatter the
  rows back.  They are assembled under \<open>INIT_MMX\<close>: a register holds 8 bytes.

  \<open>punpckl<g>\<close> and \<open>punpckh<g>\<close> interleave the units (bytes, words, doublewords) of the low
  or the high halves of two registers.
\<close>

datatype granule = BW | WD | DQ

fun unit_bytes :: "granule \<Rightarrow> nat" where
  "unit_bytes BW = 1"
| "unit_bytes WD = 2"
| "unit_bytes DQ = 4"

definition interleave :: "nat \<Rightarrow> byte list \<Rightarrow> byte list \<Rightarrow> byte list" where
  "interleave u a b =
    concat (map (\<lambda>i. take u (drop (u * i) a) @ take u (drop (u * i) b)) [0..<length a div u])"

definition punpckl :: "granule \<Rightarrow> byte list \<Rightarrow> byte list \<Rightarrow> byte list" where
  "punpckl g a b = interleave (unit_bytes g) (take (length a div 2) a) (take (length a div 2) b)"

definition punpckh :: "granule \<Rightarrow> byte list \<Rightarrow> byte list \<Rightarrow> byte list" where
  "punpckh g a b = interleave (unit_bytes g) (drop (length a div 2) a) (drop (length a div 2) b)"

text \<open>\<open>movh mem, reg\<close> stores the low half of a register (\<open>movd\<close> under \<open>INIT_MMX\<close>).\<close>

definition movh :: "byte list \<Rightarrow> byte list" where
  "movh r = take (length r div 2) r"

text \<open>
  Modelled from the spec: the macro \<open>SBUTTERFLY\<close> of \<open>libavutil/x86/x86util.asm\<close> is not
  among the sources.  \<open>SBUTTERFLY g, a, b, t\<close> is taken to be the register form of
  \<open>SBUTTERFLY3\<close>, which the source defines: afterwards \<open>m<a>\<close> holds the low and \<open>m<b>\<close> the
  high interleaving of the former \<open>m<a>\<close> and \<open>m<b>\<close> (\<open>m<t>\<close> is scratch).  The result is the
  pair of the new \<open>m<a>\<close> and \<open>m<b>\<close>.  With any other reading the macros below would not
  be the transposes that section 4.6 of the specification and their own comments describe.
\<close>

definition SBUTTERFLY :: "granule \<Rightarrow> byte list \<Rightarrow> byte list \<Rightarrow> byte list \<times> byte list" where
  "SBUTTERFLY g a b = (punpckl g a b, punpckh g a b)"

text \<open>\<open>SBUTTERFLY3 g, %2, %3, %4\<close>: the pair of the new \<open>%2\<close> and of \<open>%4\<close>.\<close>

definition SBUTTERFLY3 :: "granule \<Rightarrow> byte list \<Rightarrow> byte list \<Rightarrow> byte list \<times> byte list" where
  "SBUTTERFLY3 g r2 r3 = (let r4 = punpckh g r2 r3; r2 = punpckl g r2 r3 in (r2, r4))"

text \<open>
  \<open>TRANSPOSE6x8_MEM\<close>: 8 rows of 8 bytes in \<open>%1 .. %8\<close>; the result is the six rows stored at
  \<open>[%9+0x00] .. [%9+0x50]\<close>.  \<open>t10\<close> is the memory cell \<open>[%9+0x10]\<close>, which the macro also uses
  as a spill slot.
\<close>

definition TRANSPOSE6x8_MEM ::
  "byte list \<Rightarrow> byte list \<Rightarrow> byte list \<Rightarrow> byte list \<Rightarrow> byte list \<Rightarrow> byte list \<Rightarrow> byte list
    \<Rightarrow> byte list \<Rightarrow> byte list \<times> byte list \<times> byte list \<times> byte list \<times> byte list \<times> byte list" where
  "TRANSPOSE6x8_MEM a1 a2 a3 a4 a5 a6 a7 a8 =
    (let m0 = a1; m1 = a2; m2 = a3; m3 = a4; m4 = a5; m5 = a6; m6 = a7;
         (m0, m1) = SBUTTERFLY BW m0 m1;
         (m2, m3) = SBUTTERFLY BW m2 m3;
         (m4, m5) = SBUTTERFLY BW m4 m5;
         t10 = m3;
         (m6, m7) = SBUTTERFLY3 BW m6 a8;
         (m0, m2) = SBUTTERFLY WD m0 m2;
         (m4, m6) = SBUTTERFLY WD m4 m6;
         m0 = punpckh DQ m0 m4;
         t00 = m0;
         (m1, m3) = SBUTTERFLY3 WD m1 t10;
         (m5, m7) = SBUTTERFLY WD m5 m7;
         (m1, m5) = SBUTTERFLY DQ m1 m5;
         (m2, m6) = SBUTTERFLY DQ m2 m6;
         m3 = punpckl DQ m3 m7;
         t10 = m2;
         t20 = m6;
         t30 = m1;
         t40 = m5;
         t50 = m3
     in (t00, t10, t20, t30, t40, t50))"

text \<open>
  \<open>TRANSPOSE8x8_MEM\<close>: 8 rows of 8 bytes in \<open>%1 .. %8\<close>; the result is the eight rows stored
  at \<open>%9 .. %16\<close>.  \<open>o9\<close> and \<open>o11\<close> are the memory operands \<open>%9\<close> and \<open>%11\<close>, which the macro
  also uses as spill slots.
\<close>

definition TRANSPOSE8x8_MEM ::
  "byte list \<Rightarrow> byte list \<Rightarrow> byte list \<Rightarrow> byte list \<Rightarrow> byte list \<Rightarrow> byte list \<Rightarrow> byte list
    \<Rightarrow> byte list \<Rightarrow> byte list \<times> byte list \<times> byte list \<times> byte list \<times> byte list \<times> byte list
      \<times> byte list \<times> byte list" where
  "TRANSPOSE8x8_MEM a1 a2 a3 a4 a5 a6 a7 a8 =
    (let m0 = a1; m1 = a2; m2 = a3; m3 = a4; m4 = a5; m5 = a6; m6 = a7;
         (m0, m1) = SBUTTERFLY BW m0 m1;
         (m2, m3) = SBUTTERFLY BW m2 m3;
         (m4, m5) = SBUTTERFLY BW m4 m5;
         (m6, m7) = SBUTTERFLY3 BW m6 a8;
         o9 = m5;
         (m0, m2) = SBUTTERFLY WD m0 m2;
         (m4, m6) = SBUTTERFLY WD m4 m6;
         (m1, m3) = SBUTTERFLY WD m1 m3;
         o11 = m6;
         m6 = o9;
         (m6, m7) = SBUTTERFLY WD m6 m7;
         (m0, m4) = SBUTTERFLY DQ m0 m4;
         (m1, m6) = SBUTTERFLY DQ m1 m6;
         o9 = m0;
         o10 = m4;
         o13 = m1;
         o14 = m6;
         (m2, m0) = SBUTTERFLY3 DQ m2 o11;
         (m3, m7) = SBUTTERFLY DQ m3 m7;
         o11 = m2;
         o12 = m0;
         o15 = m3;
         o16 = m7
     in (o9, o10, o11, o12, o13, o14, o15, o16))"

text \<open>
  \<open>TRANSPOSE8x4B_STORE\<close>: 4 rows of 8 bytes in \<open>m0 .. m3\<close>; the result is the eight rows of 4
  bytes stored at \<open>%1 .. %8\<close>.
\<close>

definition TRANSPOSE8x4B_STORE ::
  "byte list \<Rightarrow> byte list \<Rightarrow> byte list \<Rightarrow> byte list
    \<Rightarrow> byte list \<times> byte list \<times> byte list \<times> byte list \<times> byte list \<times> byte list
      \<times> byte list \<times> byte list" where
  "TRANSPOSE8x4B_STORE a0 a1 a2 a3 =
    (let m0 = a0; m1 = a1; m2 = a2; m3 = a3;
         m4 = punpckh DQ m0 m0;
         m5 = punpckh DQ m1 m1;
         m6 = punpckh DQ m2 m2;
         m0 = punpckl BW m0 m1;
         m2 = punpckl BW m2 m3;
         m1 = punpckl WD m0 m2;
         m0 = punpckh WD m0 m2;
         o1 = movh m1;
         m1 = punpckh DQ m1 m1;
         o2 = movh m1;
         o3 = movh m0;
         m0 = punpckh DQ m0 m0;
         o4 = movh m0;
         m3 = punpckh DQ m3 m3;
         m4 = punpckl BW m4 m5;
         m6 = punpckl BW m6 m3;
         m5 = punpckl WD m4 m6;
         m4 = punpckh WD m4 m6;
         o5 = movh m5;
         m5 = punpckh DQ m5 m5;
         o6 = movh m5;
         o7 = movh m4;
         m4 = punpckh DQ m4 m4;
         o8 = movh m4
     in (o1, o2, o3, o4, o5, o6, o7, o8))"

text \<open>
  The scratch buffer \<open>pix_tmp\<close> is a plane of its own, addressed relative to the pointer
  that the vertical entry point receives (\<open>pix_tmp+0x30\<close> for \<open>deblock_h_luma_8\<close>,
  \<open>pix_tmp+0x40\<close> for \<open>deblock_h_luma_intra_8\<close>) with stride \<open>0x10\<close>; it does not overlap the
  picture.  \<open>PASS8ROWS\<close> names eight consecutive rows.

  \<open>deblock_h_luma_8\<close>, ``transpose 6x16 -> tmp space'': rows \<open>0 .. 15\<close>, columns \<open>-4 .. 3\<close> of the
  picture; the first \<open>TRANSPOSE6x8_MEM\<close> fills bytes \<open>0 .. 7\<close> of the six rows of the buffer,
  the second bytes \<open>8 .. 15\<close>.
\<close>

definition luma_transpose_in :: "plane \<Rightarrow> plane \<Rightarrow> plane" where
  "luma_transpose_in pix_tmp img =
    (let (t0, t1, t2, t3, t4, t5) = TRANSPOSE6x8_MEM
           (load_row 8 img 0 (- 4)) (load_row 8 img 1 (- 4)) (load_row 8 img 2 (- 4))
           (load_row 8 img 3 (- 4)) (load_row 8 img 4 (- 4)) (load_row 8 img 5 (- 4))
           (load_row 8 img 6 (- 4)) (load_row 8 img 7 (- 4));
         pix_tmp = store_row pix_tmp (- 3) 0 t0;
         pix_tmp = store_row pix_tmp (- 2) 0 t1;
         pix_tmp = store_row pix_tmp (- 1) 0 t2;
         pix_tmp = store_row pix_tmp 0 0 t3;
         pix_tmp = store_row pix_tmp 1 0 t4;
         pix_tmp = store_row pix_tmp 2 0 t5;
         (t0, t1, t2, t3, t4, t5) = TRANSPOSE6x8_MEM
           (load_row 8 img 8 (- 4)) (load_row 8 img 9 (- 4)) (load_row 8 img 10 (- 4))
           (load_row 8 img 11 (- 4)) (load_row 8 img 12 (- 4)) (load_row 8 img 13 (- 4))
           (load_row 8 img 14 (- 4)) (load_row 8 img 15 (- 4));
         pix_tmp = store_row pix_tmp (- 3) 8 t0;
         pix_tmp = store_row pix_tmp (- 2) 8 t1;
         pix_tmp = store_row pix_tmp (- 1) 8 t2;
         pix_tmp = store_row pix_tmp 0 8 t3;
         pix_tmp = store_row pix_tmp 1 8 t4;
         pix_tmp = store_row pix_tmp 2 8 t5
     in pix_tmp)"

text \<open>
  \<open>deblock_h_luma_8\<close>, ``transpose 16x4 -> original space'': the rows \<open>p1 .. q1\<close> of the buffer
  go back to columns \<open>-2 .. 1\<close> of the picture, rows \<open>8 .. 15\<close> first.
\<close>

definition luma_transpose_out :: "plane \<Rightarrow> plane \<Rightarrow> plane" where
  "luma_transpose_out pix_tmp img =
    (let (o1, o2, o3, o4, o5, o6, o7, o8) = TRANSPOSE8x4B_STORE
           (load_row 8 pix_tmp (- 2) 8) (load_row 8 pix_tmp (- 1) 8)
           (load_row 8 pix_tmp 0 8) (load_row 8 pix_tmp 1 8);
         img = store_row img 8 (- 2) o1;
         img = store_row img 9 (- 2) o2;
         img = store_row img 10 (- 2) o3;
         img = store_row img 11 (- 2) o4;
         img = store_row img 12 (- 2) o5;
         img = store_row img 13 (- 2) o6;
         img = store_row img 14 (- 2) o7;
         img = store_row img 15 (- 2) o8;
         (o1, o2, o3, o4, o5, o6, o7, o8) = TRANSPOSE8x4B_STORE
           (load_row 8 pix_tmp (- 2) 0) (load_row 8 pix_tmp (- 1) 0)
           (load_row 8 pix_tmp 0 0) (load_row 8 pix_tmp 1 0);
         img = store_row img 0 (- 2) o1;
         img = store_row img 1 (- 2) o2;
         img = store_row img 2 (- 2) o3;
         img = store_row img 3 (- 2) o4;
         img = store_row img 4 (- 2) o5;
         img = store_row img 5 (- 2) o6;
         img = store_row img 6 (- 2) o7;
         img = store_row img 7 (- 2) o8
     in img)"

text \<open>
  \<open>deblock_h_luma_8\<close> (x86-64).  \<open>pix_tmp\<close> is the content of the stack area on entry; the
  edge lies between columns \<open>-1\<close> and \<open>0\<close> of the picture.
\<close>

definition deblock_h_luma_8 :: "int \<Rightarrow> int \<Rightarrow> (nat \<Rightarrow> byte) \<Rightarrow> plane \<Rightarrow> plane \<Rightarrow> plane" where
  "deblock_h_luma_8 alpha beta tc0 pix_tmp img =
    (let pix_tmp = luma_transpose_in pix_tmp img;
         pix_tmp = deblock_v_luma_8 alpha beta tc0 pix_tmp
     in luma_transpose_out pix_tmp img)"

text \<open>
  \<open>deblock_h_luma_intra_8\<close> (x86-64), ``transpose 8x16 -> tmp space'' and ``transpose 16x6 ->
  original space (but we can't write only 6 pixels, so really 16x8)''.
\<close>

definition luma_intra_transpose_in :: "plane \<Rightarrow> plane \<Rightarrow> plane" where
  "luma_intra_transpose_in pix_tmp img =
    (let (o9, o10, o11, o12, o13, o14, o15, o16) = TRANSPOSE8x8_MEM
           (load_row 8 img 0 (- 4)) (load_row 8 img 1 (- 4)) (load_row 8 img 2 (- 4))
           (load_row 8 img 3 (- 4)) (load_row 8 img 4 (- 4)) (load_row 8 img 5 (- 4))
           (load_row 8 img 6 (- 4)) (load_row 8 img 7 (- 4));
         pix_tmp = store_row pix_tmp (- 4) 0 o9;
         pix_tmp = store_row pix_tmp (- 3) 0 o10;
         pix_tmp = store_row pix_tmp (- 2) 0 o11;
         pix_tmp = store_row pix_tmp (- 1) 0 o12;
         pix_tmp = store_row pix_tmp 0 0 o13;
         pix_tmp = store_row pix_tmp 1 0 o14;
         pix_tmp = store_row pix_tmp 2 0 o15;
         pix_tmp = store_row pix_tmp 3 0 o16;
         (o9, o10, o11, o12, o13, o14, o15, o16) = TRANSPOSE8x8_MEM
           (load_row 8 img 8 (- 4)) (load_row 8 img 9 (- 4)) (load_row 8 img 10 (- 4))
           (load_row 8 img 11 (- 4)) (load_row 8 img 12 (- 4)) (load_row 8 img 13 (- 4))
           (load_row 8 img 14 (- 4)) (load_row 8 img 15 (- 4));
         pix_tmp = store_row pix_tmp (- 4) 8 o9;
         pix_tmp = store_row pix_tmp (- 3) 8 o10;
         pix_tmp = store_row pix_tmp (- 2) 8 o11;
         pix_tmp = store_row pix_tmp (- 1) 8 o12;
         pix_tmp = store_row pix_tmp 0 8 o13;
         pix_tmp = store_row pix_tmp 1 8 o14;
         pix_tmp = store_row pix_tmp 2 8 o15;
         pix_tmp = store_row pix_tmp 3 8 o16
     in pix_tmp)"

definition luma_intra_transpose_out :: "plane \<Rightarrow> plane \<Rightarrow> plane" where
  "luma_intra_transpose_out pix_tmp img =
    (let (o9, o10, o11, o12, o13, o14, o15, o16) = TRANSPOSE8x8_MEM
           (load_row 8 pix_tmp (- 4) 8) (load_row 8 pix_tmp (- 3) 8) (load_row 8 pix_tmp (- 2) 8)
           (load_row 8 pix_tmp (- 1) 8) (load_row 8 pix_tmp 0 8) (load_row 8 pix_tmp 1 8)
           (load_row 8 pix_tmp 2 8) (load_row 8 pix_tmp 3 8);
         img = store_row img 8 (- 4) o9;
         img = store_row img 9 (- 4) o10;
         img = store_row img 10 (- 4) o11;
         img = store_row img 11 (- 4) o12;
         img = store_row img 12 (- 4) o13;
         img = store_row img 13 (- 4) o14;
         img = store_row img 14 (- 4) o15;
         img = store_row img 15 (- 4) o16;
         (o9, o10, o11, o12, o13, o14, o15, o16) = TRANSPOSE8x8_MEM
           (load_row 8 pix_tmp (- 4) 0) (load_row 8 pix_tmp (- 3) 0) (load_row 8 pix_tmp (- 2) 0)
           (load_row 8 pix_tmp (- 1) 0) (load_row 8 pix_tmp 0 0) (load_row 8 pix_tmp 1 0)
           (load_row 8 pix_tmp 2 0) (load_row 8 pix_tmp 3 0);
         img = store_row img 0 (- 4) o9;
         img = store_row img 1 (- 4) o10;
         img = store_row img 2 (- 4) o11;
         img = store_row img 3 (- 4) o12;
         img = store_row img 4 (- 4) o13;
         img = store_row img 5 (- 4) o14;
         img = store_row img 6 (- 4) o15;
         img = store_row img 7 (- 4) o16
     in img)"

definition deblock_h_luma_intra_8 :: "int \<Rightarrow> int \<Rightarrow> plane \<Rightarrow> plane \<Rightarrow> plane" where
  "deblock_h_luma_intra_8 alpha beta pix_tmp img =
    (let pix_tmp = luma_intra_transpose_in pix_tmp img;
         pix_tmp = deblock_v_luma_intra_8 alpha beta pix_tmp
     in luma_intra_transpose_out pix_tmp img)"

text \<open>The transposed plane: rows and columns change places.\<close>

definition transpose_plane :: "plane \<Rightarrow> plane" where
  "transpose_plane img = (\<lambda>y x. img x y)"

section \<open>Arithmetic of the byte instructions\<close>

lemma uint_byte_bounds: "0 \<le> uint (a::byte)" "uint (a::byte) < 256" "uint (a::byte) \<le> 255"
  using uint_bounded[of a] by simp_all

lemma uint_woi8: "0 \<le> x \<Longrightarrow> x < 256 \<Longrightarrow> uint (word_of_int x :: byte) = x"
  by (simp add: uint_word_of_int take_bit_eq_mod)

lemma uint_pavgb: "uint (pavgb a b) = (uint a + uint b + 1) div 2"
  unfolding pavgb_def using uint_byte_bounds[of a] uint_byte_bounds[of b]
  by (intro uint_woi8) auto

lemma uint_psubusb: "uint (psubusb a b) = max 0 (uint a - uint b)"
proof -
  have "max 0 (uint a - uint b) < 256"
    using uint_byte_bounds(2)[of a] uint_ge_0[of b] by arith
  then show ?thesis
    unfolding psubusb_def by (intro uint_woi8) auto
qed

lemma uint_paddusb: "uint (paddusb a b) = min 255 (uint a + uint b)"
  unfolding paddusb_def using uint_byte_bounds[of a] uint_byte_bounds[of b]
  by (intro uint_woi8) auto

lemma uint_pminub: "uint (pminub a b) = min (uint a) (uint b)"
  by (simp add: pminub_def min_def word_le_def)

lemma uint_pmaxub: "uint (pmaxub a b) = max (uint a) (uint b)"
  by (simp add: pmaxub_def max_def word_le_def)

lemma uint_not8: "uint (NOT a :: byte) = 255 - uint a"
proof -
  have "NOT a = 255 - a" by (simp add: not_eq_complement)
  then show ?thesis using uint_byte_bounds[of a] by (simp add: uint_sub_if')
qed

lemma byte_eq_iff: "(a::byte) = b \<longleftrightarrow> uint a = uint b"
  by (simp add: word_uint_eq_iff)

lemma byte_zero_iff: "(a::byte) = 0 \<longleftrightarrow> uint a = 0"
  by (simp add: word_uint_eq_iff)

lemma splat_pack_range:
  assumes "0 \<le> x" "x \<le> 255"
  shows "uint (splat_pack x) = x"
proof -
  have s: "sint (word_of_int x :: 16 word) = x"
    using assms by (simp add: int_word_sint)
  have u: "uint (ucast (word_of_int x :: 16 word) :: byte) = x"
    using assms by (simp add: uint_word_of_int take_bit_eq_mod unsigned_ucast_eq)
  show ?thesis
    using s u assms by (simp add: splat_pack_def packuswb_def)
qed

lemma splat_pack_neg: "splat_pack (- 1) = 0"
  by (simp add: splat_pack_def packuswb_def)

lemma psubusb_zero: "uint a \<le> uint b \<Longrightarrow> psubusb a b = 0"
  by (simp add: byte_zero_iff uint_psubusb)

lemma uint_absdiff:
  "uint (por (psubusb a b) (psubusb b a)) = \<bar>uint a - uint b\<bar>"
proof (cases "uint a \<le> uint b")
  case True
  then show ?thesis by (simp add: psubusb_zero por_def uint_psubusb)
next
  case False
  then have "psubusb b a = 0" by (simp add: psubusb_zero)
  then show ?thesis using False by (simp add: por_def uint_psubusb)
qed

lemma DIFF_GT_zero:
  "fst (DIFF_GT a b c) = 0 \<longleftrightarrow> \<bar>uint a - uint b\<bar> \<le> uint c"
  by (simp add: DIFF_GT_def Let_def byte_zero_iff uint_psubusb[of _ c] uint_absdiff) arith

lemma LOAD_MASK_samples:
  "m0 (LOAD_MASK a b r) = m0 r" "m1 (LOAD_MASK a b r) = m1 r"
  "m2 (LOAD_MASK a b r) = m2 r" "m3 (LOAD_MASK a b r) = m3 r"
  by (simp_all add: LOAD_MASK_def Let_def)

lemma LOAD_MASK_m5: "m5 (LOAD_MASK a b r) = splat_pack b"
  by (simp add: LOAD_MASK_def Let_def)

lemma LOAD_MASK_m7:
  "m7 (LOAD_MASK a b r) =
    (if \<bar>uint (m1 r) - uint (m2 r)\<bar> \<le> uint (splat_pack a)
        \<and> \<bar>uint (m0 r) - uint (m1 r)\<bar> \<le> uint (splat_pack b)
        \<and> \<bar>uint (m3 r) - uint (m2 r)\<bar> \<le> uint (splat_pack b)
     then 0xFF else 0)"
  by (simp add: LOAD_MASK_def Let_def pcmpeqb_def pxor_def por_def or_eq_0_iff DIFF_GT_zero)

lemma uint_xor_and1: "uint (pand (pxor a b) pb_1) = (uint a + uint b) mod 2"
proof -
  have "uint ((a XOR b) AND 1) = uint (a XOR b) mod 2"
    by (simp add: and_one_eq uint_mod)
  also have "\<dots> = (uint a XOR uint b) mod 2" by (simp add: uint_xor)
  also have "\<dots> = (uint a + uint b) mod 2"
    by (metis even_add even_xor_iff mod2_eq_if)
  finally show ?thesis by (simp add: pand_def pxor_def pb_1_def)
qed

lemma uint_pxor_ones:
  "uint (pxor a (pcmpeqb 0 0)) = 255 - uint a" "uint (pxor (pcmpeqb 0 0) a) = 255 - uint a"
proof -
  have "(0xFF::byte) = - 1" by simp
  then have "a XOR 0xFF = NOT a" by (simp only: bit.xor_one_right)
  then show "uint (pxor a (pcmpeqb 0 0)) = 255 - uint a"
    by (simp add: pxor_def pcmpeqb_def uint_not8)
  then show "uint (pxor (pcmpeqb 0 0) a) = 255 - uint a"
    by (simp add: pxor_def xor.commute)
qed

lemma div8_of_4: "0 \<le> r \<Longrightarrow> r < 4 \<Longrightarrow> (4 * m + r) div 8 = m div (2::int)"
  by arith

lemma div8_split:
  fixes a b :: int
  shows "(4 * a + b + 4) div 8 = a div 2 - 33 + ((b + 264) div 4 + a mod 2 + 1) div 2"
proof -
  define K where "K = (b + 264) div 4"
  define r where "r = (b + 264) mod 4"
  define J where "J = a div 2"
  define s where "s = a mod 2"
  have b: "b = 4 * K + r - 264" unfolding K_def r_def by simp
  have r: "0 \<le> r" "r < 4" unfolding r_def by simp_all
  have a: "a = 2 * J + s" unfolding J_def s_def by simp
  have "4 * a + b + 4 = (4 * (K + s + 1) + r) + (J - 33) * 8"
    by (subst a, subst b) simp
  moreover have "((4 * (K + s + 1) + r) + (J - 33) * 8) div 8 = (J - 33) + (4 * (K + s + 1) + r) div 8"
    by (rule div_mult_self1) simp
  moreover have "(4 * (K + s + 1) + r) div 8 = (K + s + 1) div 2"
    using r by (rule div8_of_4)
  ultimately have "(4 * a + b + 4) div 8 = (J - 33) + (K + s + 1) div 2" by simp
  then show ?thesis unfolding K_def J_def s_def by simp
qed

lemma bias_int:
  fixes a b :: int
  shows "(((b + 256) div 2 + 4) div 2 + a mod 2 + 1) div 2 + (a + 256) div 2
     = (4 * a + b + 4) div 8 + 161"
proof -
  have 1: "((b + 256) div 2 + 4) div 2 = (b + 264) div 4" by arith
  have 2: "(a + 256) div 2 = a div 2 + 128" by arith
  show ?thesis unfolding 1 2 div8_split by simp
qed

lemma DEBLOCK_bias:
  "uint (pavgb (pavgb (pavgb (pxor q1 (pcmpeqb 0 0)) p1) pb_3) (pand (pxor p0 q0) pb_1))
     + uint (pavgb (pxor (pcmpeqb 0 0) p0) q0)
   = delta_raw (uint p1) (uint p0) (uint q0) (uint q1) + 161"
proof -
  define a where "a = uint q0 - uint p0"
  define b where "b = uint p1 - uint q1"
  have m: "uint (pand (pxor p0 q0) pb_1) = a mod 2"
    unfolding uint_xor_and1 a_def by presburger
  have e1: "uint (pavgb (pxor q1 (pcmpeqb 0 0)) p1) = (b + 256) div 2"
    by (simp add: uint_pavgb uint_pxor_ones b_def)
  have e2: "uint (pavgb (pxor (pcmpeqb 0 0) p0) q0) = (a + 256) div 2"
    by (simp add: uint_pavgb uint_pxor_ones a_def)
  have e3: "uint (pavgb (pavgb (pxor q1 (pcmpeqb 0 0)) p1) pb_3) = ((b + 256) div 2 + 4) div 2"
    unfolding uint_pavgb[of _ pb_3] e1 by (simp add: pb_3_def)
  have e4: "uint (pavgb (pavgb (pavgb (pxor q1 (pcmpeqb 0 0)) p1) pb_3) (pand (pxor p0 q0) pb_1))
    = (((b + 256) div 2 + 4) div 2 + a mod 2 + 1) div 2"
    unfolding uint_pavgb[of _ "pand (pxor p0 q0) pb_1"] e3 m ..
  have d: "delta_raw (uint p1) (uint p0) (uint q0) (uint q1) = (4 * a + b + 4) div 8"
    by (simp add: delta_raw_def a_def b_def)
  show ?thesis unfolding e4 e2 d by (rule bias_int)
qed

lemma delta_raw_bounds_int:
  fixes p1 p0 q0 q1 :: int
  assumes "0 \<le> p1" "p1 \<le> 255" "0 \<le> p0" "p0 \<le> 255"
    and "0 \<le> q0" "q0 \<le> 255" "0 \<le> q1" "q1 \<le> 255"
  shows "- 159 \<le> delta_raw p1 p0 q0 q1" and "delta_raw p1 p0 q0 q1 \<le> 159"
proof -
  let ?x = "4 * (q0 - p0) + (p1 - q1) + 4"
  have lo: "- 1272 \<le> ?x" and hi: "?x \<le> 1279"
    using assms by simp_all
  have "(- 1272) div 8 \<le> ?x div 8" using lo by (rule zdiv_mono1) simp
  then show "- 159 \<le> delta_raw p1 p0 q0 q1"
    by (simp add: delta_raw_def)
  have "?x div 8 \<le> 1279 div 8" using hi by (rule zdiv_mono1) simp
  then show "delta_raw p1 p0 q0 q1 \<le> 159"
    by (simp add: delta_raw_def)
qed

lemma delta_raw_bounds:
  fixes p1 p0 q0 q1 :: byte
  shows "- 159 \<le> delta_raw (uint p1) (uint p0) (uint q0) (uint q1)"
    and "delta_raw (uint p1) (uint p0) (uint q0) (uint q1) \<le> 159"
  by (rule delta_raw_bounds_int; simp add: uint_byte_bounds)+

lemma p0q0_int:
  fixes d tc p :: int
  assumes "- 159 \<le> d" "d \<le> 159" "0 \<le> tc" "tc \<le> 255" "0 \<le> p" "p \<le> 255"
  shows "min 255 (max 0 (p - min (max 0 (161 - min 255 (d + 161))) tc)
                  + min (max 0 (min 255 (d + 161) - 161)) tc)
          = Clip1 (p + clip3 (- tc) tc (min d 94))"
    and "min 255 (max 0 (p - min (max 0 (min 255 (d + 161) - 161)) tc)
                  + min (max 0 (161 - min 255 (d + 161))) tc)
          = Clip1 (p - clip3 (- tc) tc (min d 94))"
  using assms by (simp_all add: min_def max_def Clip1_def clip3_def)

lemma DEBLOCK_P0_Q0_eq:
  "uint (fst (DEBLOCK_P0_Q0 p1 p0 q0 q1 tc)) =
     Clip1 (uint p0 + clip3 (- uint tc) (uint tc) (min (delta_raw (uint p1) (uint p0) (uint q0) (uint q1)) 94))"
  "uint (snd (DEBLOCK_P0_Q0 p1 p0 q0 q1 tc)) =
     Clip1 (uint q0 - clip3 (- uint tc) (uint tc) (min (delta_raw (uint p1) (uint p0) (uint q0) (uint q1)) 94))"
proof -
  define d where "d = delta_raw (uint p1) (uint p0) (uint q0) (uint q1)"
  define s where "s = paddusb (pavgb (pavgb (pavgb (pxor q1 (pcmpeqb 0 0)) p1) pb_3) (pand (pxor p0 q0) pb_1)) (pavgb (pxor (pcmpeqb 0 0) p0) q0)"
  have s: "uint s = min 255 (d + 161)"
    unfolding s_def d_def uint_paddusb DEBLOCK_bias ..
  have d: "- 159 \<le> d" "d \<le> 159" unfolding d_def by (rule delta_raw_bounds)+
  have A1: "uint pb_A1 = 161" by (simp add: pb_A1_def)
  have f: "fst (DEBLOCK_P0_Q0 p1 p0 q0 q1 tc)
      = paddusb (psubusb p0 (pminub (psubusb pb_A1 s) tc)) (pminub (psubusb s pb_A1) tc)"
    by (simp add: DEBLOCK_P0_Q0_def Let_def s_def)
  have g: "snd (DEBLOCK_P0_Q0 p1 p0 q0 q1 tc)
      = paddusb (psubusb q0 (pminub (psubusb s pb_A1) tc)) (pminub (psubusb pb_A1 s) tc)"
    by (simp add: DEBLOCK_P0_Q0_def Let_def s_def)
  show "uint (fst (DEBLOCK_P0_Q0 p1 p0 q0 q1 tc)) =
     Clip1 (uint p0 + clip3 (- uint tc) (uint tc) (min (delta_raw (uint p1) (uint p0) (uint q0) (uint q1)) 94))"
    unfolding f uint_paddusb uint_psubusb uint_pminub s A1 d_def[symmetric]
    by (rule p0q0_int(1)[OF d]) (simp_all add: uint_byte_bounds)
  show "uint (snd (DEBLOCK_P0_Q0 p1 p0 q0 q1 tc)) =
     Clip1 (uint q0 - clip3 (- uint tc) (uint tc) (min (delta_raw (uint p1) (uint p0) (uint q0) (uint q1)) 94))"
    unfolding g uint_paddusb uint_psubusb uint_pminub s A1 d_def[symmetric]
    by (rule p0q0_int(2)[OF d]) (simp_all add: uint_byte_bounds)
qed

lemma DIFF_GT2_eq:
  "DIFF_GT2 a b c = (if \<bar>uint a - uint b\<bar> \<le> uint c then 0xFF else 0)"
proof -
  have "psubusb (psubusb a b) c = psubusb (psubusb b a) c \<longleftrightarrow> \<bar>uint a - uint b\<bar> \<le> uint c"
    unfolding byte_eq_iff uint_psubusb
    using uint_ge_0[of c] by (simp add: min_def max_def) 
  then show ?thesis by (simp add: DIFF_GT2_def Let_def pcmpeqb_def)
qed

lemma favg_int: "(s + 1) div 2 - s mod 2 = s div (2::int)"
  by arith

lemma uint_floor_avg:
  "uint (psubusb (pavgb a b) (pand (pxor b a) pb_1)) = (uint a + uint b) div 2"
proof -
  have "0 \<le> (uint a + uint b) div 2" by simp
  then show ?thesis
    unfolding uint_psubusb uint_pavgb uint_xor_and1 add.commute[of "uint b" "uint a"]
      favg_int[symmetric, of "uint a + uint b"]
    by simp
qed

lemma luma_q1_int:
  fixes p1 x tc :: int
  assumes "0 \<le> p1" "p1 \<le> 255" "0 \<le> x" "x \<le> 255" "0 \<le> tc" "tc \<le> 255"
  shows "min (max x (max 0 (p1 - tc))) (min 255 (tc + p1)) = p1 + clip3 (- tc) tc (x - p1)"
  using assms by (simp add: min_def max_def clip3_def)

lemma half_shift: "(y - 2 * p) div 2 = y div 2 - (p::int)"
  by simp

lemma LUMA_Q1_eq:
  "uint (LUMA_Q1 p0 q0 p1 p2 p2 tc) =
     uint p1 + clip3 (- uint tc) (uint tc)
       ((uint p2 + (uint p0 + uint q0 + 1) div 2 - 2 * uint p1) div 2)"
proof -
  define x where "x = psubusb (pavgb p2 (pavgb p0 q0)) (pand (pxor (pavgb p0 q0) p2) pb_1)"
  have x: "uint x = (uint p2 + (uint p0 + uint q0 + 1) div 2) div 2"
    unfolding x_def uint_floor_avg uint_pavgb ..
  have xb: "0 \<le> uint x" "uint x \<le> 255" by (simp_all add: uint_byte_bounds)
  have l: "LUMA_Q1 p0 q0 p1 p2 p2 tc = pminub (pmaxub x (psubusb p1 tc)) (paddusb tc p1)"
    by (simp add: LUMA_Q1_def Let_def x_def)
  have "uint (LUMA_Q1 p0 q0 p1 p2 p2 tc) = uint p1 + clip3 (- uint tc) (uint tc) (uint x - uint p1)"
    unfolding l uint_pminub uint_pmaxub uint_psubusb uint_paddusb
    by (rule luma_q1_int) (simp_all add: uint_byte_bounds)
  then show ?thesis unfolding x half_shift .
qed

lemma LUMA_Q1_zero: "LUMA_Q1 p0 q0 p1 p2 p2 0 = p1"
  using LUMA_Q1_eq[of p0 q0 p1 p2 0] by (simp add: byte_eq_iff clip3_def)

lemma byte_ff: "(0xFF::byte) = - 1"
  by simp

lemma lane_mask_m7:
  "m7 (LOAD_MASK (alpha - 1) (beta - 1) (sample_regs p1 p0 q0 q1))
    = (if lane_mask alpha beta p1 p0 q0 q1 then 0xFF else 0)"
  by (simp add: lane_mask_def LOAD_MASK_m7)

lemma lane_mask_iff:
  "lane_mask alpha beta p1 p0 q0 q1 \<longleftrightarrow>
    \<bar>uint p0 - uint q0\<bar> \<le> uint (splat_pack (alpha - 1))
    \<and> \<bar>uint p1 - uint p0\<bar> \<le> uint (splat_pack (beta - 1))
    \<and> \<bar>uint q1 - uint q0\<bar> \<le> uint (splat_pack (beta - 1))"
  by (simp add: lane_mask_def LOAD_MASK_m7 sample_regs_def)

lemma sample_regs_sel:
  "m0 (sample_regs p1 p0 q0 q1) = p1" "m1 (sample_regs p1 p0 q0 q1) = p0"
  "m2 (sample_regs p1 p0 q0 q1) = q0" "m3 (sample_regs p1 p0 q0 q1) = q1"
  by (simp_all add: sample_regs_def)

lemma deblock_v_luma_lane_unfold:
  "deblock_v_luma_lane alpha beta tc (p2, p1, p0, q0, q1, q2) =
    (let on = (lane_mask alpha beta p1 p0 q0 q1 \<and> tc \<noteq> 0xFF);
         ap = (on \<and> \<bar>uint p0 - uint p2\<bar> \<le> uint (splat_pack (beta - 1)));
         aq = (on \<and> \<bar>uint q0 - uint q2\<bar> \<le> uint (splat_pack (beta - 1)));
         tC = (if on then tc + (if ap then 1 else 0) + (if aq then 1 else 0) else 0)
     in (LUMA_Q1 p0 q0 p1 p2 p2 (if ap then tc else 0),
         fst (DEBLOCK_P0_Q0 p1 p0 q0 q1 tC),
         snd (DEBLOCK_P0_Q0 p1 p0 q0 q1 tC),
         LUMA_Q1 p0 q0 q1 q2 q2 (if aq then tc else 0)))"
  unfolding deblock_v_luma_lane_def
  by (simp add: Let_def split_def LOAD_MASK_samples LOAD_MASK_m5 lane_mask_m7 DIFF_GT2_eq
      pcmpeqb_def pandn_def pand_def psubb_def byte_ff sample_regs_sel add.commute)

lemma filterEdge_lane_mask:
  assumes "1 \<le> alpha" "alpha \<le> 256" "1 \<le> beta" "beta \<le> 256"
  shows "lane_mask alpha beta p1 p0 q0 q1
     \<longleftrightarrow> filterEdge alpha beta (uint p1) (uint p0) (uint q0) (uint q1)"
proof -
  have a: "uint (splat_pack (alpha - 1)) = alpha - 1"
    using assms by (intro splat_pack_range) simp_all
  have b: "uint (splat_pack (beta - 1)) = beta - 1"
    using assms by (intro splat_pack_range) simp_all
  show ?thesis unfolding lane_mask_iff a b filterEdge_def by auto
qed

lemma Clip1_uint: "Clip1 (uint (a::byte)) = uint a"
  using uint_byte_bounds(3)[of a] by (simp add: Clip1_def)

lemma uint_tc_plus:
  "uint ((tc::byte) + (if ap then 1 else 0) + (if aq then 1 else 0)) = luma_tC (uint tc) ap aq mod 256"
  by (simp add: luma_tC_def uint_word_ariths mod_simps)

lemma deblock_v_luma_lane_general:
  "uint4 (deblock_v_luma_lane alpha beta tc (p2, p1, p0, q0, q1, q2)) =
    (let B = uint (splat_pack (beta - 1));
         on = (lane_mask alpha beta p1 p0 q0 q1 \<and> tc \<noteq> 0xFF);
         ap = (on \<and> \<bar>uint p2 - uint p0\<bar> \<le> B);
         aq = (on \<and> \<bar>uint q2 - uint q0\<bar> \<le> B);
         tC = (if on then luma_tC (uint tc) ap aq mod 256 else 0);
         delta = clip3 (- tC) tC (min (delta_raw (uint p1) (uint p0) (uint q0) (uint q1)) 94)
     in (if ap then luma_p1 (uint tc) (uint p2) (uint p1) (uint p0) (uint q0) else uint p1,
         Clip1 (uint p0 + delta),
         Clip1 (uint q0 - delta),
         if aq then luma_p1 (uint tc) (uint q2) (uint q1) (uint p0) (uint q0) else uint q1))"
proof -
  have sw: "\<bar>uint p0 - uint p2\<bar> = \<bar>uint p2 - uint p0\<bar>" "\<bar>uint q0 - uint q2\<bar> = \<bar>uint q2 - uint q0\<bar>"
    by simp_all
  define on where "on \<longleftrightarrow> lane_mask alpha beta p1 p0 q0 q1 \<and> tc \<noteq> 0xFF"
  show ?thesis
    unfolding deblock_v_luma_lane_unfold sw on_def[symmetric]
    by (cases on)
      (simp_all add: Let_def uint4_def DEBLOCK_P0_Q0_eq LUMA_Q1_eq LUMA_Q1_zero luma_p1_def
        uint_tc_plus clip3_def[of 0 0] Clip1_uint)
qed

lemma uint_floor_avg':
  "uint (psubusb (pavgb a b) (pand (pxor a b) pb_1)) = (uint a + uint b) div 2"
  using uint_floor_avg[of a b] by (simp add: pxor_def xor.commute)

lemma quarter_int: "(s div 2 + p + 1) div 2 = (2 * p + s + 2) div (4::int)"
proof -
  have "s div 2 + p + 1 = (s + 2 * (p + 1)) div 2" by simp
  then have "(s div 2 + p + 1) div 2 = (s + 2 * (p + 1)) div 2 div 2" by simp
  also have "\<dots> = (s + 2 * (p + 1)) div (2 * 2)" by (simp add: zdiv_zmult2_eq)
  finally show ?thesis by (simp add: algebra_simps)
qed

lemma CHROMA_INTRA_P0_eq:
  "uint (CHROMA_INTRA_P0 p0 p1 q1) = (2 * uint p1 + uint p0 + uint q1 + 2) div 4"
  unfolding CHROMA_INTRA_P0_def Let_def uint_pavgb[of _ p1] uint_floor_avg' quarter_int
  by (simp add: algebra_simps)

lemma mask_select: "paddb (pand (psubb x y) (if c then 0xFF else 0)) y = (if c then x else y)"
  by (simp add: paddb_def pand_def psubb_def byte_ff)

lemma chroma_intra_lane_unfold:
  "chroma_intra_lane alpha beta (p1, p0, q0, q1) =
    (p1,
     if lane_mask alpha beta p1 p0 q0 q1 then CHROMA_INTRA_P0 p0 p1 q1 else p0,
     if lane_mask alpha beta p1 p0 q0 q1 then CHROMA_INTRA_P0 q0 q1 p1 else q0,
     q1)"
  by (simp add: chroma_intra_lane_def Let_def LOAD_MASK_samples sample_regs_sel lane_mask_m7
      mask_select)

lemma chroma_intra_lane_general:
  "uint4 (chroma_intra_lane alpha beta (p1, p0, q0, q1)) =
    (if lane_mask alpha beta p1 p0 q0 q1
     then (uint p1, (2 * uint p1 + uint p0 + uint q1 + 2) div 4,
           (2 * uint q1 + uint q0 + uint p1 + 2) div 4, uint q1)
     else (uint p1, uint p0, uint q0, uint q1))"
  by (simp add: chroma_intra_lane_unfold uint4_def CHROMA_INTRA_P0_eq)

lemma chroma_inter_lane_unfold:
  "chroma_inter_lane alpha beta tc (p1, p0, q0, q1) =
    DEBLOCK_P0_Q0 p1 p0 q0 q1 (if lane_mask alpha beta p1 p0 q0 q1 then tc else 0)"
  by (simp add: chroma_inter_lane_def Let_def LOAD_MASK_samples sample_regs_sel lane_mask_m7
      pand_def byte_ff)

lemma chroma_inter_lane_general:
  "(uint (fst (chroma_inter_lane alpha beta tc (p1, p0, q0, q1))),
    uint (snd (chroma_inter_lane alpha beta tc (p1, p0, q0, q1)))) =
    (let b = (if lane_mask alpha beta p1 p0 q0 q1 then uint tc else 0);
         delta = clip3 (- b) b (min (delta_raw (uint p1) (uint p0) (uint q0) (uint q1)) 94)
     in (Clip1 (uint p0 + delta), Clip1 (uint q0 - delta)))"
  by (simp add: chroma_inter_lane_unfold DEBLOCK_P0_Q0_eq Let_def)

lemma DEBLOCK_P0_Q0_zero: "DEBLOCK_P0_Q0 p1 p0 q0 q1 0 = (p0, q0)"
  by (simp add: prod_eq_iff byte_eq_iff DEBLOCK_P0_Q0_eq clip3_def Clip1_uint)

lemma tc_lanes_16:
  "punpcklbw (punpcklbw (movd_tc0 16 tc0) (movd_tc0 16 tc0))
             (punpcklbw (movd_tc0 16 tc0) (movd_tc0 16 tc0))
   = [tc0 0, tc0 0, tc0 0, tc0 0, tc0 1, tc0 1, tc0 1, tc0 1,
      tc0 2, tc0 2, tc0 2, tc0 2, tc0 3, tc0 3, tc0 3, tc0 3]"
  by code_simp

lemma tc_lanes_8:
  "punpcklbw (punpcklbw (movd_tc0 8 tc0) (movd_tc0 8 tc0))
             (punpcklbw (movd_tc0 8 tc0) (movd_tc0 8 tc0))
   = [tc0 0, tc0 0, tc0 0, tc0 0, tc0 1, tc0 1, tc0 1, tc0 1]"
  by code_simp

lemma tc_lanes_chroma:
  "punpcklbw (movd_tc0 8 tc0) (movd_tc0 8 tc0)
   = [tc0 0, tc0 0, tc0 1, tc0 1, tc0 2, tc0 2, tc0 3, tc0 3]"
  by code_simp

lemma nat_lt_16_cases:
  "j < 16 \<Longrightarrow> j = 0 \<or> j = 1 \<or> j = 2 \<or> j = 3 \<or> j = 4 \<or> j = 5 \<or> j = 6 \<or> j = 7
     \<or> j = 8 \<or> j = 9 \<or> j = 10 \<or> j = 11 \<or> j = 12 \<or> j = 13 \<or> j = 14 \<or> j = (15::nat)"
  by arith

lemma tc_lane_16:
  assumes "j < 16"
  shows "[tc0 0, tc0 0, tc0 0, tc0 0, tc0 1, tc0 1, tc0 1, tc0 1,
      tc0 2, tc0 2, tc0 2, tc0 2, tc0 3, tc0 3, tc0 3, tc0 3] ! j = tc0 (j div 4)"
  using nat_lt_16_cases[OF assms] by (elim disjE) simp_all

lemma tc_lane_8:
  assumes "j < 8"
  shows "[tc0 0, tc0 0, tc0 0, tc0 0, tc0 1, tc0 1, tc0 1, tc0 1] ! j = tc0 (j div 4)"
proof -
  have "j < 16" using assms by simp
  from nat_lt_16_cases[OF this] assms show ?thesis by (elim disjE) simp_all
qed

lemma tc_lane_chroma:
  assumes "j < 8"
  shows "[tc0 0, tc0 0, tc0 1, tc0 1, tc0 2, tc0 2, tc0 3, tc0 3] ! j = tc0 (j div 2)"
proof -
  have "j < 16" using assms by simp
  from nat_lt_16_cases[OF this] assms show ?thesis by (elim disjE) simp_all
qed

lemma tc_reg_16:
  assumes "j < 16"
  shows "punpcklbw (punpcklbw (movd_tc0 16 tc0) (movd_tc0 16 tc0))
             (punpcklbw (movd_tc0 16 tc0) (movd_tc0 16 tc0)) ! j = tc0 (j div 4)"
  unfolding tc_lanes_16 using assms by (rule tc_lane_16)

lemma tc_reg_8:
  assumes "j < 8"
  shows "punpcklbw (punpcklbw (movd_tc0 8 tc0) (movd_tc0 8 tc0))
             (punpcklbw (movd_tc0 8 tc0) (movd_tc0 8 tc0)) ! j = tc0 (j div 4)"
  unfolding tc_lanes_8 using assms by (rule tc_lane_8)

lemma tc_reg_chroma:
  assumes "j < 8"
  shows "punpcklbw (movd_tc0 8 tc0) (movd_tc0 8 tc0) ! j = tc0 (j div 2)"
  unfolding tc_lanes_chroma using assms by (rule tc_lane_chroma)

lemma load_row_nth: "j < n \<Longrightarrow> load_row n img y x ! j = img y (x + int j)"
  by (simp add: load_row_def)

lemma store_row_map_at:
  "store_row img y 0 (map f [0..<n]) y' x' =
    (if y' = y \<and> 0 \<le> x' \<and> x' < int n then f (nat x') else img y' x')"
  by (auto simp add: store_row_def nat_less_iff)

lemma deblock_v_luma_8_at:
  "deblock_v_luma_8 alpha beta tc0 img y x =
    (if 0 \<le> x \<and> x < 16 \<and> y \<in> {- 2, - 1, 0, 1} then
       (case deblock_v_luma_lane alpha beta (tc0 (nat x div 4))
              (img (- 3) x, img (- 2) x, img (- 1) x, img 0 x, img 1 x, img 2 x)
        of (p1', p0', q0', q1') \<Rightarrow>
          if y = - 2 then p1' else if y = - 1 then p0' else if y = 0 then q0' else q1')
     else img y x)"
proof (cases "0 \<le> x \<and> x < 16")
  case True
  then have j: "nat x < 16" by linarith
  show ?thesis
    unfolding deblock_v_luma_8_def Let_def map_map store_row_map_at
    using True j by (simp add: load_row_nth tc_reg_16 split_def)
next
  case False
  then show ?thesis
    unfolding deblock_v_luma_8_def Let_def map_map store_row_map_at
    by auto
qed

lemma deblock_luma_lane_x86_32_unfold:
  "deblock_luma_lane_x86_32 alpha beta tc (p2, p1, p0, q0, q1, q2) =
    (let on = (lane_mask alpha beta p1 p0 q0 q1 \<and> - 1 < sint tc);
         ap = (on \<and> \<bar>uint p0 - uint p2\<bar> \<le> uint (splat_pack (beta - 1)));
         aq = (on \<and> \<bar>uint q0 - uint q2\<bar> \<le> uint (splat_pack (beta - 1)));
         tC = (if on then tc + (if ap then 1 else 0) + (if aq then 1 else 0) else 0)
     in (LUMA_Q1 p0 q0 p1 p2 p2 (if ap then tc else 0),
         fst (DEBLOCK_P0_Q0 p1 p0 q0 q1 tC),
         snd (DEBLOCK_P0_Q0 p1 p0 q0 q1 tC),
         LUMA_Q1 p0 q0 q1 q2 q2 (if aq then tc else 0)))"
  unfolding deblock_luma_lane_x86_32_def
  by (simp add: Let_def split_def LOAD_MASK_samples LOAD_MASK_m5 lane_mask_m7 DIFF_GT2_eq
      pcmpeqb_def pcmpgtb_def pand_def psubb_def byte_ff sample_regs_sel add.commute)

lemma deblock_luma_lane_x86_32_sentinel:
  "deblock_luma_lane_x86_32 alpha beta 0xFF (p2, p1, p0, q0, q1, q2) = (p1, p0, q0, q1)"
  unfolding deblock_luma_lane_x86_32_unfold
  by (simp add: Let_def LUMA_Q1_zero DEBLOCK_P0_Q0_zero)

lemma deblock_v_luma_lane_sentinel:
  "deblock_v_luma_lane alpha beta 0xFF (p2, p1, p0, q0, q1, q2) = (p1, p0, q0, q1)"
  unfolding deblock_v_luma_lane_unfold
  by (simp add: Let_def LUMA_Q1_zero DEBLOCK_P0_Q0_zero)

lemma deblock_v8_luma_8_at:
  "deblock_v8_luma_8 alpha beta tc0 img y x =
    (if 0 \<le> x \<and> x < 8 \<and> y \<in> {- 2, - 1, 0, 1} then
       (case deblock_luma_lane_x86_32 alpha beta (tc0 (nat x div 4))
              (img (- 3) x, img (- 2) x, img (- 1) x, img 0 x, img 1 x, img 2 x)
        of (p1', p0', q0', q1') \<Rightarrow>
          if y = - 2 then p1' else if y = - 1 then p0' else if y = 0 then q0' else q1')
     else img y x)"
proof (cases "0 \<le> x \<and> x < 8")
  case True
  then have j: "nat x < 8" by linarith
  show ?thesis
    unfolding deblock_v8_luma_8_def Let_def map_map store_row_map_at
    using True j by (simp add: load_row_nth tc_reg_8 split_def)
next
  case False
  then show ?thesis
    unfolding deblock_v8_luma_8_def Let_def map_map store_row_map_at
    by auto
qed

lemma deblock_v_chroma_8_at:
  "deblock_v_chroma_8 alpha beta tc0 img y x =
    (if 0 \<le> x \<and> x < 8 \<and> y \<in> {- 1, 0} then
       (case chroma_inter_lane alpha beta (tc0 (nat x div 2))
              (img (- 2) x, img (- 1) x, img 0 x, img 1 x)
        of (p0', q0') \<Rightarrow> if y = - 1 then p0' else q0')
     else img y x)"
proof (cases "0 \<le> x \<and> x < 8")
  case True
  then have j: "nat x < 8" by linarith
  show ?thesis
    unfolding deblock_v_chroma_8_def Let_def map_map store_row_map_at
    using True j by (simp add: load_row_nth tc_reg_chroma split_def)
next
  case False
  then show ?thesis
    unfolding deblock_v_chroma_8_def Let_def map_map store_row_map_at
    by auto
qed

lemma deblock_v_chroma_intra_8_at:
  "deblock_v_chroma_intra_8 alpha beta img y x =
    (if 0 \<le> x \<and> x < 8 \<and> y \<in> {- 1, 0} then
       (case chroma_intra_lane alpha beta (img (- 2) x, img (- 1) x, img 0 x, img 1 x)
        of (r0, r1, r2, r3) \<Rightarrow> if y = - 1 then r1 else r2)
     else img y x)"
proof (cases "0 \<le> x \<and> x < 8")
  case True
  then have j: "nat x < 8" by linarith
  show ?thesis
    unfolding deblock_v_chroma_intra_8_def Let_def map_map store_row_map_at
    using True j by (simp add: load_row_nth split_def)
next
  case False
  then show ?thesis
    unfolding deblock_v_chroma_intra_8_def Let_def map_map store_row_map_at
    by auto
qed

lemma div2_bounds: "2 * (x div 2) \<le> x" "x \<le> 2 * (x div 2) + (1::int)"
  by simp_all

lemma div4_bounds: "4 * (x div 4) \<le> x" "x \<le> 4 * (x div 4) + (3::int)"
  by simp_all

lemma div8_bounds: "8 * (x div 8) \<le> x" "x \<le> 8 * (x div 8) + (7::int)"
  by simp_all

lemma parity_fix:
  fixes E X c :: int
  assumes "X \<le> E" "E \<le> X + 1" "even (c + X)"
  shows "E - (c + E) mod 2 = X"
proof (cases "E = X")
  case True
  then show ?thesis using assms(3) by simp
next
  case False
  then have e: "E = X + 1" using assms by linarith
  have "odd (c + (X + 1))" using assms(3) by simp
  then have "(c + (X + 1)) mod 2 = 1" by (rule odd_iff_mod_2_eq_one[THEN iffD1])
  then show ?thesis unfolding e by simp
qed

lemma avg4_est:
  fixes a b c d :: int
  defines "E \<equiv> ((a + b + 1) div 2 + (c + d + 1) div 2 + 1) div 2"
    and "X \<equiv> (a + b + c + d + 2) div 4"
  shows "X \<le> E" "E \<le> X + 1"
proof -
  define u where "u = (a + b + 1) div 2"
  define v where "v = (c + d + 1) div 2"
  have u: "2 * u \<le> a + b + 1" "a + b + 1 \<le> 2 * u + 1"
    unfolding u_def by (rule div2_bounds)+
  have v: "2 * v \<le> c + d + 1" "c + d + 1 \<le> 2 * v + 1"
    unfolding v_def by (rule div2_bounds)+
  have E: "2 * E \<le> u + v + 1" "u + v + 1 \<le> 2 * E + 1"
    unfolding E_def u_def[symmetric] v_def[symmetric] by (rule div2_bounds)+
  have X: "4 * X \<le> a + b + c + d + 2" "a + b + c + d + 2 \<le> 4 * X + 3"
    unfolding X_def by (rule div4_bounds)+
  show "X \<le> E" using u v E X by linarith
  show "E \<le> X + 1" using u v E X by linarith
qed

lemma avg5_est:
  fixes p2 p1 p0 q0 q1 :: int
  defines "E \<equiv> (((p2 + q1) div 2 + p1 + 1) div 2 + (p0 + q0 + 1) div 2 + 1) div 2"
    and "X \<equiv> (p2 + 2 * p1 + 2 * p0 + 2 * q0 + q1 + 4) div 8"
  shows "X \<le> E" "E \<le> X + 1"
proof -
  define w where "w = (p2 + q1) div 2"
  define y where "y = (w + p1 + 1) div 2"
  define v where "v = (p0 + q0 + 1) div 2"
  have w: "2 * w \<le> p2 + q1" "p2 + q1 \<le> 2 * w + 1"
    unfolding w_def by (rule div2_bounds)+
  have y: "2 * y \<le> w + p1 + 1" "w + p1 + 1 \<le> 2 * y + 1"
    unfolding y_def by (rule div2_bounds)+
  have v: "2 * v \<le> p0 + q0 + 1" "p0 + q0 + 1 \<le> 2 * v + 1"
    unfolding v_def by (rule div2_bounds)+
  have E: "2 * E \<le> y + v + 1" "y + v + 1 \<le> 2 * E + 1"
    unfolding E_def w_def[symmetric] y_def[symmetric] v_def[symmetric] by (rule div2_bounds)+
  have X: "8 * X \<le> p2 + 2 * p1 + 2 * p0 + 2 * q0 + q1 + 4"
      "p2 + 2 * p1 + 2 * p0 + 2 * q0 + q1 + 4 \<le> 8 * X + 7"
    unfolding X_def by (rule div8_bounds)+
  show "X \<le> E" using w y v E X by linarith
  show "E \<le> X + 1" using w y v E X by linarith
qed

lemma avg6_est:
  fixes p3 p2 p1 p0 q0 :: int
  defines "E \<equiv> ((p3 + p2 + 1) div 2 + (p2 + p1 + p0 + q0 + 2) div 4 + 1) div 2"
    and "X \<equiv> (2 * p3 + 3 * p2 + p1 + p0 + q0 + 4) div 8"
  shows "X \<le> E" "E \<le> X + 1"
proof -
  define u where "u = (p3 + p2 + 1) div 2"
  define y where "y = (p2 + p1 + p0 + q0 + 2) div 4"
  have u: "2 * u \<le> p3 + p2 + 1" "p3 + p2 + 1 \<le> 2 * u + 1"
    unfolding u_def by (rule div2_bounds)+
  have y: "4 * y \<le> p2 + p1 + p0 + q0 + 2" "p2 + p1 + p0 + q0 + 2 \<le> 4 * y + 3"
    unfolding y_def by (rule div4_bounds)+
  have E: "2 * E \<le> u + y + 1" "u + y + 1 \<le> 2 * E + 1"
    unfolding E_def u_def[symmetric] y_def[symmetric] by (rule div2_bounds)+
  have X: "8 * X \<le> 2 * p3 + 3 * p2 + p1 + p0 + q0 + 4"
      "2 * p3 + 3 * p2 + p1 + p0 + q0 + 4 \<le> 8 * X + 7"
    unfolding X_def by (rule div8_bounds)+
  show "X \<le> E" using u y E X by linarith
  show "E \<le> X + 1" using u y E X by linarith
qed

lemma round_shift1: "(x div 2 + 1) div 2 = (x + 2) div (4::int)"
proof -
  have "x div 2 + 1 = (x + 2) div 2" by simp
  then have "(x div 2 + 1) div 2 = (x + 2) div 2 div 2" by simp
  also have "\<dots> = (x + 2) div (2 * 2)" by (simp add: zdiv_zmult2_eq)
  finally show ?thesis by simp
qed

lemma round_shift2: "(x div 4 + 1) div 2 = (x + 4) div (8::int)"
proof -
  have "x div 4 + 1 = (x + 4) div 4" by simp
  then have "(x div 4 + 1) div 2 = (x + 4) div 4 div 2" by simp
  also have "\<dots> = (x + 4) div (4 * 2)" by (simp add: zdiv_zmult2_eq)
  finally show ?thesis by simp
qed

lemma mod256_round1: "even ((S mod 256 + 2) div 4 + (S + 2) div (4::int))"
proof -
  have "S + 2 = (S mod 256 + 2) + (64 * (S div 256)) * 4" by simp
  then have "(S + 2) div 4 = ((S mod 256 + 2) + (64 * (S div 256)) * 4) div 4" by simp
  also have "\<dots> = 64 * (S div 256) + (S mod 256 + 2) div 4" by (rule div_mult_self1) simp
  finally show ?thesis by simp
qed

lemma mod256_round2: "even ((S mod 256 + 4) div 8 + (S + 4) div (8::int))"
proof -
  have "S + 4 = (S mod 256 + 4) + (32 * (S div 256)) * 8" by simp
  then have "(S + 4) div 8 = ((S mod 256 + 4) + (32 * (S div 256)) * 8) div 8" by simp
  also have "\<dots> = 32 * (S div 256) + (S mod 256 + 4) div 8" by (rule div_mult_self1) simp
  finally show ?thesis by simp
qed

lemma lanes2_sel:
  "fst (lanes2 f a b) = f (fst a) (fst b)" "snd (lanes2 f a b) = f (snd a) (snd b)"
  by (simp_all add: lanes2_def)

lemma uint_woi_mod: "uint (word_of_int w :: byte) = w mod 256"
  by (simp add: uint_word_of_int take_bit_eq_mod)

lemma mod256_as_mult4: "\<exists>m. (y + 4 * k) mod 256 = y + 4 * (m::int)"
proof -
  have "(y + 4 * k) mod 256 = (y + 4 * k) - 256 * ((y + 4 * k) div 256)"
    by (simp add: minus_mult_div_eq_mod)
  also have "\<dots> = y + 4 * (k - 64 * ((y + 4 * k) div 256))" by simp
  finally show ?thesis by blast
qed

lemma psrlw_fst_1: "\<exists>m. uint (fst (psrlw t 1)) = uint (fst t) div 2 + 4 * m"
proof -
  have "(uint (fst t) + 256 * uint (snd t)) div 2 = (uint (fst t) + (128 * uint (snd t)) * 2) div 2"
    by simp
  also have "\<dots> = 128 * uint (snd t) + uint (fst t) div 2" by (rule div_mult_self1) simp
  finally have e: "(uint (fst t) + 256 * uint (snd t)) div 2 = uint (fst t) div 2 + 4 * (32 * uint (snd t))"
    by simp
  have "uint (fst (psrlw t 1)) = ((uint (fst t) + 256 * uint (snd t)) div 2) mod 256"
    by (simp only: psrlw_def Let_def fst_conv uint_woi_mod power_one_right)
  then show ?thesis
    unfolding e by (simp only: mod256_as_mult4)
qed

lemma psrlw_fst_2: "\<exists>m. uint (fst (psrlw t 2)) = uint (fst t) div 4 + 4 * m"
proof -
  have "(uint (fst t) + 256 * uint (snd t)) div 4 = (uint (fst t) + (64 * uint (snd t)) * 4) div 4"
    by simp
  also have "\<dots> = 64 * uint (snd t) + uint (fst t) div 4" by (rule div_mult_self1) simp
  finally have e: "(uint (fst t) + 256 * uint (snd t)) div 4 = uint (fst t) div 4 + 4 * (16 * uint (snd t))"
    by simp
  have p: "(2::int) ^ 2 = 4" by simp
  have "uint (fst (psrlw t 2)) = ((uint (fst t) + 256 * uint (snd t)) div 4) mod 256"
    by (simp only: psrlw_def Let_def fst_conv uint_woi_mod p)
  then show ?thesis
    unfolding e by (simp only: mod256_as_mult4)
qed

lemma high_byte_int:
  fixes lo hi :: int
  assumes "0 \<le> lo" "lo < 256"
  shows "(lo + 256 * hi) div 256 = hi"
proof -
  have "(lo + hi * 256) div 256 = hi + lo div 256" by (rule div_mult_self1) simp
  then show ?thesis using assms by (simp add: mult.commute)
qed

lemma psrlw_snd:
  "uint (snd (psrlw t 1)) = uint (snd t) div 2" "uint (snd (psrlw t 2)) = uint (snd t) div 4"
proof -
  let ?w = "uint (fst t) + 256 * uint (snd t)"
  have h: "?w div 256 = uint (snd t)"
    by (rule high_byte_int) (simp_all add: uint_byte_bounds)
  have "?w div 2 div 256 = ?w div (2 * 256)" by (simp add: zdiv_zmult2_eq)
  also have "\<dots> = ?w div (256 * 2)" by simp
  also have "\<dots> = ?w div 256 div 2" by (simp only: zdiv_zmult2_eq)
  finally have 1: "?w div 2 div 256 = uint (snd t) div 2" unfolding h .
  have "?w div 4 div 256 = ?w div (4 * 256)" by (simp add: zdiv_zmult2_eq)
  also have "\<dots> = ?w div (256 * 4)" by simp
  also have "\<dots> = ?w div 256 div 4" by (simp only: zdiv_zmult2_eq)
  finally have 2: "?w div 4 div 256 = uint (snd t) div 4" unfolding h .
  have b1: "uint (snd t) div 2 mod 256 = uint (snd t) div 2"
    using uint_byte_bounds[of "snd t"] by (intro mod_pos_pos_trivial) simp_all
  have b2: "uint (snd t) div 4 mod 256 = uint (snd t) div 4"
  proof (intro mod_pos_pos_trivial)
    show "0 \<le> uint (snd t) div 4" by (simp add: pos_imp_zdiv_nonneg_iff)
    show "uint (snd t) div 4 < 256"
      using div4_bounds(1)[of "uint (snd t)"] uint_byte_bounds(2)[of "snd t"] by linarith
  qed
  have p: "(2::int) ^ 2 = 4" by simp
  show "uint (snd (psrlw t 1)) = uint (snd t) div 2"
    by (simp only: psrlw_def Let_def snd_conv uint_woi_mod power_one_right 1 b1)
  show "uint (snd (psrlw t 2)) = uint (snd t) div 4"
    by (simp only: psrlw_def Let_def snd_conv uint_woi_mod p 2 b2)
qed

lemma corr_byte:
  fixes E c :: byte
  assumes "0 \<le> X" "X \<le> uint E" "uint E \<le> X + 1" "even (uint c + X)"
  shows "uint (psubb E (pand (pxor c E) pb_1)) = X"
proof -
  define b where "b = pand (pxor c E) pb_1"
  have b: "uint b = (uint c + uint E) mod 2" unfolding b_def by (rule uint_xor_and1)
  have x: "uint E - uint b = X" unfolding b using assms(2-4) by (rule parity_fix)
  then have "uint b \<le> uint E" using assms(1) by linarith
  then have "uint (E - b) = uint E - uint b" by (simp add: uint_sub_if')
  then show ?thesis unfolding b_def[symmetric] psubb_def x .
qed

lemma uint_pavgb_0: "uint (pavgb x pb_0) = (uint x + 1) div 2"
  by (simp add: uint_pavgb pb_0_def)

lemma parity1:
  fixes x s :: byte
  assumes "\<exists>m. uint x = uint s div 2 + 4 * m" "uint s = S mod 256"
  shows "even (uint (pavgb x pb_0) + (S + 2) div 4)"
proof -
  from assms(1) obtain m where m: "uint x = uint s div 2 + 4 * m" ..
  have "(uint s div 2 + 1 + (2 * m) * 2) div 2 = 2 * m + (uint s div 2 + 1) div 2"
    by (rule div_mult_self1) simp
  then have "uint (pavgb x pb_0) = 2 * m + (S mod 256 + 2) div 4"
    unfolding uint_pavgb_0 m round_shift1 assms(2) by (simp add: algebra_simps)
  then show ?thesis using mod256_round1[of S] by simp
qed

lemma parity2:
  fixes x s :: byte
  assumes "\<exists>m. uint x = uint s div 4 + 4 * m" "uint s = S mod 256"
  shows "even (uint (pavgb x pb_0) + (S + 4) div 8)"
proof -
  from assms(1) obtain m where m: "uint x = uint s div 4 + 4 * m" ..
  have "(uint s div 4 + 1 + (2 * m) * 2) div 2 = 2 * m + (uint s div 4 + 1) div 2"
    by (rule div_mult_self1) simp
  then have "uint (pavgb x pb_0) = 2 * m + (S mod 256 + 4) div 8"
    unfolding uint_pavgb_0 m round_shift2 assms(2) by (simp add: algebra_simps)
  then show ?thesis using mod256_round2[of S] by simp
qed

lemma uint_sub_parity: "uint (pand (psubb a b) pb_1) = (uint a + uint b) mod 2"
proof -
  have "uint ((a - b) AND 1) = uint (a - b) mod 2"
    by (simp add: and_one_eq uint_mod)
  also have "\<dots> = ((uint a - uint b) mod 256) mod 2" by (simp add: uint_word_ariths)
  also have "\<dots> = (uint a - uint b) mod 2" by (simp add: mod_mod_cancel)
  also have "\<dots> = (uint a + uint b) mod 2" by presburger
  finally show ?thesis by (simp add: pand_def psubb_def pb_1_def)
qed

lemma uint_floor_avg_sub:
  "uint (psubb (pavgb a b) (pand (psubb a b) pb_1)) = (uint a + uint b) div 2"
  "uint (psubb (pavgb a b) (pand (pxor a b) pb_1)) = (uint a + uint b) div 2"
proof -
  have le: "(uint a + uint b) mod 2 \<le> (uint a + uint b + 1) div 2"
    using uint_ge_0[of a] uint_ge_0[of b] favg_int[of "uint a + uint b"]
      pos_imp_zdiv_nonneg_iff[of 2 "uint a + uint b"] by linarith
  have 1: "uint (pand (psubb a b) pb_1) \<le> uint (pavgb a b)"
    unfolding uint_sub_parity uint_pavgb by (rule le)
  have 2: "uint (pand (pxor a b) pb_1) \<le> uint (pavgb a b)"
    unfolding uint_xor_and1 uint_pavgb by (rule le)
  show "uint (psubb (pavgb a b) (pand (psubb a b) pb_1)) = (uint a + uint b) div 2"
    unfolding psubb_def[of "pavgb a b"] using 1
    by (simp add: uint_sub_if' uint_sub_parity uint_pavgb favg_int)
  show "uint (psubb (pavgb a b) (pand (pxor a b) pb_1)) = (uint a + uint b) div 2"
    unfolding psubb_def[of "pavgb a b"] using 2
    by (simp add: uint_sub_if' uint_xor_and1 uint_pavgb favg_int)
qed

lemma mask_choose:
  "pxor (pxor (pand (pxor A B) (if c1 then 0xFF else 0))
              (pand (pxor B p) (if c0 then 0xFF else 0))) p
    = (if c1 \<and> c0 then A else if c1 then pxor (pxor A B) p else if c0 then B else p)"
  "pxor (pand (pxor A p) (if c1 then 0xFF else 0)) p = (if c1 then A else p)"
  by (simp_all add: pxor_def pand_def byte_ff xor.assoc)

lemma P012_sel:
  fixes sel :: "wlane \<Rightarrow> byte"
  assumes L: "\<And>f a b. sel (lanes2 f a b) = f (sel a) (sel b)"
    and S1: "\<And>t. \<exists>m. uint (sel (psrlw t 1)) = uint (sel t) div 2 + 4 * m"
    and S2: "\<And>t. \<exists>m. uint (sel (psrlw t 2)) = uint (sel t) div 4 + 4 * m"
    and C: "sel mpb_0 = pb_0" "sel mpb_1 = pb_1"
    and M0: "sel mask0 = (if c0 then 0xFF else 0)"
    and M1: "sel mask1p = (if c1 then 0xFF else 0)"
    and M: "c1 \<Longrightarrow> c0"
  shows "uint (sel (fst (LUMA_INTRA_P012 p0 p1 p2 q0 q1 mask0 mask1p p3))) =
      (if c1 then (uint (sel p2) + 2 * uint (sel p1) + 2 * uint (sel p0) + 2 * uint (sel q0)
                    + uint (sel q1) + 4) div 8
       else if c0 then (2 * uint (sel p1) + uint (sel p0) + uint (sel q1) + 2) div 4
       else uint (sel p0))"
    and "uint (sel (fst (snd (LUMA_INTRA_P012 p0 p1 p2 q0 q1 mask0 mask1p p3)))) =
      (if c1 then (uint (sel p2) + uint (sel p1) + uint (sel p0) + uint (sel q0) + 2) div 4
       else uint (sel p1))"
    and "uint (sel (snd (snd (LUMA_INTRA_P012 p0 p1 p2 q0 q1 mask0 mask1p p3)))) =
      (if c1 then (2 * uint (sel p3) + 3 * uint (sel p2) + uint (sel p1) + uint (sel p0)
                    + uint (sel q0) + 4) div 8
       else uint (sel p2))"
proof -
  define a3 a2 a1 a0 b0 b1 where ab: "a3 = uint (sel p3)" "a2 = uint (sel p2)"
    "a1 = uint (sel p1)" "a0 = uint (sel p0)" "b0 = uint (sel q0)" "b1 = uint (sel q1)"
  have nn: "0 \<le> a3" "0 \<le> a2" "0 \<le> a1" "0 \<le> a0" "0 \<le> b0" "0 \<le> b1"
    unfolding ab by simp_all
  define T2 where "T2 = lanes2 paddb (lanes2 paddb p2 p1) (lanes2 paddb p0 q0)"
  define T3 where "T3 = lanes2 psubb (lanes2 paddb T2 T2) (lanes2 psubb p2 q1)"
  define T4 where "T4 = lanes2 paddb (lanes2 paddb (lanes2 paddb p3 p2) (lanes2 paddb p3 p2)) T2"
  define x1 where "x1 = sel (psrlw T2 1)"
  define x3 where "x3 = sel (psrlw T3 2)"
  define x4 where "x4 = sel (psrlw T4 2)"
  define E1 where "E1 = pavgb (pavgb (sel p2) (sel p1)) (pavgb (sel p0) (sel q0))"
  define P1 where "P1 = psubb E1 (pand (pxor (pavgb x1 pb_0) E1) pb_1)"
  define EA where "EA = pavgb (pavgb (psubb (pavgb (sel p2) (sel q1))
      (pand (psubb (sel p2) (sel q1)) pb_1)) (sel p1)) (pavgb (sel p0) (sel q0))"
  define A where "A = psubb EA (pand (pxor (pavgb x3 pb_0) EA) pb_1)"
  define B where "B = pavgb (psubb (pavgb (sel p0) (sel q1))
      (pand (pxor (sel p0) (sel q1)) pb_1)) (sel p1)"
  define E2 where "E2 = pavgb (pavgb (sel p3) (sel p2)) P1"
  define P2 where "P2 = psubb E2 (pand (pxor (pavgb x4 pb_0) E2) pb_1)"
  have wT2: "sel T2 = word_of_int (a2 + a1 + a0 + b0)"
    unfolding T2_def L paddb_def ab by simp
  have wT3: "sel T3 = word_of_int (a2 + 2 * a1 + 2 * a0 + 2 * b0 + b1)"
    unfolding T3_def T2_def L paddb_def psubb_def ab by simp
  have wT4: "sel T4 = word_of_int (2 * a3 + 3 * a2 + a1 + a0 + b0)"
    unfolding T4_def T2_def L paddb_def ab by simp
  have sT2: "uint (sel T2) = (a2 + a1 + a0 + b0) mod 256"
    unfolding wT2 by (rule uint_woi_mod)
  have sT3: "uint (sel T3) = (a2 + 2 * a1 + 2 * a0 + 2 * b0 + b1) mod 256"
    unfolding wT3 by (rule uint_woi_mod)
  have sT4: "uint (sel T4) = (2 * a3 + 3 * a2 + a1 + a0 + b0) mod 256"
    unfolding wT4 by (rule uint_woi_mod)
  have E1: "uint E1 = ((a2 + a1 + 1) div 2 + (a0 + b0 + 1) div 2 + 1) div 2"
    unfolding E1_def uint_pavgb ab ..
  have P1: "uint P1 = (a2 + a1 + a0 + b0 + 2) div 4"
    unfolding P1_def
  proof (rule corr_byte)
    show "0 \<le> (a2 + a1 + a0 + b0 + 2) div 4"
      using nn by (simp add: pos_imp_zdiv_nonneg_iff)
    show "(a2 + a1 + a0 + b0 + 2) div 4 \<le> uint E1" unfolding E1 by (rule avg4_est)
    show "uint E1 \<le> (a2 + a1 + a0 + b0 + 2) div 4 + 1" unfolding E1 by (rule avg4_est)
    show "even (uint (pavgb x1 pb_0) + (a2 + a1 + a0 + b0 + 2) div 4)"
      unfolding x1_def using S1 sT2 by (rule parity1)
  qed
  have EA: "uint EA = (((a2 + b1) div 2 + a1 + 1) div 2 + (a0 + b0 + 1) div 2 + 1) div 2"
    unfolding EA_def uint_pavgb uint_floor_avg_sub ab ..
  have A: "uint A = (a2 + 2 * a1 + 2 * a0 + 2 * b0 + b1 + 4) div 8"
    unfolding A_def
  proof (rule corr_byte)
    show "0 \<le> (a2 + 2 * a1 + 2 * a0 + 2 * b0 + b1 + 4) div 8"
      using nn by (simp add: pos_imp_zdiv_nonneg_iff)
    show "(a2 + 2 * a1 + 2 * a0 + 2 * b0 + b1 + 4) div 8 \<le> uint EA"
      unfolding EA by (rule avg5_est)
    show "uint EA \<le> (a2 + 2 * a1 + 2 * a0 + 2 * b0 + b1 + 4) div 8 + 1"
      unfolding EA by (rule avg5_est)
    show "even (uint (pavgb x3 pb_0) + (a2 + 2 * a1 + 2 * a0 + 2 * b0 + b1 + 4) div 8)"
      unfolding x3_def using S2 sT3 by (rule parity2)
  qed
  have B: "uint B = (2 * a1 + a0 + b1 + 2) div 4"
    unfolding B_def uint_pavgb uint_floor_avg_sub quarter_int ab by (simp add: add.assoc)
  have E2: "uint E2 = ((a3 + a2 + 1) div 2 + (a2 + a1 + a0 + b0 + 2) div 4 + 1) div 2"
    unfolding E2_def uint_pavgb P1 ab ..
  have P2: "uint P2 = (2 * a3 + 3 * a2 + a1 + a0 + b0 + 4) div 8"
    unfolding P2_def
  proof (rule corr_byte)
    show "0 \<le> (2 * a3 + 3 * a2 + a1 + a0 + b0 + 4) div 8"
      using nn by (simp add: pos_imp_zdiv_nonneg_iff)
    show "(2 * a3 + 3 * a2 + a1 + a0 + b0 + 4) div 8 \<le> uint E2"
      unfolding E2 by (rule avg6_est)
    show "uint E2 \<le> (2 * a3 + 3 * a2 + a1 + a0 + b0 + 4) div 8 + 1"
      unfolding E2 by (rule avg6_est)
    show "even (uint (pavgb x4 pb_0) + (2 * a3 + 3 * a2 + a1 + a0 + b0 + 4) div 8)"
      unfolding x4_def using S2 sT4 by (rule parity2)
  qed
  have r0: "sel (fst (LUMA_INTRA_P012 p0 p1 p2 q0 q1 mask0 mask1p p3)) =
      pxor (pxor (pand (pxor A B) (sel mask1p)) (pand (pxor B (sel p0)) (sel mask0))) (sel p0)"
    by (simp add: LUMA_INTRA_P012_def Let_def L C A_def B_def EA_def x3_def T3_def T2_def)
  have r1: "sel (fst (snd (LUMA_INTRA_P012 p0 p1 p2 q0 q1 mask0 mask1p p3))) =
      pxor (pand (pxor P1 (sel p1)) (sel mask1p)) (sel p1)"
    by (simp add: LUMA_INTRA_P012_def Let_def L C P1_def E1_def x1_def T2_def)
  have r2: "sel (snd (snd (LUMA_INTRA_P012 p0 p1 p2 q0 q1 mask0 mask1p p3))) =
      pxor (pand (pxor P2 (sel p2)) (sel mask1p)) (sel p2)"
    by (simp add: LUMA_INTRA_P012_def Let_def L C P2_def E2_def P1_def E1_def x1_def x4_def
        T4_def T2_def)
  show "uint (sel (fst (LUMA_INTRA_P012 p0 p1 p2 q0 q1 mask0 mask1p p3))) =
      (if c1 then (uint (sel p2) + 2 * uint (sel p1) + 2 * uint (sel p0) + 2 * uint (sel q0)
                    + uint (sel q1) + 4) div 8
       else if c0 then (2 * uint (sel p1) + uint (sel p0) + uint (sel q1) + 2) div 4
       else uint (sel p0))"
    unfolding r0 M0 M1 mask_choose using M A[unfolded ab] B[unfolded ab] by auto
  show "uint (sel (fst (snd (LUMA_INTRA_P012 p0 p1 p2 q0 q1 mask0 mask1p p3)))) =
      (if c1 then (uint (sel p2) + uint (sel p1) + uint (sel p0) + uint (sel q0) + 2) div 4
       else uint (sel p1))"
    unfolding r1 M1 mask_choose using P1[unfolded ab] by auto
  show "uint (sel (snd (snd (LUMA_INTRA_P012 p0 p1 p2 q0 q1 mask0 mask1p p3)))) =
      (if c1 then (2 * uint (sel p3) + 3 * uint (sel p2) + uint (sel p1) + uint (sel p0)
                    + uint (sel q0) + 4) div 8
       else uint (sel p2))"
    unfolding r2 M1 mask_choose using P2[unfolded ab] by auto
qed

lemma luma_intra_masks_eq:
  "luma_intra_masks (alpha - 1) (beta - 1) (p2, p1, p0, q0, q1, q2) =
    (let fe = lane_mask alpha beta p1 p0 q0 q1;
         st = (\<bar>uint p0 - uint q0\<bar> \<le> uint (pavgb (pavgb (splat_pack (alpha - 1)) pb_0) pb_1));
         ap = (\<bar>uint p0 - uint p2\<bar> \<le> uint (splat_pack (beta - 1)));
         aq = (\<bar>uint q0 - uint q2\<bar> \<le> uint (splat_pack (beta - 1)))
     in (if fe then 0xFF else 0,
         if fe \<and> st \<and> ap then 0xFF else 0,
         if fe \<and> st \<and> aq then 0xFF else 0))"
  by (simp add: luma_intra_masks_def Let_def LOAD_MASK_m5 lane_mask_m7 DIFF_GT2_eq pand_def
      byte_ff)

lemma strong_gate:
  assumes "1 \<le> alpha" "alpha \<le> 255"
  shows "uint (pavgb (pavgb (splat_pack (alpha - 1)) pb_0) pb_1) = alpha div 4 + 1"
proof -
  have a: "uint (splat_pack (alpha - 1)) = alpha - 1"
    using assms by (intro splat_pack_range) simp_all
  have "(alpha div 2 + 2) div 2 = alpha div 2 div 2 + 1" by simp
  also have "alpha div 2 div 2 = alpha div (2 * 2)" by (simp add: zdiv_zmult2_eq)
  finally have "(alpha div 2 + 2) div 2 = alpha div 4 + 1" by simp
  then show ?thesis
    unfolding uint_pavgb a by (simp add: pb_0_def pb_1_def)
qed

lemma luma_intra_masks_range:
  assumes "1 \<le> alpha" "alpha \<le> 255" "1 \<le> beta" "beta \<le> 255"
  shows "luma_intra_masks (alpha - 1) (beta - 1) (p2, p1, p0, q0, q1, q2) =
    (let fe = filterEdge alpha beta (uint p1) (uint p0) (uint q0) (uint q1);
         st = (\<bar>uint p0 - uint q0\<bar> < alpha div 4 + 2);
         ap = (\<bar>uint p2 - uint p0\<bar> < beta);
         aq = (\<bar>uint q2 - uint q0\<bar> < beta)
     in (if fe then 0xFF else 0,
         if fe \<and> st \<and> ap then 0xFF else 0,
         if fe \<and> st \<and> aq then 0xFF else 0))"
proof -
  have b: "uint (splat_pack (beta - 1)) = beta - 1"
    using assms by (intro splat_pack_range) simp_all
  have fe: "lane_mask alpha beta p1 p0 q0 q1
      = filterEdge alpha beta (uint p1) (uint p0) (uint q0) (uint q1)"
    using assms by (intro filterEdge_lane_mask) simp_all
  have st: "(\<bar>uint p0 - uint q0\<bar> \<le> alpha div 4 + 1) = (\<bar>uint p0 - uint q0\<bar> < alpha div 4 + 2)"
    by auto
  have ap: "(\<bar>uint p0 - uint p2\<bar> \<le> beta - 1) = (\<bar>uint p2 - uint p0\<bar> < beta)"
    "(\<bar>uint q0 - uint q2\<bar> \<le> beta - 1) = (\<bar>uint q2 - uint q0\<bar> < beta)"
    by auto
  show ?thesis
    unfolding luma_intra_masks_eq strong_gate[OF assms(1,2)] b fe st ap ..
qed

lemma luma_intra_body_sel:
  fixes sel :: "wlane \<Rightarrow> byte"
  assumes L: "\<And>f a b. sel (lanes2 f a b) = f (sel a) (sel b)"
    and S1: "\<And>t. \<exists>m. uint (sel (psrlw t 1)) = uint (sel t) div 2 + 4 * m"
    and S2: "\<And>t. \<exists>m. uint (sel (psrlw t 2)) = uint (sel t) div 4 + 4 * m"
    and C: "sel mpb_0 = pb_0" "sel mpb_1 = pb_1"
    and P: "\<And>g :: byte \<times> byte \<times> byte \<times> byte \<times> byte \<times> byte \<Rightarrow> byte.
        sel (g (fst p2, fst p1, fst p0, fst q0, fst q1, fst q2),
             g (snd p2, snd p1, snd p0, snd q0, snd q1, snd q2))
        = g (sel p2, sel p1, sel p0, sel q0, sel q1, sel q2)"
    and r: "1 \<le> alpha" "alpha \<le> 255" "1 \<le> beta" "beta \<le> 255"
  shows "(case luma_intra_body (alpha - 1) (beta - 1) (p3, p2, p1, p0, q0, q1, q2, q3) of
      (r2, r1, r0, s0, s1, s2) \<Rightarrow>
        (uint (sel r2), uint (sel r1), uint (sel r0))
          = luma_intra_side alpha beta (uint (sel p3)) (uint (sel p2)) (uint (sel p1))
              (uint (sel p0)) (uint (sel q0)) (uint (sel q1))
        \<and> (uint (sel s2), uint (sel s1), uint (sel s0))
          = luma_intra_side alpha beta (uint (sel q3)) (uint (sel q2)) (uint (sel q1))
              (uint (sel q0)) (uint (sel p0)) (uint (sel p1)))"
proof -
  define ml where "ml = luma_intra_masks (alpha - 1) (beta - 1)
      (fst p2, fst p1, fst p0, fst q0, fst q1, fst q2)"
  define mh where "mh = luma_intra_masks (alpha - 1) (beta - 1)
      (snd p2, snd p1, snd p0, snd q0, snd q1, snd q2)"
  define mask0 where "mask0 = (fst ml, fst mh)"
  define mask1p where "mask1p = (fst (snd ml), fst (snd mh))"
  define mask1q where "mask1q = (snd (snd ml), snd (snd mh))"
  define fe where "fe = filterEdge alpha beta (uint (sel p1)) (uint (sel p0)) (uint (sel q0)) (uint (sel q1))"
  define st where "st = (\<bar>uint (sel p0) - uint (sel q0)\<bar> < alpha div 4 + 2)"
  define ap where "ap = (\<bar>uint (sel p2) - uint (sel p0)\<bar> < beta)"
  define aq where "aq = (\<bar>uint (sel q2) - uint (sel q0)\<bar> < beta)"
  have m: "luma_intra_masks (alpha - 1) (beta - 1) (sel p2, sel p1, sel p0, sel q0, sel q1, sel q2)
      = (if fe then 0xFF else 0, if fe \<and> st \<and> ap then 0xFF else 0,
         if fe \<and> st \<and> aq then 0xFF else 0)"
    unfolding luma_intra_masks_range[OF r] Let_def fe_def st_def ap_def aq_def ..
  have M0: "sel mask0 = (if fe then 0xFF else 0)"
    unfolding mask0_def ml_def mh_def
    using P[of "\<lambda>t. fst (luma_intra_masks (alpha - 1) (beta - 1) t)"] m by simp
  have M1p: "sel mask1p = (if fe \<and> st \<and> ap then 0xFF else 0)"
    unfolding mask1p_def ml_def mh_def
    using P[of "\<lambda>t. fst (snd (luma_intra_masks (alpha - 1) (beta - 1) t))"] m by simp
  have M1q: "sel mask1q = (if fe \<and> st \<and> aq then 0xFF else 0)"
    unfolding mask1q_def ml_def mh_def
    using P[of "\<lambda>t. snd (snd (luma_intra_masks (alpha - 1) (beta - 1) t))"] m by simp
  note pp = P012_sel[OF L S1 S2 C M0 M1p, of p0 p1 p2 q0 q1 p3, simplified]
  note qq = P012_sel[OF L S1 S2 C M0 M1q, of q0 q1 q2 p0 p1 q3, simplified]
  have feq: "filterEdge alpha beta (uint (sel q1)) (uint (sel q0)) (uint (sel p0)) (uint (sel p1)) = fe"
    unfolding fe_def filterEdge_def by auto
  have stq: "(\<bar>uint (sel q0) - uint (sel p0)\<bar> < alpha div 4 + 2) = st"
    unfolding st_def by auto
  have b: "luma_intra_body (alpha - 1) (beta - 1) (p3, p2, p1, p0, q0, q1, q2, q3) =
      (snd (snd (LUMA_INTRA_P012 p0 p1 p2 q0 q1 mask0 mask1p p3)),
       fst (snd (LUMA_INTRA_P012 p0 p1 p2 q0 q1 mask0 mask1p p3)),
       fst (LUMA_INTRA_P012 p0 p1 p2 q0 q1 mask0 mask1p p3),
       fst (LUMA_INTRA_P012 q0 q1 q2 p0 p1 mask0 mask1q q3),
       fst (snd (LUMA_INTRA_P012 q0 q1 q2 p0 p1 mask0 mask1q q3)),
       snd (snd (LUMA_INTRA_P012 q0 q1 q2 p0 p1 mask0 mask1q q3)))"
    by (simp add: luma_intra_body_def Let_def split_def mask0_def mask1p_def mask1q_def
        ml_def mh_def)
  have ps: "(uint (sel (snd (snd (LUMA_INTRA_P012 p0 p1 p2 q0 q1 mask0 mask1p p3)))),
       uint (sel (fst (snd (LUMA_INTRA_P012 p0 p1 p2 q0 q1 mask0 mask1p p3)))),
       uint (sel (fst (LUMA_INTRA_P012 p0 p1 p2 q0 q1 mask0 mask1p p3))))
      = luma_intra_side alpha beta (uint (sel p3)) (uint (sel p2)) (uint (sel p1))
              (uint (sel p0)) (uint (sel q0)) (uint (sel q1))"
    unfolding pp luma_intra_side_def
      fe_def[symmetric] st_def[symmetric] ap_def[symmetric]
    by (cases fe; cases st; cases ap; simp)
  have qs: "(uint (sel (snd (snd (LUMA_INTRA_P012 q0 q1 q2 p0 p1 mask0 mask1q q3)))),
       uint (sel (fst (snd (LUMA_INTRA_P012 q0 q1 q2 p0 p1 mask0 mask1q q3)))),
       uint (sel (fst (LUMA_INTRA_P012 q0 q1 q2 p0 p1 mask0 mask1q q3))))
      = luma_intra_side alpha beta (uint (sel q3)) (uint (sel q2)) (uint (sel q1))
              (uint (sel q0)) (uint (sel p0)) (uint (sel p1))"
    unfolding qq luma_intra_side_def feq stq aq_def[symmetric]
    by (cases fe; cases st; cases aq; simp)
  show ?thesis
    unfolding b prod.case using ps qs by (rule conjI)
qed

lemma length_lane_bytes: "length (lane_bytes ws) = 2 * length ws"
  by (induction ws) (simp_all add: lane_bytes_def)

lemma lane_bytes_nth:
  "j < 2 * length ws \<Longrightarrow>
    lane_bytes ws ! j = (if even j then fst (ws ! (j div 2)) else snd (ws ! (j div 2)))"
proof (induction ws arbitrary: j)
  case Nil
  then show ?case by simp
next
  case (Cons w ws)
  have c: "lane_bytes (w # ws) = fst w # snd w # lane_bytes ws"
    by (simp add: lane_bytes_def)
  show ?case
  proof (cases "j < 2")
    case True
    then have "j = 0 \<or> j = 1" by linarith
    then show ?thesis unfolding c by auto
  next
    case False
    define i where "i = j - 2"
    have i: "j = Suc (Suc i)" using False unfolding i_def by simp
    then have "i < 2 * length ws" using Cons.prems by simp
    from Cons.IH[OF this] show ?thesis unfolding c i by simp
  qed
qed

lemma luma_intra_body_fst:
  assumes "1 \<le> alpha" "alpha \<le> 255" "1 \<le> beta" "beta \<le> 255"
  shows "(case luma_intra_body (alpha - 1) (beta - 1) (p3, p2, p1, p0, q0, q1, q2, q3) of
      (r2, r1, r0, s0, s1, s2) \<Rightarrow>
        (uint (fst r2), uint (fst r1), uint (fst r0))
          = luma_intra_side alpha beta (uint (fst p3)) (uint (fst p2)) (uint (fst p1))
              (uint (fst p0)) (uint (fst q0)) (uint (fst q1))
        \<and> (uint (fst s2), uint (fst s1), uint (fst s0))
          = luma_intra_side alpha beta (uint (fst q3)) (uint (fst q2)) (uint (fst q1))
              (uint (fst q0)) (uint (fst p0)) (uint (fst p1)))"
  by (rule luma_intra_body_sel[where sel = fst, OF lanes2_sel(1) psrlw_fst_1 psrlw_fst_2 _ _ _ assms])
    (simp_all add: mpb_0_def mpb_1_def)

lemma luma_intra_body_snd:
  assumes "1 \<le> alpha" "alpha \<le> 255" "1 \<le> beta" "beta \<le> 255"
  shows "(case luma_intra_body (alpha - 1) (beta - 1) (p3, p2, p1, p0, q0, q1, q2, q3) of
      (r2, r1, r0, s0, s1, s2) \<Rightarrow>
        (uint (snd r2), uint (snd r1), uint (snd r0))
          = luma_intra_side alpha beta (uint (snd p3)) (uint (snd p2)) (uint (snd p1))
              (uint (snd p0)) (uint (snd q0)) (uint (snd q1))
        \<and> (uint (snd s2), uint (snd s1), uint (snd s0))
          = luma_intra_side alpha beta (uint (snd q3)) (uint (snd q2)) (uint (snd q1))
              (uint (snd q0)) (uint (snd p0)) (uint (snd p1)))"
proof -
  have s1: "\<And>t. \<exists>m. uint (snd (psrlw t 1)) = uint (snd t) div 2 + 4 * m"
    unfolding psrlw_snd by (rule exI[of _ 0]) simp
  have s2: "\<And>t. \<exists>m. uint (snd (psrlw t 2)) = uint (snd t) div 4 + 4 * m"
    unfolding psrlw_snd by (rule exI[of _ 0]) simp
  show ?thesis
    by (rule luma_intra_body_sel[where sel = snd, OF lanes2_sel(2) s1 s2 _ _ _ assms])
      (simp_all add: mpb_0_def mpb_1_def)
qed

lemma deblock_v_luma_intra_8_at:
  assumes "1 \<le> alpha" "1 \<le> beta" "0 \<le> x" "x < 16"
  shows "deblock_v_luma_intra_8 alpha beta img y x =
    (case luma_intra_body (alpha - 1) (beta - 1)
       ((img (- 4) (2 * (x div 2)), img (- 4) (2 * (x div 2) + 1)),
        (img (- 3) (2 * (x div 2)), img (- 3) (2 * (x div 2) + 1)),
        (img (- 2) (2 * (x div 2)), img (- 2) (2 * (x div 2) + 1)),
        (img (- 1) (2 * (x div 2)), img (- 1) (2 * (x div 2) + 1)),
        (img 0 (2 * (x div 2)), img 0 (2 * (x div 2) + 1)),
        (img 1 (2 * (x div 2)), img 1 (2 * (x div 2) + 1)),
        (img 2 (2 * (x div 2)), img 2 (2 * (x div 2) + 1)),
        (img 3 (2 * (x div 2)), img 3 (2 * (x div 2) + 1)))
     of (r2, r1, r0, s0, s1, s2) \<Rightarrow>
       (let sel = (if even x then fst else snd) in
        if y = - 3 then sel r2 else if y = - 2 then sel r1 else if y = - 1 then sel r0
        else if y = 0 then sel s0 else if y = 1 then sel s1 else if y = 2 then sel s2
        else img y x))"
proof -
  define j where "j = nat x"
  have j: "j < 16" "x = int j" using assms unfolding j_def by simp_all
  define k where "k = j div 2"
  have jk: "j div 2 = k" unfolding k_def ..
  have k1: "k < 8" using j(1) unfolding k_def by simp
  then have k: "2 * k < 16" "2 * k + 1 < 16" "Suc (2 * k) < 16"
    by linarith+
  have xd: "x div 2 = int k" unfolding j(2) k_def by simp
  have ev: "even x = even j" unfolding j(2) by simp
  have g: "\<not> alpha - 1 < 0" "\<not> beta - 1 < 0" using assms by simp_all
  show ?thesis
    unfolding deblock_v_luma_intra_8_def Let_def xd ev
    using g j k k1
    by (simp add: store_row_def length_lane_bytes lane_bytes_nth load_row_nth split_def jk add.commute)
qed

lemma luma_intra_side_off:
  "\<not> (1 \<le> alpha \<and> 1 \<le> beta) \<Longrightarrow> 0 \<le> p1 \<Longrightarrow> 0 \<le> p0 \<Longrightarrow> 0 \<le> q0 \<Longrightarrow> 0 \<le> q1 \<Longrightarrow>
    luma_intra_side alpha beta p3 p2 p1 p0 q0 q1 = (p2, p1, p0)"
  by (auto simp add: luma_intra_side_def filterEdge_def)

lemma lane_mask_mirror: "lane_mask alpha beta q1 q0 p0 p1 = lane_mask alpha beta p1 p0 q0 q1"
proof -
  have "\<bar>uint q0 - uint p0\<bar> = \<bar>uint p0 - uint q0\<bar>" by (rule abs_minus_commute)
  then show ?thesis unfolding lane_mask_iff by (simp only: conj_ac)
qed

lemma luma_intra_masks_mirror:
  "luma_intra_masks a b (q2, q1, q0, p0, p1, p2) =
    (case luma_intra_masks a b (p2, p1, p0, q0, q1, q2) of (k0, k1p, k1q) \<Rightarrow> (k0, k1q, k1p))"
proof -
  have e: "a + 1 - 1 = a" "b + 1 - 1 = b" by simp_all
  have c: "\<bar>uint q0 - uint p0\<bar> = \<bar>uint p0 - uint q0\<bar>" by (rule abs_minus_commute)
  show ?thesis
    using luma_intra_masks_eq[of "a + 1" "b + 1" q2 q1 q0 p0 p1 p2]
      luma_intra_masks_eq[of "a + 1" "b + 1" p2 p1 p0 q0 q1 q2]
    unfolding e Let_def lane_mask_mirror[of "a + 1" "b + 1" q1 q0 p0 p1] c
    by (simp only: prod.case)
qed

lemma luma_intra_body_mirror:
  "luma_intra_body a b (q3, q2, q1, q0, p0, p1, p2, p3) =
    mirror6 (luma_intra_body a b (p3, p2, p1, p0, q0, q1, q2, q3))"
proof -
  obtain l0 l1 l2 where l: "luma_intra_masks a b (fst p2, fst p1, fst p0, fst q0, fst q1, fst q2) = (l0, l1, l2)"
    using prod_cases3 by blast
  obtain h0 h1 h2 where h: "luma_intra_masks a b (snd p2, snd p1, snd p0, snd q0, snd q1, snd q2) = (h0, h1, h2)"
    using prod_cases3 by blast
  obtain x0 x1 x2 where x: "LUMA_INTRA_P012 p0 p1 p2 q0 q1 (l0, h0) (l1, h1) p3 = (x0, x1, x2)"
    using prod_cases3 by blast
  obtain y0 y1 y2 where y: "LUMA_INTRA_P012 q0 q1 q2 p0 p1 (l0, h0) (l2, h2) q3 = (y0, y1, y2)"
    using prod_cases3 by blast
  have l': "luma_intra_masks a b (fst q2, fst q1, fst q0, fst p0, fst p1, fst p2) = (l0, l2, l1)"
    unfolding luma_intra_masks_mirror[of a b "fst q2"] l by simp
  have h': "luma_intra_masks a b (snd q2, snd q1, snd q0, snd p0, snd p1, snd p2) = (h0, h2, h1)"
    unfolding luma_intra_masks_mirror[of a b "snd q2"] h by simp
  show ?thesis
    unfolding luma_intra_body_def mirror6_def prod.case Let_def l h l' h' fst_conv snd_conv x y
    by (rule refl)
qed

lemma delta_raw_mirror:
  assumes "(4 * (q0 - p0) + (p1 - q1)) mod 8 \<noteq> 4"
  shows "delta_raw q1 q0 p0 p1 = - delta_raw p1 p0 q0 q1"
proof -
  define x where "x = 4 * (q0 - p0) + (p1 - q1)"
  define D where "D = (x + 4) div 8"
  define D' where "D' = (- x + 4) div 8"
  have a: "8 * D \<le> x + 4" "x + 4 \<le> 8 * D + 7" unfolding D_def by (rule div8_bounds)+
  have b: "8 * D' \<le> - x + 4" "- x + 4 \<le> 8 * D' + 7" unfolding D'_def by (rule div8_bounds)+
  have "D + D' = 0 \<or> D + D' = 1" using a b by linarith
  moreover have "D + D' \<noteq> 1"
  proof
    assume "D + D' = 1"
    then have "x = 8 * D - 4" using a b by linarith
    then have "x = 4 + (D - 1) * 8" by simp
    then have "x mod 8 = 4 mod 8" by (simp only: mod_mult_self1)
    then have "x mod 8 = 4" by simp
    then show False using assms unfolding x_def by simp
  qed
  ultimately have "D' = - D" by linarith
  moreover have "delta_raw p1 p0 q0 q1 = D"
    unfolding delta_raw_def D_def x_def ..
  moreover have "delta_raw q1 q0 p0 p1 = D'"
    unfolding delta_raw_def D'_def x_def by (simp add: algebra_simps)
  ultimately show ?thesis by simp
qed

lemma clip3_mirror:
  "0 \<le> t \<Longrightarrow> t \<le> 94 \<Longrightarrow> clip3 (- t) t (min (- d) 94) = - clip3 (- t) t (min d 94)"
  by (simp add: clip3_def min_def)

lemma luma_p1_commute: "luma_p1 t p2 p1 q0 p0 = luma_p1 t p2 p1 p0 q0"
  by (simp add: luma_p1_def add.commute)

lemma luma_tC_commute: "luma_tC t aq ap = luma_tC t ap aq"
  by (simp add: luma_tC_def)

lemma uint4_inject: "uint4 s = uint4 t \<Longrightarrow> s = t"
  by (cases s, cases t) (simp add: uint4_def word_uint_eq_iff)

lemma uint4_mirror4: "uint4 (mirror4 t) = mirror4 (uint4 t)"
  by (cases t) (simp add: uint4_def mirror4_def)

lemma deblock_v_luma_lane_mirror:
  assumes tie: "(4 * (uint q0 - uint p0) + (uint p1 - uint q1)) mod 8 \<noteq> 4"
    and tc: "uint tc \<le> 92 \<or> tc = 0xFF"
  shows "deblock_v_luma_lane alpha beta tc (q2, q1, q0, p0, p1, p2) =
    mirror4 (deblock_v_luma_lane alpha beta tc (p2, p1, p0, q0, q1, q2))"
proof -
  define B where "B = uint (splat_pack (beta - 1))"
  define on where "on = (lane_mask alpha beta p1 p0 q0 q1 \<and> tc \<noteq> 0xFF)"
  define ap where "ap = (on \<and> \<bar>uint p2 - uint p0\<bar> \<le> B)"
  define aq where "aq = (on \<and> \<bar>uint q2 - uint q0\<bar> \<le> B)"
  define tC where "tC = (if on then luma_tC (uint tc) ap aq mod 256 else 0)"
  define d where "d = delta_raw (uint p1) (uint p0) (uint q0) (uint q1)"
  have on': "(lane_mask alpha beta q1 q0 p0 p1 \<and> tc \<noteq> 0xFF) = on"
    unfolding on_def lane_mask_mirror[of alpha beta q1 q0 p0 p1] ..
  have d': "delta_raw (uint q1) (uint q0) (uint p0) (uint p1) = - d"
    unfolding d_def using tie by (rule delta_raw_mirror)
  have t0: "0 \<le> tC" unfolding tC_def by simp
  have t1: "tC \<le> 94"
  proof (cases on)
    case True
    then have "uint tc \<le> 92" using tc unfolding on_def by blast
    then have "luma_tC (uint tc) ap aq \<le> 94" unfolding luma_tC_def by simp
    moreover have "luma_tC (uint tc) ap aq mod 256 \<le> luma_tC (uint tc) ap aq"
      by (rule zmod_le_nonneg_dividend) (simp add: luma_tC_def)
    ultimately have "luma_tC (uint tc) ap aq mod 256 \<le> 94" by linarith
    then show ?thesis unfolding tC_def using True by simp
  next
    case False
    then show ?thesis unfolding tC_def by simp
  qed
  have c: "clip3 (- tC) tC (min (- d) 94) = - clip3 (- tC) tC (min d 94)"
    using t0 t1 by (rule clip3_mirror)
  have L: "uint4 (deblock_v_luma_lane alpha beta tc (p2, p1, p0, q0, q1, q2)) =
      (if ap then luma_p1 (uint tc) (uint p2) (uint p1) (uint p0) (uint q0) else uint p1,
       Clip1 (uint p0 + clip3 (- tC) tC (min d 94)),
       Clip1 (uint q0 - clip3 (- tC) tC (min d 94)),
       if aq then luma_p1 (uint tc) (uint q2) (uint q1) (uint p0) (uint q0) else uint q1)"
    unfolding deblock_v_luma_lane_general Let_def tC_def ap_def aq_def on_def B_def d_def ..
  have R: "uint4 (deblock_v_luma_lane alpha beta tc (q2, q1, q0, p0, p1, p2)) =
      (if aq then luma_p1 (uint tc) (uint q2) (uint q1) (uint q0) (uint p0) else uint q1,
       Clip1 (uint q0 + clip3 (- tC) tC (min (- d) 94)),
       Clip1 (uint p0 - clip3 (- tC) tC (min (- d) 94)),
       if ap then luma_p1 (uint tc) (uint p2) (uint p1) (uint q0) (uint p0) else uint p1)"
    unfolding deblock_v_luma_lane_general Let_def on' d'
    unfolding tC_def ap_def aq_def B_def luma_tC_commute[of "uint tc" "on \<and> \<bar>uint q2 - uint q0\<bar> \<le> uint (splat_pack (beta - 1))"] ..
  have "uint4 (deblock_v_luma_lane alpha beta tc (q2, q1, q0, p0, p1, p2)) =
      mirror4 (uint4 (deblock_v_luma_lane alpha beta tc (p2, p1, p0, q0, q1, q2)))"
    unfolding L R c luma_p1_commute[of _ _ _ "uint q0" "uint p0"] mirror4_def by simp
  then show ?thesis unfolding uint4_mirror4[symmetric] by (rule uint4_inject)
qed

lemma deblock_v_luma_intra_8_outside:
  assumes "\<not> (0 \<le> x \<and> x < 16)"
  shows "deblock_v_luma_intra_8 alpha beta img y x = img y x"
proof -
  have "x < 0 \<or> 16 \<le> x" using assms by linarith
  then show ?thesis
    by (elim disjE)
      (simp_all add: deblock_v_luma_intra_8_def Let_def store_row_def length_lane_bytes)
qed

lemma deblock_v_luma_intra_8_mirror:
  "deblock_v_luma_intra_8 alpha beta (mirror img) = mirror (deblock_v_luma_intra_8 alpha beta img)"
proof (intro ext)
  fix y x
  show "deblock_v_luma_intra_8 alpha beta (mirror img) y x =
    mirror (deblock_v_luma_intra_8 alpha beta img) y x"
  proof (cases "1 \<le> alpha \<and> 1 \<le> beta")
    case False
    then show ?thesis by (auto simp add: deblock_v_luma_intra_8_def mirror_def)
  next
    case ab: True
    show ?thesis
    proof (cases "0 \<le> x \<and> x < 16")
      case False
      then show ?thesis
        unfolding mirror_def[of "deblock_v_luma_intra_8 alpha beta img"]
        by (simp add: deblock_v_luma_intra_8_outside mirror_def)
    next
      case True
      then have x: "0 \<le> x" "x < 16" by simp_all
      have a: "1 \<le> alpha" "1 \<le> beta" using ab by simp_all
      define c where "c = 2 * (x div 2)"
      obtain r2 r1 r0 s0 s1 s2 where b: "luma_intra_body (alpha - 1) (beta - 1)
         ((img (- 4) c, img (- 4) (c + 1)), (img (- 3) c, img (- 3) (c + 1)),
          (img (- 2) c, img (- 2) (c + 1)), (img (- 1) c, img (- 1) (c + 1)),
          (img 0 c, img 0 (c + 1)), (img 1 c, img 1 (c + 1)),
          (img 2 c, img 2 (c + 1)), (img 3 c, img 3 (c + 1))) = (r2, r1, r0, s0, s1, s2)"
        using prod_cases6 by blast
      have m: "\<And>z. mirror img (- 4) z = img 3 z" "\<And>z. mirror img (- 3) z = img 2 z"
        "\<And>z. mirror img (- 2) z = img 1 z" "\<And>z. mirror img (- 1) z = img 0 z"
        "\<And>z. mirror img 0 z = img (- 1) z" "\<And>z. mirror img 1 z = img (- 2) z"
        "\<And>z. mirror img 2 z = img (- 3) z" "\<And>z. mirror img 3 z = img (- 4) z"
        by (simp_all add: mirror_def)
      have L: "deblock_v_luma_intra_8 alpha beta (mirror img) y x =
        (let sel = (if even x then fst else snd) in
          if y = - 3 then sel s2 else if y = - 2 then sel s1 else if y = - 1 then sel s0
          else if y = 0 then sel r0 else if y = 1 then sel r1 else if y = 2 then sel r2
          else img (- 1 - y) x)"
        unfolding deblock_v_luma_intra_8_at[OF a x] m c_def[symmetric]
          luma_intra_body_mirror[of "alpha - 1" "beta - 1" "(img 3 c, img 3 (c + 1))"
            "(img 2 c, img 2 (c + 1))" "(img 1 c, img 1 (c + 1))" "(img 0 c, img 0 (c + 1))"
            "(img (- 1) c, img (- 1) (c + 1))" "(img (- 2) c, img (- 2) (c + 1))"
            "(img (- 3) c, img (- 3) (c + 1))" "(img (- 4) c, img (- 4) (c + 1))"] b
        by (simp add: mirror6_def mirror_def)
      have R: "deblock_v_luma_intra_8 alpha beta img (- 1 - y) x =
        (let sel = (if even x then fst else snd) in
          if - 1 - y = - 3 then sel r2 else if - 1 - y = - 2 then sel r1
          else if - 1 - y = - 1 then sel r0 else if - 1 - y = 0 then sel s0
          else if - 1 - y = 1 then sel s1 else if - 1 - y = 2 then sel s2
          else img (- 1 - y) x)"
        unfolding deblock_v_luma_intra_8_at[OF a x] c_def[symmetric] b by simp
      have e: "(- 1 - y = - 3) = (y = 2)" "(- 1 - y = - 2) = (y = 1)" "(- 1 - y = - 1) = (y = 0)"
        "(- 1 - y = 0) = (y = - 1)" "(- 1 - y = 1) = (y = - 2)" "(- 1 - y = 2) = (y = - 3)"
        by linarith+
      show ?thesis
        unfolding mirror_def[of "deblock_v_luma_intra_8 alpha beta img"] L R e Let_def
        by simp
    qed
  qed
qed

lemma punpck_8:
  "punpckl BW [a0, a1, a2, a3, a4, a5, a6, a7] [b0, b1, b2, b3, b4, b5, b6, b7] =
     [a0, b0, a1, b1, a2, b2, a3, b3]"
  "punpckh BW [a0, a1, a2, a3, a4, a5, a6, a7] [b0, b1, b2, b3, b4, b5, b6, b7] =
     [a4, b4, a5, b5, a6, b6, a7, b7]"
  "punpckl WD [a0, a1, a2, a3, a4, a5, a6, a7] [b0, b1, b2, b3, b4, b5, b6, b7] =
     [a0, a1, b0, b1, a2, a3, b2, b3]"
  "punpckh WD [a0, a1, a2, a3, a4, a5, a6, a7] [b0, b1, b2, b3, b4, b5, b6, b7] =
     [a4, a5, b4, b5, a6, a7, b6, b7]"
  "punpckl DQ [a0, a1, a2, a3, a4, a5, a6, a7] [b0, b1, b2, b3, b4, b5, b6, b7] =
     [a0, a1, a2, a3, b0, b1, b2, b3]"
  "punpckh DQ [a0, a1, a2, a3, a4, a5, a6, a7] [b0, b1, b2, b3, b4, b5, b6, b7] =
     [a4, a5, a6, a7, b4, b5, b6, b7]"
  by (simp_all add: punpckl_def punpckh_def interleave_def upt_rec)

lemma movh_8: "movh [a0, a1, a2, a3, a4, a5, a6, a7] = [a0, a1, a2, a3]"
  by (simp add: movh_def)

lemma TRANSPOSE6x8_MEM_8:
  "TRANSPOSE6x8_MEM [a0, a1, a2, a3, a4, a5, a6, a7] [b0, b1, b2, b3, b4, b5, b6, b7]
      [c0, c1, c2, c3, c4, c5, c6, c7] [d0, d1, d2, d3, d4, d5, d6, d7]
      [e0, e1, e2, e3, e4, e5, e6, e7] [f0, f1, f2, f3, f4, f5, f6, f7]
      [g0, g1, g2, g3, g4, g5, g6, g7] [h0, h1, h2, h3, h4, h5, h6, h7] =
    ([a1, b1, c1, d1, e1, f1, g1, h1], [a2, b2, c2, d2, e2, f2, g2, h2],
     [a3, b3, c3, d3, e3, f3, g3, h3], [a4, b4, c4, d4, e4, f4, g4, h4],
     [a5, b5, c5, d5, e5, f5, g5, h5], [a6, b6, c6, d6, e6, f6, g6, h6])"
  unfolding TRANSPOSE6x8_MEM_def SBUTTERFLY_def SBUTTERFLY3_def Let_def prod.case punpck_8
  by (rule refl)

lemma TRANSPOSE8x8_MEM_8:
  "TRANSPOSE8x8_MEM [a0, a1, a2, a3, a4, a5, a6, a7] [b0, b1, b2, b3, b4, b5, b6, b7]
      [c0, c1, c2, c3, c4, c5, c6, c7] [d0, d1, d2, d3, d4, d5, d6, d7]
      [e0, e1, e2, e3, e4, e5, e6, e7] [f0, f1, f2, f3, f4, f5, f6, f7]
      [g0, g1, g2, g3, g4, g5, g6, g7] [h0, h1, h2, h3, h4, h5, h6, h7] =
    ([a0, b0, c0, d0, e0, f0, g0, h0], [a1, b1, c1, d1, e1, f1, g1, h1],
     [a2, b2, c2, d2, e2, f2, g2, h2], [a3, b3, c3, d3, e3, f3, g3, h3],
     [a4, b4, c4, d4, e4, f4, g4, h4], [a5, b5, c5, d5, e5, f5, g5, h5],
     [a6, b6, c6, d6, e6, f6, g6, h6], [a7, b7, c7, d7, e7, f7, g7, h7])"
  unfolding TRANSPOSE8x8_MEM_def SBUTTERFLY_def SBUTTERFLY3_def Let_def prod.case punpck_8
  by (rule refl)

lemma TRANSPOSE8x4B_STORE_8:
  "TRANSPOSE8x4B_STORE [a0, a1, a2, a3, a4, a5, a6, a7] [b0, b1, b2, b3, b4, b5, b6, b7]
      [c0, c1, c2, c3, c4, c5, c6, c7] [d0, d1, d2, d3, d4, d5, d6, d7] =
    ([a0, b0, c0, d0], [a1, b1, c1, d1], [a2, b2, c2, d2], [a3, b3, c3, d3],
     [a4, b4, c4, d4], [a5, b5, c5, d5], [a6, b6, c6, d6], [a7, b7, c7, d7])"
  unfolding TRANSPOSE8x4B_STORE_def Let_def punpck_8 movh_8
  by (rule refl)

lemma load_row_8:
  "load_row 8 img y x = [img y x, img y (x + 1), img y (x + 2), img y (x + 3),
     img y (x + 4), img y (x + 5), img y (x + 6), img y (x + 7)]"
  by (simp add: load_row_def upt_rec)

lemma int_lt_8_cases:
  assumes "0 \<le> d" "d < 8"
  shows "d = 0 \<or> d = 1 \<or> d = 2 \<or> d = 3 \<or> d = 4 \<or> d = 5 \<or> d = 6 \<or> d = (7::int)"
  using assms by linarith

lemma int_lt_16_cases:
  assumes "0 \<le> d" "d < 16"
  shows "d = 0 \<or> d = 1 \<or> d = 2 \<or> d = 3 \<or> d = 4 \<or> d = 5 \<or> d = 6 \<or> d = 7
     \<or> d = 8 \<or> d = 9 \<or> d = 10 \<or> d = 11 \<or> d = 12 \<or> d = 13 \<or> d = 14 \<or> d = (15::int)"
proof (cases "d < 8")
  case True
  with assms(1) show ?thesis using int_lt_8_cases[of d] by blast
next
  case False
  then have "0 \<le> d - 8" "d - 8 < 8" using assms(2) by simp_all
  then have "d - 8 = 0 \<or> d - 8 = 1 \<or> d - 8 = 2 \<or> d - 8 = 3 \<or> d - 8 = 4 \<or> d - 8 = 5
      \<or> d - 8 = 6 \<or> d - 8 = 7"
    by (rule int_lt_8_cases)
  then show ?thesis by (elim disjE) simp_all
qed

lemma store_col_lo:
  "store_row P y 0 [img 0 r, img 1 r, img 2 r, img 3 r, img 4 r, img 5 r, img 6 r, img 7 r] y' x' =
    (if y' = y \<and> 0 \<le> x' \<and> x' < 8 then img x' r else P y' x')"
proof (cases "0 \<le> x' \<and> x' < 8")
  case True
  then have "x' = 0 \<or> x' = 1 \<or> x' = 2 \<or> x' = 3 \<or> x' = 4 \<or> x' = 5 \<or> x' = 6 \<or> x' = 7"
    by (intro int_lt_8_cases) simp_all
  then show ?thesis by (elim disjE) (simp_all add: store_row_def)
next
  case False
  then show ?thesis by (auto simp add: store_row_def)
qed

lemma store_col_hi:
  "store_row P y 8 [img 8 r, img 9 r, img 10 r, img 11 r, img 12 r, img 13 r, img 14 r, img 15 r]
      y' x' =
    (if y' = y \<and> 8 \<le> x' \<and> x' < 16 then img x' r else P y' x')"
proof (cases "8 \<le> x' \<and> x' < 16")
  case True
  then have "x' - 8 = 0 \<or> x' - 8 = 1 \<or> x' - 8 = 2 \<or> x' - 8 = 3 \<or> x' - 8 = 4 \<or> x' - 8 = 5
      \<or> x' - 8 = 6 \<or> x' - 8 = 7"
    by (intro int_lt_8_cases) simp_all
  then have "x' = 8 \<or> x' = 9 \<or> x' = 10 \<or> x' = 11 \<or> x' = 12 \<or> x' = 13 \<or> x' = 14 \<or> x' = 15"
    by (elim disjE) simp_all
  then show ?thesis by (elim disjE) (simp_all add: store_row_def)
next
  case False
  then show ?thesis by (auto simp add: store_row_def)
qed

lemma store_line4:
  "store_row P y (- 2) [V (- 2) r, V (- 1) r, V 0 r, V 1 r] y' x' =
    (if y' = y \<and> - 2 \<le> x' \<and> x' < 2 then V x' r else P y' x')"
proof (cases "- 2 \<le> x' \<and> x' < 2")
  case True
  then have "x' = - 2 \<or> x' = - 1 \<or> x' = 0 \<or> x' = 1" by linarith
  then show ?thesis by (elim disjE) (simp_all add: store_row_def)
next
  case False
  then show ?thesis by (auto simp add: store_row_def)
qed

lemma store_line8:
  "store_row P y (- 4) [V (- 4) r, V (- 3) r, V (- 2) r, V (- 1) r, V 0 r, V 1 r, V 2 r, V 3 r]
      y' x' =
    (if y' = y \<and> - 4 \<le> x' \<and> x' < 4 then V x' r else P y' x')"
proof (cases "- 4 \<le> x' \<and> x' < 4")
  case True
  then have "x' + 4 = 0 \<or> x' + 4 = 1 \<or> x' + 4 = 2 \<or> x' + 4 = 3 \<or> x' + 4 = 4 \<or> x' + 4 = 5
      \<or> x' + 4 = 6 \<or> x' + 4 = 7"
    by (intro int_lt_8_cases) simp_all
  then have "x' = - 4 \<or> x' = - 3 \<or> x' = - 2 \<or> x' = - 1 \<or> x' = 0 \<or> x' = 1 \<or> x' = 2 \<or> x' = 3"
    by (elim disjE) simp_all
  then show ?thesis by (elim disjE) (simp_all add: store_row_def)
next
  case False
  then show ?thesis by (auto simp add: store_row_def)
qed

lemma luma_transpose_in_at:
  "luma_transpose_in pix_tmp img y x =
    (if y \<in> {- 3, - 2, - 1, 0, 1, 2} \<and> 0 \<le> x \<and> x < 16 then img x y else pix_tmp y x)"
proof -
  consider "0 \<le> x \<and> x < 8" | "8 \<le> x \<and> x < 16" | "x < 0 \<or> 16 \<le> x" by linarith
  then show ?thesis
  proof cases
    case 1
    then show ?thesis
      unfolding luma_transpose_in_def load_row_8 Let_def
      by (simp add: TRANSPOSE6x8_MEM_8 store_col_lo store_col_hi)
  next
    case 2
    then show ?thesis
      unfolding luma_transpose_in_def load_row_8 Let_def
      by (simp add: TRANSPOSE6x8_MEM_8 store_col_lo store_col_hi)
  next
    case 3
    then show ?thesis
      unfolding luma_transpose_in_def load_row_8 Let_def
      by (elim disjE) (simp_all add: TRANSPOSE6x8_MEM_8 store_col_lo store_col_hi)
  qed
qed

lemma luma_intra_transpose_in_at:
  "luma_intra_transpose_in pix_tmp img y x =
    (if y \<in> {- 4, - 3, - 2, - 1, 0, 1, 2, 3} \<and> 0 \<le> x \<and> x < 16 then img x y else pix_tmp y x)"
proof -
  consider "0 \<le> x \<and> x < 8" | "8 \<le> x \<and> x < 16" | "x < 0 \<or> 16 \<le> x" by linarith
  then show ?thesis
  proof cases
    case 1
    then show ?thesis
      unfolding luma_intra_transpose_in_def load_row_8 Let_def
      by (simp add: TRANSPOSE8x8_MEM_8 store_col_lo store_col_hi)
  next
    case 2
    then show ?thesis
      unfolding luma_intra_transpose_in_def load_row_8 Let_def
      by (simp add: TRANSPOSE8x8_MEM_8 store_col_lo store_col_hi)
  next
    case 3
    then show ?thesis
      unfolding luma_intra_transpose_in_def load_row_8 Let_def
      by (elim disjE) (simp_all add: TRANSPOSE8x8_MEM_8 store_col_lo store_col_hi)
  qed
qed

lemma luma_transpose_out_at:
  "luma_transpose_out V img y x =
    (if 0 \<le> y \<and> y < 16 \<and> - 2 \<le> x \<and> x < 2 then V x y else img y x)"
proof (cases "0 \<le> y \<and> y < 16")
  case True
  then have "y = 0 \<or> y = 1 \<or> y = 2 \<or> y = 3 \<or> y = 4 \<or> y = 5 \<or> y = 6 \<or> y = 7
     \<or> y = 8 \<or> y = 9 \<or> y = 10 \<or> y = 11 \<or> y = 12 \<or> y = 13 \<or> y = 14 \<or> y = 15"
    by (intro int_lt_16_cases) simp_all
  then show ?thesis
    unfolding luma_transpose_out_def load_row_8 Let_def
    by (elim disjE) (simp_all add: TRANSPOSE8x4B_STORE_8 store_line4)
next
  case False
  then have "y < 0 \<or> 16 \<le> y" by linarith
  then show ?thesis
    unfolding luma_transpose_out_def load_row_8 Let_def
    by (elim disjE) (simp_all add: TRANSPOSE8x4B_STORE_8 store_line4)
qed

lemma luma_intra_transpose_out_at:
  "luma_intra_transpose_out V img y x =
    (if 0 \<le> y \<and> y < 16 \<and> - 4 \<le> x \<and> x < 4 then V x y else img y x)"
proof (cases "0 \<le> y \<and> y < 16")
  case True
  then have "y = 0 \<or> y = 1 \<or> y = 2 \<or> y = 3 \<or> y = 4 \<or> y = 5 \<or> y = 6 \<or> y = 7
     \<or> y = 8 \<or> y = 9 \<or> y = 10 \<or> y = 11 \<or> y = 12 \<or> y = 13 \<or> y = 14 \<or> y = 15"
    by (intro int_lt_16_cases) simp_all
  then show ?thesis
    unfolding luma_intra_transpose_out_def load_row_8 Let_def
    by (elim disjE) (simp_all add: TRANSPOSE8x8_MEM_8 store_line8)
next
  case False
  then have "y < 0 \<or> 16 \<le> y" by linarith
  then show ?thesis
    unfolding luma_intra_transpose_out_def load_row_8 Let_def
    by (elim disjE) (simp_all add: TRANSPOSE8x8_MEM_8 store_line8)
qed

lemma deblock_h_luma_8_at:
  "deblock_h_luma_8 alpha beta tc0 pix_tmp img y x =
    deblock_v_luma_8 alpha beta tc0 (transpose_plane img) x y"
proof (cases "0 \<le> y \<and> y < 16")
  case True
  have t: "\<And>k. k \<in> {- 3, - 2, - 1, 0, 1, 2} \<Longrightarrow> luma_transpose_in pix_tmp img k y = img y k"
    using True by (simp add: luma_transpose_in_at)
  have e: "(- 2 \<le> x \<and> x < 2) = (x \<in> {- 2, - 1, 0, 1})" by auto
  show ?thesis
    unfolding deblock_h_luma_8_def Let_def luma_transpose_out_at
      deblock_v_luma_8_at[of _ _ _ _ x y] e
    using True by (simp add: t transpose_plane_def)
next
  case False
  then show ?thesis
    unfolding deblock_h_luma_8_def Let_def luma_transpose_out_at
      deblock_v_luma_8_at[of _ _ _ _ x y]
    by (auto simp add: transpose_plane_def)
qed

lemma deblock_h_luma_intra_8_at:
  "deblock_h_luma_intra_8 alpha beta pix_tmp img y x =
    deblock_v_luma_intra_8 alpha beta (transpose_plane img) x y"
proof -
  define tmp where "tmp = luma_intra_transpose_in pix_tmp img"
  have e: "(- 4 \<le> x \<and> x < 4) = (x \<in> {- 4, - 3, - 2, - 1, 0, 1, 2, 3})" by auto
  have t: "\<And>k c. k \<in> {- 4, - 3, - 2, - 1, 0, 1, 2, 3} \<Longrightarrow> 0 \<le> c \<Longrightarrow> c < 16 \<Longrightarrow> tmp k c = img c k"
    unfolding tmp_def by (simp add: luma_intra_transpose_in_at)
  have L: "deblock_h_luma_intra_8 alpha beta pix_tmp img y x =
      (if 0 \<le> y \<and> y < 16 \<and> x \<in> {- 4, - 3, - 2, - 1, 0, 1, 2, 3}
       then deblock_v_luma_intra_8 alpha beta tmp x y else img y x)"
    unfolding deblock_h_luma_intra_8_def Let_def luma_intra_transpose_out_at tmp_def e ..
  show ?thesis
  proof (cases "0 \<le> y \<and> y < 16")
    case False
    then have n: "\<And>Q. (0 \<le> y \<and> y < 16 \<and> Q) = False" by blast
    from False show ?thesis
      unfolding L n by (simp add: deblock_v_luma_intra_8_outside transpose_plane_def)
  next
    case True
    then have y: "0 \<le> y" "y < 16" by simp_all
    show ?thesis
    proof (cases "1 \<le> alpha \<and> 1 \<le> beta")
      case False
      then have "\<And>P. deblock_v_luma_intra_8 alpha beta P = P"
        by (auto simp add: deblock_v_luma_intra_8_def)
      then show ?thesis unfolding L using y by (simp add: t transpose_plane_def)
    next
      case True
      then have a: "1 \<le> alpha" "1 \<le> beta" by simp_all
      define d where "d = y div 2"
      define c where "c = 2 * d"
      have d: "2 * d \<le> y" "y \<le> 2 * d + 1" unfolding d_def by (rule div2_bounds)+
      have "0 \<le> d" "d \<le> 7" using y d by linarith+
      then have c: "0 \<le> c" "c < 16" "0 \<le> c + 1" "c + 1 < 16"
        unfolding c_def by simp_all
      have R: "\<And>k. k \<in> {- 4, - 3, - 2, - 1, 0, 1, 2, 3} \<Longrightarrow> tmp k c = img c k"
        "\<And>k. k \<in> {- 4, - 3, - 2, - 1, 0, 1, 2, 3} \<Longrightarrow> tmp k (c + 1) = img (c + 1) k"
        using c by (simp_all add: t)
      have V: "deblock_v_luma_intra_8 alpha beta tmp x y =
          deblock_v_luma_intra_8 alpha beta (transpose_plane img) x y"
        if "x \<in> {- 4, - 3, - 2, - 1, 0, 1, 2, 3}"
      proof -
        have tx: "tmp x y = transpose_plane img x y"
          using that y by (simp add: t transpose_plane_def)
        show ?thesis
          unfolding deblock_v_luma_intra_8_at[OF a y] d_def[symmetric] c_def[symmetric] tx
          by (simp add: R transpose_plane_def)
      qed
      have O: "deblock_v_luma_intra_8 alpha beta (transpose_plane img) x y = img y x"
        if "x \<notin> {- 4, - 3, - 2, - 1, 0, 1, 2, 3}"
        unfolding deblock_v_luma_intra_8_at[OF a y]
        using that by (simp add: split_def Let_def transpose_plane_def)
      show ?thesis
        unfolding L using y V O by simp
    qed
  qed
qed

text \<open>
  One line of the chroma strong (intra) filter in terms of the flag of the mask unit, and
  the flag as the threshold rule for \<open>alpha\<close>, \<open>beta\<close> in \<open>[1,255]\<close>.
\<close>

lemma chroma_intra_lane_rule:
  "uint4 (chroma_intra_lane alpha beta (p1, p0, q0, q1)) =
     (if lane_mask alpha beta p1 p0 q0 q1
      then (uint p1, (2 * uint p1 + uint p0 + uint q1 + 2) div 4,
            (2 * uint q1 + uint q0 + uint p1 + 2) div 4, uint q1)
      else (uint p1, uint p0, uint q0, uint q1))
   \<and> (1 \<le> alpha \<and> alpha \<le> 255 \<and> 1 \<le> beta \<and> beta \<le> 255 \<longrightarrow>
        lane_mask alpha beta p1 p0 q0 q1
          = filterEdge alpha beta (uint p1) (uint p0) (uint q0) (uint q1))"
  using chroma_intra_lane_general[of alpha beta p1 p0 q0 q1]
    filterEdge_lane_mask[of alpha beta p1 p0 q0 q1]
  by simp

section \<open>The claims\<close>

text \<open>
  C3 (amended).  For thresholds \<open>alpha\<close>, \<open>beta\<close> in \<open>[1,255]\<close> the lane of the mask
  register \<open>m7\<close> after \<open>LOAD_MASK\<close> is all ones if \<open>|p0-q0| < alpha\<close>, \<open>|p1-p0| < beta\<close> and
  \<open>|q1-q0| < beta\<close>, and zero otherwise; the sample registers \<open>m0\<close> .. \<open>m3\<close> are left as
  they were.
\<close>

theorem LOAD_MASK_filterEdge:
  assumes "1 \<le> alpha" "alpha \<le> 255" "1 \<le> beta" "beta \<le> 255"
  shows "m7 (LOAD_MASK (alpha - 1) (beta - 1) r)
           = (if filterEdge alpha beta (uint (m0 r)) (uint (m1 r)) (uint (m2 r)) (uint (m3 r))
              then 0xFF else 0)
       \<and> m0 (LOAD_MASK (alpha - 1) (beta - 1) r) = m0 r
       \<and> m1 (LOAD_MASK (alpha - 1) (beta - 1) r) = m1 r
       \<and> m2 (LOAD_MASK (alpha - 1) (beta - 1) r) = m2 r
       \<and> m3 (LOAD_MASK (alpha - 1) (beta - 1) r) = m3 r"
proof -
  have a: "uint (splat_pack (alpha - 1)) = alpha - 1"
    using assms by (intro splat_pack_range) simp_all
  have b: "uint (splat_pack (beta - 1)) = beta - 1"
    using assms by (intro splat_pack_range) simp_all
  have "(\<bar>uint (m1 r) - uint (m2 r)\<bar> \<le> alpha - 1
        \<and> \<bar>uint (m0 r) - uint (m1 r)\<bar> \<le> beta - 1
        \<and> \<bar>uint (m3 r) - uint (m2 r)\<bar> \<le> beta - 1)
      = filterEdge alpha beta (uint (m0 r)) (uint (m1 r)) (uint (m2 r)) (uint (m3 r))"
    unfolding filterEdge_def by auto
  then show ?thesis
    unfolding LOAD_MASK_m7 LOAD_MASK_samples a b by simp
qed

theorem LOAD_MASK_filterEdge_witness:
  "m7 (LOAD_MASK (20 - 1) (10 - 1) (sample_regs 94 96 100 98)) = 0xFF
   \<and> m0 (LOAD_MASK (20 - 1) (10 - 1) (sample_regs 94 96 100 98)) = 94
   \<and> m7 (LOAD_MASK (20 - 1) (10 - 1) (sample_regs 94 96 120 98)) = 0"
  using LOAD_MASK_filterEdge[of 20 10 "sample_regs 94 96 100 98"]
    LOAD_MASK_filterEdge[of 20 10 "sample_regs 94 96 120 98"]
  by (simp add: filterEdge_def sample_regs_def)

theorem LOAD_MASK_alpha_zero_counterexample:
  "m7 (LOAD_MASK (0 - 1) (1 - 1) (sample_regs 7 7 7 7)) = 0xFF
   \<and> \<not> filterEdge 0 1 (uint (7::byte)) (uint (7::byte)) (uint (7::byte)) (uint (7::byte))"
  by (simp add: LOAD_MASK_m7 splat_pack_def packuswb_def sample_regs_def filterEdge_def)

text \<open>
  C1 (amended).  On every line of \<open>deblock_v_luma_8\<close> on which \<open>filterEdge\<close> holds
  (\<open>alpha\<close>, \<open>beta\<close> at most 255) and whose \<open>tc0\<close> byte is not the sentinel \<open>0xFF\<close>, with
  \<open>tc0\<close> read as an unsigned byte and \<open>tC = (tc0 + (ap?1:0) + (aq?1:0)) mod 256\<close>, the filter
  writes \<open>p0' = Clip1(p0 + delta)\<close> and \<open>q0' = Clip1(q0 - delta)\<close> where
  \<open>delta = clip(min(((q0-p0)*4 + (p1-q1) + 4) >> 3, 94), -tC, tC)\<close>, and it writes
  \<open>p1' = p1 + clip((p2 + ((p0+q0+1)>>1) - 2*p1) >> 1, -tc0, tc0)\<close> exactly when \<open>ap\<close> holds
  (\<open>q1'\<close> likewise when \<open>aq\<close> holds), leaving \<open>p1\<close> (\<open>q1\<close>) unchanged otherwise.  The bound 94
  is where the saturating add of \<open>DEBLOCK_P0_Q0\<close> stops (\<open>161 + 94 = 255\<close>); whenever
  \<open>tC \<le> 94\<close>, in particular for every \<open>tc0 \<le> 92\<close>, \<open>delta\<close> is the \<open>delta\<close> of the
  specification.
\<close>

theorem deblock_v_luma_lane_eligible:
  fixes p2 p1 p0 q0 q1 q2 tc0 :: byte
  assumes fe: "filterEdge alpha beta (uint p1) (uint p0) (uint q0) (uint q1)"
    and le: "alpha \<le> 255" "beta \<le> 255"
    and tc: "tc0 \<noteq> 0xFF"
  shows "uint4 (deblock_v_luma_lane alpha beta tc0 (p2, p1, p0, q0, q1, q2)) =
    (let ap = soft_flag beta (uint p2) (uint p0);
         aq = soft_flag beta (uint q2) (uint q0);
         tC = luma_tC (uint tc0) ap aq mod 256;
         delta = clip3 (- tC) tC (min (delta_raw (uint p1) (uint p0) (uint q0) (uint q1)) 94)
     in (if ap then luma_p1 (uint tc0) (uint p2) (uint p1) (uint p0) (uint q0) else uint p1,
         Clip1 (uint p0 + delta),
         Clip1 (uint q0 - delta),
         if aq then luma_p1 (uint tc0) (uint q2) (uint q1) (uint p0) (uint q0) else uint q1))"
proof -
  have ge: "1 \<le> alpha" "1 \<le> beta" using fe unfolding filterEdge_def by linarith+
  have on: "lane_mask alpha beta p1 p0 q0 q1"
    using fe ge le by (simp add: filterEdge_lane_mask)
  have b: "uint (splat_pack (beta - 1)) = beta - 1"
    using ge le by (intro splat_pack_range) simp_all
  have fl: "\<And>x y. (\<bar>x - y\<bar> \<le> beta - 1) = soft_flag beta x y"
    unfolding soft_flag_def by auto
  show ?thesis
    unfolding deblock_v_luma_lane_general Let_def b fl using on tc by simp
qed

theorem deblock_v_luma_lane_eligible_witness:
  "filterEdge 20 10 (uint (94::byte)) (uint (96::byte)) (uint (100::byte)) (uint (98::byte))
   \<and> (2::byte) \<noteq> 0xFF
   \<and> uint4 (deblock_v_luma_lane 20 10 2 (92, 94, 96, 100, 98, 96)) = (95, 98, 98, 97)"
proof -
  have fe: "filterEdge 20 10 (uint (94::byte)) (uint (96::byte)) (uint (100::byte)) (uint (98::byte))"
    by (simp add: filterEdge_def)
  have tc: "(2::byte) \<noteq> 0xFF" by simp
  show ?thesis
    using fe tc deblock_v_luma_lane_eligible[OF fe _ _ tc, of 92 96]
    by (simp add: Let_def soft_flag_def luma_tC_def luma_p1_def clip3_def Clip1_def delta_raw_def)
qed

theorem luma_delta_saturation_counterexample:
  "uint4 (deblock_v_luma_lane 255 255 100 (0, 254, 0, 254, 0, 254)) = (154, 94, 160, 100)
   \<and> luma_normal_spec 255 255 100 (0, 254, 0, 254, 0, 254) = (154, 102, 152, 100)"
  by (simp add: deblock_v_luma_lane_general lane_mask_iff splat_pack_def packuswb_def
      Let_def luma_normal_spec_def filterEdge_def soft_flag_def luma_tC_def luma_p1_def
      clip3_def Clip1_def delta_raw_def)

text \<open>
  C5.  In the luma normal filter a group whose \<open>tc0\<close> entry is the sentinel \<open>-1\<close> (\<open>0xFF\<close>)
  is left unmodified in every row, whatever the samples, \<open>alpha\<close> and \<open>beta\<close>: in the
  64-bit \<open>deblock_v_luma_8\<close> (lane \<open>x\<close> belongs to group \<open>x div 4\<close>) and in the 32-bit
  \<open>deblock_v8_luma_8\<close>.  Lines of other groups may still be filtered: with the sentinel in
  group 0 only, column 3 of the scenario plane keeps \<open>p0 = 96\<close> while column 4 gets
  \<open>p0' = 98\<close>.
\<close>

theorem sentinel_group_unmodified:
  "(tc0 (nat x div 4) = 0xFF \<longrightarrow>
      deblock_v_luma_8 alpha beta tc0 img y x = img y x
      \<and> deblock_v8_luma_8 alpha beta tc0 img y x = img y x)
   \<and> deblock_v_luma_8 20 10 scenario_tc0 scenario_plane (- 1) 3 = 96
   \<and> scenario_plane (- 1) 4 = 96
   \<and> deblock_v_luma_8 20 10 scenario_tc0 scenario_plane (- 1) 4 = 98"
proof -
  have a: "tc0 (nat x div 4) = 0xFF \<Longrightarrow> deblock_v_luma_8 alpha beta tc0 img y x = img y x"
    unfolding deblock_v_luma_8_at by (simp add: deblock_v_luma_lane_sentinel)
  have b: "tc0 (nat x div 4) = 0xFF \<Longrightarrow> deblock_v8_luma_8 alpha beta tc0 img y x = img y x"
    unfolding deblock_v8_luma_8_at by (simp add: deblock_luma_lane_x86_32_sentinel)
  have c: "deblock_v_luma_8 20 10 scenario_tc0 scenario_plane (- 1) 3 = 96"
    unfolding deblock_v_luma_8_at
    by (simp add: scenario_tc0_def scenario_plane_def deblock_v_luma_lane_sentinel)
  have l: "uint4 (deblock_v_luma_lane 20 10 2 (92, 94, 96, 100, 98, 96)) = (95, 98, 98, 97)"
    by (simp add: deblock_v_luma_lane_general lane_mask_iff splat_pack_def packuswb_def
      Let_def luma_tC_def luma_p1_def clip3_def Clip1_def delta_raw_def)
  have d: "deblock_v_luma_8 20 10 scenario_tc0 scenario_plane (- 1) 4 = 98"
    unfolding deblock_v_luma_8_at using l
    by (simp add: scenario_tc0_def scenario_plane_def uint4_def split_def byte_eq_iff)
  show ?thesis using a b c d by (simp add: scenario_plane_def)
qed

theorem sentinel_group_unmodified_witness:
  "scenario_tc0 (nat 2 div 4) = 0xFF
   \<and> deblock_v_luma_8 20 10 scenario_tc0 scenario_plane (- 1) 2 = 96
   \<and> deblock_v8_luma_8 20 10 scenario_tc0 scenario_plane 0 2 = 100"
  using sentinel_group_unmodified[of scenario_tc0 2 20 10 scenario_plane "- 1"]
    sentinel_group_unmodified[of scenario_tc0 2 20 10 scenario_plane 0]
  by (simp add: scenario_tc0_def scenario_plane_def)

text \<open>
  C4 (code defect).  The chroma strong (intra) filter has the formulas of the claim, but it
  does not leave every line without \<open>filterEdge\<close> unchanged: \<open>deblock_v_chroma_intra_8\<close> has
  no exit for \<open>alpha = 0\<close> or \<open>beta = 0\<close>, which \<open>deblock_v_luma_intra_8\<close> has (\<open>dec r2d; jl
  .end\<close>).  With \<open>alpha = 0\<close>, \<open>beta = 10\<close> the line \<open>p1 = 108, p0 = q0 = q1 = 100\<close> fails
  \<open>filterEdge\<close> (\<open>|p0-q0| < 0\<close> is false) and is rewritten to \<open>p0' = 104\<close>, \<open>q0' = 102\<close>; with
  \<open>alpha = 10\<close>, \<open>beta = 0\<close> the line \<open>p1 = p0 = 100, q0 = q1 = 104\<close> fails \<open>filterEdge\<close> and is
  rewritten to \<open>p0' = 101\<close>, \<open>q0' = 103\<close>.
\<close>

theorem chroma_intra_rewrites_without_filterEdge:
  "filterEdge 0 10 (uint (step_plane (- 2) 0)) (uint (step_plane (- 1) 0))
      (uint (step_plane 0 0)) (uint (step_plane 1 0)) = False
   \<and> (step_plane (- 2) 0, step_plane (- 1) 0, step_plane 0 0, step_plane 1 0)
        = (108, 100, 100, 100)
   \<and> (deblock_v_chroma_intra_8 0 10 step_plane (- 2) 0,
       deblock_v_chroma_intra_8 0 10 step_plane (- 1) 0,
       deblock_v_chroma_intra_8 0 10 step_plane 0 0,
       deblock_v_chroma_intra_8 0 10 step_plane 1 0) = (108, 104, 102, 100)
   \<and> filterEdge 10 0 (uint (flat_sides_plane (- 2) 0)) (uint (flat_sides_plane (- 1) 0))
      (uint (flat_sides_plane 0 0)) (uint (flat_sides_plane 1 0)) = False
   \<and> (flat_sides_plane (- 2) 0, flat_sides_plane (- 1) 0, flat_sides_plane 0 0,
       flat_sides_plane 1 0) = (100, 100, 104, 104)
   \<and> (deblock_v_chroma_intra_8 10 0 flat_sides_plane (- 2) 0,
       deblock_v_chroma_intra_8 10 0 flat_sides_plane (- 1) 0,
       deblock_v_chroma_intra_8 10 0 flat_sides_plane 0 0,
       deblock_v_chroma_intra_8 10 0 flat_sides_plane 1 0) = (100, 101, 103, 104)"
proof -
  have m: "lane_mask 0 10 108 100 100 100" "lane_mask 10 0 100 100 104 104"
    by (simp_all add: lane_mask_iff splat_pack_def packuswb_def)
  have i: "uint4 (chroma_intra_lane 0 10 (108, 100, 100, 100)) = (108, 104, 102, 100)"
    using m(1) by (simp add: chroma_intra_lane_general)
  have j: "uint4 (chroma_intra_lane 10 0 (100, 100, 104, 104)) = (100, 101, 103, 104)"
    using m(2) by (simp add: chroma_intra_lane_general)
  have f: "filterEdge 0 10 (uint (step_plane (- 2) 0)) (uint (step_plane (- 1) 0))
      (uint (step_plane 0 0)) (uint (step_plane 1 0)) = False"
    "filterEdge 10 0 (uint (flat_sides_plane (- 2) 0)) (uint (flat_sides_plane (- 1) 0))
      (uint (flat_sides_plane 0 0)) (uint (flat_sides_plane 1 0)) = False"
    by (simp_all add: filterEdge_def step_plane_def flat_sides_plane_def)
  have a: "(deblock_v_chroma_intra_8 0 10 step_plane (- 2) 0,
       deblock_v_chroma_intra_8 0 10 step_plane (- 1) 0,
       deblock_v_chroma_intra_8 0 10 step_plane 0 0,
       deblock_v_chroma_intra_8 0 10 step_plane 1 0) = (108, 104, 102, 100)"
    unfolding deblock_v_chroma_intra_8_at using i
    by (simp add: step_plane_def uint4_def split_def byte_eq_iff)
  have b: "(deblock_v_chroma_intra_8 10 0 flat_sides_plane (- 2) 0,
       deblock_v_chroma_intra_8 10 0 flat_sides_plane (- 1) 0,
       deblock_v_chroma_intra_8 10 0 flat_sides_plane 0 0,
       deblock_v_chroma_intra_8 10 0 flat_sides_plane 1 0) = (100, 101, 103, 104)"
    unfolding deblock_v_chroma_intra_8_at using j
    by (simp add: flat_sides_plane_def uint4_def split_def byte_eq_iff)
  show ?thesis
    unfolding f a b by (simp add: step_plane_def flat_sides_plane_def)
qed

text \<open>
  C9 (amended).  On the line \<open>p1 = 100, p0 = 96, q0 = 90, q1 = 80\<close>, for every \<open>alpha\<close> and
  \<open>beta\<close> (at most 255) under which the \<open>filterEdge\<close> gate passes, the chroma strong filter
  gives \<open>p0' = (2*100 + 96 + 80 + 2) >> 2 = 94\<close> and \<open>q0' = (2*80 + 90 + 100 + 2) >> 2 = 88\<close>.
\<close>

theorem chroma_intra_scenario:
  assumes "filterEdge alpha beta (uint (100::byte)) (uint (96::byte)) (uint (90::byte)) (uint (80::byte))"
    and "alpha \<le> 255" "beta \<le> 255"
  shows "uint4 (chroma_intra_lane alpha beta (100, 96, 90, 80)) = (100, 94, 88, 80)"
proof -
  have ge: "1 \<le> alpha" "1 \<le> beta" using assms(1) unfolding filterEdge_def by linarith+
  have "lane_mask alpha beta 100 96 90 80"
    using assms ge by (simp add: filterEdge_lane_mask)
  then show ?thesis by (simp add: chroma_intra_lane_general)
qed

theorem chroma_intra_scenario_witness:
  "filterEdge 20 12 (uint (100::byte)) (uint (96::byte)) (uint (90::byte)) (uint (80::byte))
   \<and> uint4 (chroma_intra_lane 20 12 (100, 96, 90, 80)) = (100, 94, 88, 80)"
proof -
  have fe: "filterEdge 20 12 (uint (100::byte)) (uint (96::byte)) (uint (90::byte)) (uint (80::byte))"
    by (simp add: filterEdge_def)
  show ?thesis using fe chroma_intra_scenario[OF fe] by simp
qed

theorem chroma_intra_scenario_counterexample:
  "filterEdge 255 255 (uint (100::byte)) (uint (96::byte)) (uint (90::byte)) (uint (80::byte))
   \<and> uint4 (chroma_intra_lane 255 255 (100, 96, 90, 80)) = (100, 94, 88, 80)
   \<and> fst (snd (uint4 (chroma_intra_lane 255 255 (100, 96, 90, 80)))) \<noteq> 97"
  by (simp add: filterEdge_def chroma_intra_lane_general lane_mask_iff splat_pack_def
      packuswb_def)

text \<open>
  C10.  The chroma normal filter uses the line's \<open>tc\<close> byte, ANDed with the eligibility
  mask, as the unsigned clip bound of \<open>delta\<close>, with no test against the sentinel: the
  bound is \<open>tc\<close> (0 .. 255) on an eligible line and 0 elsewhere.  A \<open>tc\<close> byte of 0 leaves
  \<open>p0\<close> and \<open>q0\<close> unchanged on every line; a \<open>tc\<close> byte of \<open>0xFF\<close> on an eligible line is the
  bound 255, which never clips, and the line is filtered (the scenario line becomes
  \<open>p0' = q0' = 98\<close>).  In the vertical entry point column \<open>x\<close> takes byte \<open>x div 2\<close> of
  \<open>tc0\<close>, and only rows \<open>p0\<close> and \<open>q0\<close> are written.
\<close>

theorem chroma_inter_tc_bound:
  "(uint (fst (chroma_inter_lane alpha beta tc (p1, p0, q0, q1))),
    uint (snd (chroma_inter_lane alpha beta tc (p1, p0, q0, q1)))) =
     (let b = (if lane_mask alpha beta p1 p0 q0 q1 then uint tc else 0);
          delta = clip3 (- b) b (min (delta_raw (uint p1) (uint p0) (uint q0) (uint q1)) 94)
      in (Clip1 (uint p0 + delta), Clip1 (uint q0 - delta)))
   \<and> chroma_inter_lane alpha beta 0 (p1, p0, q0, q1) = (p0, q0)
   \<and> (lane_mask alpha beta p1 p0 q0 q1 \<longrightarrow>
        uint (fst (chroma_inter_lane alpha beta 0xFF (p1, p0, q0, q1)))
          = Clip1 (uint p0 + min (delta_raw (uint p1) (uint p0) (uint q0) (uint q1)) 94)
        \<and> uint (snd (chroma_inter_lane alpha beta 0xFF (p1, p0, q0, q1)))
          = Clip1 (uint q0 - min (delta_raw (uint p1) (uint p0) (uint q0) (uint q1)) 94))
   \<and> chroma_inter_lane 20 10 0xFF (94, 96, 100, 98) = (98, 98)
   \<and> deblock_v_chroma_8 alpha beta tc0 img y x =
        (if 0 \<le> x \<and> x < 8 \<and> y \<in> {- 1, 0} then
           (case chroma_inter_lane alpha beta (tc0 (nat x div 2))
                  (img (- 2) x, img (- 1) x, img 0 x, img 1 x)
            of (p0', q0') \<Rightarrow> if y = - 1 then p0' else q0')
         else img y x)"
proof -
  let ?d = "delta_raw (uint p1) (uint p0) (uint q0) (uint q1)"
  have z: "chroma_inter_lane alpha beta 0 (p1, p0, q0, q1) = (p0, q0)"
    by (simp add: chroma_inter_lane_unfold DEBLOCK_P0_Q0_zero)
  have c: "clip3 (- 255) 255 (min ?d 94) = min ?d 94"
    using delta_raw_bounds[of p1 p0 q0 q1] by (simp add: clip3_def min_def)
  have f: "lane_mask alpha beta p1 p0 q0 q1 \<Longrightarrow>
        uint (fst (chroma_inter_lane alpha beta 0xFF (p1, p0, q0, q1))) = Clip1 (uint p0 + min ?d 94)
        \<and> uint (snd (chroma_inter_lane alpha beta 0xFF (p1, p0, q0, q1))) = Clip1 (uint q0 - min ?d 94)"
    using chroma_inter_lane_general[of alpha beta "0xFF" p1 p0 q0 q1] c
    by (simp add: Let_def)
  have e: "chroma_inter_lane 20 10 0xFF (94, 96, 100, 98) = (98, 98)"
    using chroma_inter_lane_general[of 20 10 "0xFF" 94 96 100 98]
    by (simp add: prod_eq_iff byte_eq_iff lane_mask_iff splat_pack_def packuswb_def Let_def
        clip3_def Clip1_def delta_raw_def)
  show ?thesis
    using chroma_inter_lane_general[of alpha beta tc p1 p0 q0 q1] z f e
      deblock_v_chroma_8_at[of alpha beta tc0 img y x]
    by simp
qed

theorem chroma_inter_tc_bound_witness:
  "lane_mask 20 10 90 96 104 100
   \<and> uint (fst (chroma_inter_lane 20 10 0xFF (90, 96, 104, 100))) = 99
   \<and> uint (snd (chroma_inter_lane 20 10 0xFF (90, 96, 104, 100))) = 101"
proof -
  have m: "lane_mask 20 10 90 96 104 100"
    by (simp add: lane_mask_iff splat_pack_def packuswb_def)
  show ?thesis
    using m chroma_inter_tc_bound[of 20 10 "0xFF" 90 96 104 100 tc0_three scenario_plane 0 0]
    by (simp add: Clip1_def delta_raw_def)
qed

text \<open>
  C6 (code defect).  With \<open>alpha = 0\<close> the entry points without the early exit still filter:
  \<open>alpha - 1 = -1\<close> is packed to the threshold byte 0, so a line with \<open>p0 = q0\<close> passes the
  mask.  On the step plane (\<open>p2 = p1 = 108\<close>, \<open>p0 = q0 = q1 = q2 = 100\<close>), \<open>beta = 10\<close>,
  \<open>tc0 = 3\<close>: \<open>deblock_v_luma_8\<close> rewrites \<open>p1, p0, q0\<close> to \<open>105, 101, 99\<close>,
  \<open>deblock_v_chroma_8\<close> rewrites \<open>p0, q0\<close> to \<open>101, 99\<close> and
  \<open>deblock_v_chroma_intra_8\<close> rewrites them to \<open>104, 102\<close>.
\<close>

theorem alpha_zero_still_filters:
  "step_plane (- 2) 0 = 108 \<and> step_plane (- 1) 0 = 100 \<and> step_plane 0 0 = 100
   \<and> deblock_v_luma_8 0 10 tc0_three step_plane (- 2) 0 = 105
   \<and> deblock_v_luma_8 0 10 tc0_three step_plane (- 1) 0 = 101
   \<and> deblock_v_luma_8 0 10 tc0_three step_plane 0 0 = 99
   \<and> deblock_v_chroma_8 0 10 tc0_three step_plane (- 1) 0 = 101
   \<and> deblock_v_chroma_8 0 10 tc0_three step_plane 0 0 = 99
   \<and> deblock_v_chroma_intra_8 0 10 step_plane (- 1) 0 = 104
   \<and> deblock_v_chroma_intra_8 0 10 step_plane 0 0 = 102"
proof -
  have m: "lane_mask 0 10 108 100 100 100"
    by (simp add: lane_mask_iff splat_pack_def packuswb_def)
  have l: "uint4 (deblock_v_luma_lane 0 10 3 (108, 108, 100, 100, 100, 100)) = (105, 101, 99, 100)"
    using m by (simp add: deblock_v_luma_lane_general splat_pack_def packuswb_def
      Let_def luma_tC_def luma_p1_def clip3_def Clip1_def delta_raw_def)
  have c: "chroma_inter_lane 0 10 3 (108, 100, 100, 100) = (101, 99)"
    using m chroma_inter_lane_general[of 0 10 3 108 100 100 100]
    by (simp add: prod_eq_iff byte_eq_iff Let_def clip3_def Clip1_def delta_raw_def)
  have i: "uint4 (chroma_intra_lane 0 10 (108, 100, 100, 100)) = (108, 104, 102, 100)"
    using m by (simp add: chroma_intra_lane_general)
  show ?thesis
    unfolding deblock_v_luma_8_at deblock_v_chroma_8_at deblock_v_chroma_intra_8_at
    using l c i
    by (simp add: step_plane_def tc0_three_def uint4_def split_def byte_eq_iff)
qed

text \<open>
  C2 (amended).  For every column \<open>x\<close> of \<open>deblock_v_luma_intra_8\<close> (\<open>alpha\<close>, \<open>beta\<close> at most
  255; no \<open>tc0\<close> argument exists): the three-sample update
  \<open>p0' = (p2 + 2*p1 + 2*p0 + 2*q0 + q1 + 4) >> 3\<close>, \<open>p1' = (p2 + p1 + p0 + q0 + 2) >> 2\<close>,
  \<open>p2' = (2*p3 + 3*p2 + p1 + p0 + q0 + 4) >> 3\<close> is applied exactly when \<open>filterEdge\<close> holds
  together with \<open>|p0-q0| < (alpha>>2)+2\<close> and \<open>|p2-p0| < beta\<close>; when \<open>filterEdge\<close> holds
  but that conjunction fails, only \<open>p0' = (2*p1 + p0 + q1 + 2) >> 2\<close> is applied and \<open>p1\<close>,
  \<open>p2\<close> stay unchanged; without \<open>filterEdge\<close> nothing changes; the q side is the same
  rule under exchange of p and q; \<open>p3\<close> and \<open>q3\<close> are never written.
\<close>

theorem deblock_v_luma_intra_8_column:
  assumes "alpha \<le> 255" "beta \<le> 255" "0 \<le> x" "x < 16"
  shows "(uint (deblock_v_luma_intra_8 alpha beta img (- 3) x),
          uint (deblock_v_luma_intra_8 alpha beta img (- 2) x),
          uint (deblock_v_luma_intra_8 alpha beta img (- 1) x))
         = luma_intra_side alpha beta (uint (img (- 4) x)) (uint (img (- 3) x))
             (uint (img (- 2) x)) (uint (img (- 1) x)) (uint (img 0 x)) (uint (img 1 x))
       \<and> (uint (deblock_v_luma_intra_8 alpha beta img 2 x),
          uint (deblock_v_luma_intra_8 alpha beta img 1 x),
          uint (deblock_v_luma_intra_8 alpha beta img 0 x))
         = luma_intra_side alpha beta (uint (img 3 x)) (uint (img 2 x))
             (uint (img 1 x)) (uint (img 0 x)) (uint (img (- 1) x)) (uint (img (- 2) x))
       \<and> deblock_v_luma_intra_8 alpha beta img (- 4) x = img (- 4) x
       \<and> deblock_v_luma_intra_8 alpha beta img 3 x = img 3 x"
proof (cases "1 \<le> alpha \<and> 1 \<le> beta")
  case False
  then have "alpha - 1 < 0 \<or> beta - 1 < 0" by auto
  then have i: "deblock_v_luma_intra_8 alpha beta img = img"
    unfolding deblock_v_luma_intra_8_def by auto
  show ?thesis
    unfolding i using False by (simp add: luma_intra_side_off)
next
  case True
  then have r: "1 \<le> alpha" "alpha \<le> 255" "1 \<le> beta" "beta \<le> 255"
    using assms by simp_all
  note at = deblock_v_luma_intra_8_at[OF r(1) r(3) assms(3,4)]
  let ?I = "deblock_v_luma_intra_8 alpha beta img"
  show ?thesis
  proof (cases "even x")
    case True
    then have e: "2 * (x div 2) = x" by simp
    obtain r2 r1 r0 s0 s1 s2 where B: "luma_intra_body (alpha - 1) (beta - 1)
       ((img (- 4) x, img (- 4) (x + 1)), (img (- 3) x, img (- 3) (x + 1)),
        (img (- 2) x, img (- 2) (x + 1)), (img (- 1) x, img (- 1) (x + 1)),
        (img 0 x, img 0 (x + 1)), (img 1 x, img 1 (x + 1)),
        (img 2 x, img 2 (x + 1)), (img 3 x, img 3 (x + 1))) = (r2, r1, r0, s0, s1, s2)"
      using prod_cases6 by blast
    have at': "?I y x = (if y = - 3 then fst r2 else if y = - 2 then fst r1
        else if y = - 1 then fst r0 else if y = 0 then fst s0 else if y = 1 then fst s1
        else if y = 2 then fst s2 else img y x)" for y
      unfolding at e B using True by simp
    have F: "(uint (fst r2), uint (fst r1), uint (fst r0))
          = luma_intra_side alpha beta (uint (img (- 4) x)) (uint (img (- 3) x))
             (uint (img (- 2) x)) (uint (img (- 1) x)) (uint (img 0 x)) (uint (img 1 x))
        \<and> (uint (fst s2), uint (fst s1), uint (fst s0))
          = luma_intra_side alpha beta (uint (img 3 x)) (uint (img 2 x))
             (uint (img 1 x)) (uint (img 0 x)) (uint (img (- 1) x)) (uint (img (- 2) x))"
      using luma_intra_body_fst[OF r,
          where ?p3.0 = "(img (- 4) x, img (- 4) (x + 1))"
            and ?p2.0 = "(img (- 3) x, img (- 3) (x + 1))"
            and ?p1.0 = "(img (- 2) x, img (- 2) (x + 1))"
            and ?p0.0 = "(img (- 1) x, img (- 1) (x + 1))"
            and ?q0.0 = "(img 0 x, img 0 (x + 1))" and ?q1.0 = "(img 1 x, img 1 (x + 1))"
            and ?q2.0 = "(img 2 x, img 2 (x + 1))" and ?q3.0 = "(img 3 x, img 3 (x + 1))"]
      unfolding B by simp
    show ?thesis unfolding at' using F by simp
  next
    case False
    then have e: "2 * (x div 2) + 1 = x" by simp
    obtain r2 r1 r0 s0 s1 s2 where B: "luma_intra_body (alpha - 1) (beta - 1)
       ((img (- 4) (2 * (x div 2)), img (- 4) x), (img (- 3) (2 * (x div 2)), img (- 3) x),
        (img (- 2) (2 * (x div 2)), img (- 2) x), (img (- 1) (2 * (x div 2)), img (- 1) x),
        (img 0 (2 * (x div 2)), img 0 x), (img 1 (2 * (x div 2)), img 1 x),
        (img 2 (2 * (x div 2)), img 2 x), (img 3 (2 * (x div 2)), img 3 x))
         = (r2, r1, r0, s0, s1, s2)"
      using prod_cases6 by blast
    have at': "?I y x = (if y = - 3 then snd r2 else if y = - 2 then snd r1
        else if y = - 1 then snd r0 else if y = 0 then snd s0 else if y = 1 then snd s1
        else if y = 2 then snd s2 else img y x)" for y
      unfolding at e B using False by simp
    have F: "(uint (snd r2), uint (snd r1), uint (snd r0))
          = luma_intra_side alpha beta (uint (img (- 4) x)) (uint (img (- 3) x))
             (uint (img (- 2) x)) (uint (img (- 1) x)) (uint (img 0 x)) (uint (img 1 x))
        \<and> (uint (snd s2), uint (snd s1), uint (snd s0))
          = luma_intra_side alpha beta (uint (img 3 x)) (uint (img 2 x))
             (uint (img 1 x)) (uint (img 0 x)) (uint (img (- 1) x)) (uint (img (- 2) x))"
      using luma_intra_body_snd[OF r,
          where ?p3.0 = "(img (- 4) (2 * (x div 2)), img (- 4) x)"
            and ?p2.0 = "(img (- 3) (2 * (x div 2)), img (- 3) x)"
            and ?p1.0 = "(img (- 2) (2 * (x div 2)), img (- 2) x)"
            and ?p0.0 = "(img (- 1) (2 * (x div 2)), img (- 1) x)"
            and ?q0.0 = "(img 0 (2 * (x div 2)), img 0 x)"
            and ?q1.0 = "(img 1 (2 * (x div 2)), img 1 x)"
            and ?q2.0 = "(img 2 (2 * (x div 2)), img 2 x)"
            and ?q3.0 = "(img 3 (2 * (x div 2)), img 3 x)"]
      unfolding B by simp
    show ?thesis unfolding at' using F by simp
  qed
qed

theorem deblock_v_luma_intra_8_column_witness:
  "(20::int) \<le> 255 \<and> (10::int) \<le> 255 \<and> (0::int) \<le> 0 \<and> (0::int) < 16
   \<and> (uint (deblock_v_luma_intra_8 20 10 intra_plane (- 3) 0),
       uint (deblock_v_luma_intra_8 20 10 intra_plane (- 2) 0),
       uint (deblock_v_luma_intra_8 20 10 intra_plane (- 1) 0)) = (30, 52, 55)
   \<and> (uint (deblock_v_luma_intra_8 20 10 intra_plane 2 0),
       uint (deblock_v_luma_intra_8 20 10 intra_plane 1 0),
       uint (deblock_v_luma_intra_8 20 10 intra_plane 0 0)) = (100, 60, 57)"
  using deblock_v_luma_intra_8_column[of 20 10 0 intra_plane]
  by (simp add: intra_plane_def luma_intra_side_def filterEdge_def)

theorem luma_intra_weak_counterexample:
  "filterEdge 20 10 52 54 56 60
   \<and> \<not> \<bar>uint (intra_plane (- 3) 0) - uint (intra_plane (- 1) 0)\<bar> < 10
   \<and> uint (deblock_v_luma_intra_8 20 10 intra_plane (- 1) 0) = 55
   \<and> luma_intra_side_spec 20 10 30 30 52 54 56 60 = (30, 52, 54)"
proof -
  obtain r2 r1 r0 s0 s1 s2 where B: "luma_intra_body (20 - 1) (10 - 1)
       ((30, 30), (30, 30), (52, 52), (54, 54), (56, 56), (60, 60), (100, 100), (100, 100))
        = (r2, r1, r0, s0, s1, s2)"
    using prod_cases6 by blast
  have "uint (fst r0) = 55"
    using luma_intra_body_fst[of 20 10,
          where ?p3.0 = "(30, 30)" and ?p2.0 = "(30, 30)" and ?p1.0 = "(52, 52)"
            and ?p0.0 = "(54, 54)" and ?q0.0 = "(56, 56)" and ?q1.0 = "(60, 60)"
            and ?q2.0 = "(100, 100)" and ?q3.0 = "(100, 100)"]
    unfolding B by (simp add: luma_intra_side_def filterEdge_def)
  moreover have "deblock_v_luma_intra_8 20 10 intra_plane (- 1) 0 = fst r0"
    using deblock_v_luma_intra_8_at[of 20 10 0 intra_plane "- 1"] B
    by (simp add: intra_plane_def)
  ultimately show ?thesis
    by (simp add: luma_intra_side_spec_def filterEdge_def intra_plane_def)
qed

text \<open>
  C8 (amended).  The luma strong (intra) filter is symmetric under exchange of the two
  sides on every plane and for every \<open>alpha\<close>, \<open>beta\<close>: \<open>deblock_v_luma_intra_8\<close> on the
  mirrored rows \<open>(q3, q2, q1, q0, p0, p1, p2, p3)\<close> gives the mirrored result.  The luma
  normal filter is symmetric on every Line whose \<open>tc0\<close> byte is at most 92 or the sentinel
  and whose \<open>delta\<close> is not a tie of the rounding, that is
  \<open>(4*(q0-p0) + (p1-q1)) mod 8 \<noteq> 4\<close>: the Line \<open>(q2, q1, q0, p0, p1, p2)\<close> then gives
  \<open>(q1', q0', p0', p1')\<close>.  At a tie \<open>(x + 4) >> 3\<close> rounds the half upwards on both the Line
  and its mirror image, so the two \<open>delta\<close> are not opposite: the Line
  \<open>(104, 104, 100, 100, 100, 100)\<close> with \<open>alpha = beta = 10\<close>, \<open>tc0 = 1\<close> gets \<open>p0' = 101\<close>,
  \<open>q0' = 99\<close>, its mirror image is left with \<open>p0' = q0' = 100\<close>.
\<close>

theorem luma_side_exchange:
  "deblock_v_luma_intra_8 alpha beta (mirror img) = mirror (deblock_v_luma_intra_8 alpha beta img)
   \<and> ((4 * (uint q0 - uint p0) + (uint p1 - uint q1)) mod 8 \<noteq> 4
        \<and> (uint tc \<le> 92 \<or> tc = 0xFF) \<longrightarrow>
      deblock_v_luma_lane alpha beta tc (q2, q1, q0, p0, p1, p2) =
        mirror4 (deblock_v_luma_lane alpha beta tc (p2, p1, p0, q0, q1, q2)))"
proof (intro conjI impI)
  show "deblock_v_luma_intra_8 alpha beta (mirror img) =
      mirror (deblock_v_luma_intra_8 alpha beta img)"
    by (rule deblock_v_luma_intra_8_mirror)
next
  assume h: "(4 * (uint q0 - uint p0) + (uint p1 - uint q1)) mod 8 \<noteq> 4
    \<and> (uint tc \<le> 92 \<or> tc = 0xFF)"
  then have a: "(4 * (uint q0 - uint p0) + (uint p1 - uint q1)) mod 8 \<noteq> 4"
    and b: "uint tc \<le> 92 \<or> tc = 0xFF" by blast+
  from a b show "deblock_v_luma_lane alpha beta tc (q2, q1, q0, p0, p1, p2) =
      mirror4 (deblock_v_luma_lane alpha beta tc (p2, p1, p0, q0, q1, q2))"
    by (rule deblock_v_luma_lane_mirror)
qed

theorem luma_side_exchange_witness:
  "(4 * (uint (100::byte) - uint (102::byte)) + (uint (103::byte) - uint (100::byte))) mod 8 \<noteq> 4
   \<and> uint (1::byte) \<le> 92
   \<and> deblock_v_luma_lane 10 10 1 (100, 100, 100, 102, 103, 104) =
       mirror4 (deblock_v_luma_lane 10 10 1 (104, 103, 102, 100, 100, 100))
   \<and> uint4 (deblock_v_luma_lane 10 10 1 (104, 103, 102, 100, 100, 100)) = (102, 101, 101, 100)"
proof -
  have h: "(4 * (uint (100::byte) - uint (102::byte)) + (uint (103::byte) - uint (100::byte))) mod 8 \<noteq> 4"
    "uint (1::byte) \<le> 92"
    by simp_all
  have n: "uint4 (deblock_v_luma_lane 10 10 1 (104, 103, 102, 100, 100, 100)) = (102, 101, 101, 100)"
    by (simp add: deblock_v_luma_lane_general lane_mask_iff splat_pack_def packuswb_def
        Let_def luma_tC_def luma_p1_def clip3_def Clip1_def delta_raw_def)
  have m: "deblock_v_luma_lane 10 10 1 (100, 100, 100, 102, 103, 104) =
       mirror4 (deblock_v_luma_lane 10 10 1 (104, 103, 102, 100, 100, 100))"
    using h luma_side_exchange[where ?q0.0 = 100 and ?p0.0 = 102 and ?p1.0 = 103 and ?q1.0 = 100
        and tc = 1 and alpha = 10 and beta = 10 and ?q2.0 = 100 and ?p2.0 = 104]
    by blast
  show ?thesis using h m n by blast
qed

theorem luma_tie_mirror_counterexample:
  "uint4 (deblock_v_luma_lane 10 10 1 (104, 104, 100, 100, 100, 100)) = (103, 101, 99, 100)
   \<and> uint4 (deblock_v_luma_lane 10 10 1 (100, 100, 100, 100, 104, 104)) = (100, 100, 100, 103)
   \<and> uint4 (deblock_v_luma_lane 10 10 1 (100, 100, 100, 100, 104, 104)) \<noteq>
       mirror4 (uint4 (deblock_v_luma_lane 10 10 1 (104, 104, 100, 100, 100, 100)))"
proof -
  have a: "uint4 (deblock_v_luma_lane 10 10 1 (104, 104, 100, 100, 100, 100)) = (103, 101, 99, 100)"
    by (simp add: deblock_v_luma_lane_general lane_mask_iff splat_pack_def packuswb_def
        Let_def luma_tC_def luma_p1_def clip3_def Clip1_def delta_raw_def)
  have b: "uint4 (deblock_v_luma_lane 10 10 1 (100, 100, 100, 100, 104, 104)) = (100, 100, 100, 103)"
    by (simp add: deblock_v_luma_lane_general lane_mask_iff splat_pack_def packuswb_def
        Let_def luma_tC_def luma_p1_def clip3_def Clip1_def delta_raw_def)
  show ?thesis unfolding a b by (simp add: mirror4_def)
qed

text \<open>
  C7.  The horizontal entry points are the vertical entry points conjugated by the
  transposition: for every picture, every \<open>alpha\<close>, \<open>beta\<close>, \<open>tc0\<close> and whatever the stack held
  on entry, \<open>deblock_h_luma_8\<close> writes at row \<open>y\<close>, column \<open>x\<close> the byte that
  \<open>deblock_v_luma_8\<close> writes at row \<open>x\<close>, column \<open>y\<close> of the transposed picture, and it
  leaves every other byte as it was; likewise \<open>deblock_h_luma_intra_8\<close> and
  \<open>deblock_v_luma_intra_8\<close>.
\<close>

theorem deblock_h_luma_transpose_conjugate:
  "deblock_h_luma_8 alpha beta tc0 pix_tmp img =
      transpose_plane (deblock_v_luma_8 alpha beta tc0 (transpose_plane img))
   \<and> deblock_h_luma_intra_8 alpha beta pix_tmp img =
      transpose_plane (deblock_v_luma_intra_8 alpha beta (transpose_plane img))"
proof (intro conjI ext)
  fix y x
  show "deblock_h_luma_8 alpha beta tc0 pix_tmp img y x =
      transpose_plane (deblock_v_luma_8 alpha beta tc0 (transpose_plane img)) y x"
    unfolding deblock_h_luma_8_at transpose_plane_def[of "deblock_v_luma_8 alpha beta tc0 _"] ..
  show "deblock_h_luma_intra_8 alpha beta pix_tmp img y x =
      transpose_plane (deblock_v_luma_intra_8 alpha beta (transpose_plane img)) y x"
    unfolding deblock_h_luma_intra_8_at
      transpose_plane_def[of "deblock_v_luma_intra_8 alpha beta _"] ..
qed

end
